theory Spec2Isabelle
  imports Complex_Main "HOL-Library.Word"
begin

unbundle bit_operations_syntax

section \<open>Bytes, slices and text formatting\<close>

text \<open>
  A Python \<open>bytes\<close> value is a list of 8-bit words.  A Python \<open>str\<close> is a \<open>string\<close>;
  the source's Chinese literals are kept as their UTF-8 bytes (written \<open>CHR 0x..\<close>),
  each with an English gloss in a comment.  No function of the source measures or
  indexes such a literal, so the byte view and Python's code-point view agree on
  everything the decoder computes.
\<close>

type_synonym byte = "8 word"

text \<open>\<open>b[i:j]\<close> for \<open>0 \<le> i \<le> j\<close>: never raises, clipped to the buffer.\<close>

definition py_slice :: "'a list \<Rightarrow> nat \<Rightarrow> nat \<Rightarrow> 'a list" where
  "py_slice xs i j = take (j - i) (drop i xs)"

text \<open>\<open>int.from_bytes(bs, byteorder='little')\<close> and \<open>byteorder='big'\<close>.\<close>

fun from_bytes_little :: "byte list \<Rightarrow> nat" where
  "from_bytes_little [] = 0"
| "from_bytes_little (b # bs) = unat b + 256 * from_bytes_little bs"

definition from_bytes_big :: "byte list \<Rightarrow> nat" where
  "from_bytes_big bs = from_bytes_little (rev bs)"

text \<open>\<open>int.from_bytes(body[i:j], byteorder='little')\<close>.\<close>

definition int_le :: "byte list \<Rightarrow> nat \<Rightarrow> nat \<Rightarrow> nat" where
  "int_le body i j = from_bytes_little (py_slice body i j)"

definition digit_char :: "nat \<Rightarrow> char" where
  "digit_char d = (''0123456789ABCDEF'') ! d"

fun digits_of :: "nat \<Rightarrow> nat \<Rightarrow> nat list" where
  "digits_of base n =
     (if base < 2 \<or> n < base then [n] else digits_of base (n div base) @ [n mod base])"

declare digits_of.simps [simp del]

text \<open>\<open>f"{n:0wd}"\<close> and \<open>f"{n:0wX}"\<close> for a non-negative \<open>n\<close>; \<open>w = 0\<close> is \<open>f"{n}"\<close>.\<close>

definition zero_pad :: "nat \<Rightarrow> string \<Rightarrow> string" where
  "zero_pad w s = replicate (w - length s) (CHR ''0'') @ s"

definition fmt_dec :: "nat \<Rightarrow> nat \<Rightarrow> string" where
  "fmt_dec w n = zero_pad w (map digit_char (digits_of 10 n))"

definition fmt_hex :: "nat \<Rightarrow> nat \<Rightarrow> string" where
  "fmt_hex w n = zero_pad w (map digit_char (digits_of 16 n))"

text \<open>\<open>bs.hex().upper()\<close>.\<close>

definition hex_upper :: "byte list \<Rightarrow> string" where
  "hex_upper bs = concat (map (\<lambda>b. [digit_char (unat b div 16), digit_char (unat b mod 16)]) bs)"

text \<open>\<open>d.get(k, default)\<close> on a dict literal, kept as an association list.\<close>

definition dict_get :: "('k \<times> 'v) list \<Rightarrow> 'k \<Rightarrow> 'v \<Rightarrow> 'v" where
  "dict_get d k dflt = (case map_of d k of Some v \<Rightarrow> v | None \<Rightarrow> dflt)"

text \<open>\<open>sep.join(xs)\<close>.\<close>

fun join :: "string \<Rightarrow> string list \<Rightarrow> string" where
  "join sep [] = []"
| "join sep [x] = x"
| "join sep (x # y # ys) = x @ sep @ join sep (y # ys)"

section \<open>Values, diagnostics and the parser context\<close>

text \<open>
  The values a decoder stores in its result dict.  A Python float is kept as the exact
  quotient it rounds: \<open>n / 10.0\<close> is \<open>PFloat (real n / 10)\<close>.  Python returns the double
  nearest to that quotient, which is the quotient itself whenever it is a dyadic
  rational with a numerator below \<open>2 ^ 53\<close>.
\<close>

datatype pyval =
    PStr string
  | PInt int
  | PFloat real
  | PBool bool
  | PList "pyval list"
  | PDict "(string \<times> pyval) list"

type_synonym fields = "(string \<times> pyval) list"

datatype pyexn = IndexError | ValueError

text \<open>The decoder classes of \<open>frame_parsers.py\<close>; \<open>self.__class__.__name__\<close> is the constructor.\<close>

datatype parser_class =
    LoginParser | LoginResponseParser | HeartbeatParser | HeartbeatResponseParser
  | ReadRealtimeParser | RealtimeDataParser | ChargingHandshakeParser
  | ParameterConfigParser | ChargingEndParser | ErrorMessageParser
  | BMSStopParser | ChargerStopParser | BMSDemandOutputParser | BMSInfoParser
  | ChargingStartRequestParser | ChargingStartConfirmParser
  | RemoteStartReplyParser | RemoteStartCommandParser
  | RemoteStopReplyParser | RemoteStopCommandParser
  | TransactionRecordParser | TransactionConfirmParser
  | BalanceUpdateRequestParser | BalanceUpdateResponseParser
  | OfflineCardSyncParser | OfflineCardSyncResponseParser
  | OfflineCardDeleteParser | OfflineCardDeleteResponseParser
  | OfflineCardQueryParser | OfflineCardQueryResponseParser
  | WorkParameterSetResponseParser | WorkParameterSetParser
  | TimeSyncResponseParser | TimeSyncParser
  | BillingModelResponseParser | BillingModelSetParser
  | ParkingLockStatusParser | ParkingLockControlParser | ParkingLockResponseParser
  | RemoteRebootResponseParser | RemoteRebootParser
  | RemoteUpdateResponseParser | RemoteUpdateParser
  | ParallelChargingRequestParser | ParallelChargingConfirmParser
  | ParallelChargingReplyParser | ParallelChargingCommandParser
  | QRCodePrefixSetParser | QRCodePrefixSetResponseParser
  | DefaultParser

text \<open>
  The entries of \<open>context.errors\<close> and \<open>context.warnings\<close>.  Every message of the
  source is an f-string with a fixed text, different from that of every other message,
  around some numbers; a constructor stands for the fixed text and carries the numbers.

  From \<open>parse_ykc.py\<close>:
  \<^item> \<open>StartFlagError f\<close>: "start flag wrong: expected 0x68, got 0x\<open>f\<close>" (line 201);
  \<^item> \<open>LengthMismatch e a\<close>: "frame length does not match: expected \<open>e\<close> bytes, got \<open>a\<close> bytes"
    (line 208);
  \<^item> \<open>NoSequenceNumber\<close>, \<open>NoEncryptFlag\<close>, \<open>NoFrameType\<close>: "frame too short, cannot read
    the sequence number / encryption flag / frame type" (lines 217, 226, 239);
  \<^item> \<open>UnknownFrameType t\<close>: "unknown frame type: 0x\<open>t\<close>" (line 237);
  \<^item> \<open>DataLengthFieldError n\<close>: "data length field wrong: \<open>n\<close>" (line 245);
  \<^item> \<open>BodyIncomplete n a\<close>: "frame too short to read the whole body: need \<open>n\<close> bytes,
    got \<open>a\<close> bytes" (line 252);
  \<^item> \<open>CrcMismatch r c\<close>: "CRC16 check failed: expected 0x\<open>r\<close>, computed 0x\<open>c\<close>" (line 276);
  \<^item> \<open>CrcUnreadable\<close>: "frame too short, cannot read the CRC16 checksum" (line 283);
  \<^item> \<open>BodyParseFailed e\<close>: "body parsing failed: \<open>str(e)\<close>" (line 293).

  From \<open>frame_parsers.py\<close> and the helpers of \<open>ParserContext\<close>:
  \<^item> \<open>BodyTooShort c n a\<close>: "\<open>c\<close> body too short: need \<open>n\<close> bytes, got \<open>a\<close> bytes"
    (\<open>validate_length\<close>);
  \<^item> \<open>OfflineCardShort n a\<close>: "offline card data too short: need \<open>n\<close> bytes, got \<open>a\<close> bytes"
    (lines 1014, 1083, 1159);
  \<^item> \<open>AsciiNonPrintable bs\<close>: "ASCII field contains non-ASCII characters: \<open>bs.hex()\<close>";
  \<^item> \<open>AsciiDecodeFailed bs\<close>: "ASCII decoding failed: \<open>bs.hex()\<close>";
  \<^item> \<open>QrPrefixIncomplete e a\<close>, \<open>QrPrefixExcess e a\<close>: "QR code prefix data incomplete /
    longer than expected: expected \<open>e\<close> bytes, got \<open>a\<close> bytes" (lines 1885, 1889);
  \<^item> \<open>QrSuccessNote\<close>: the fixed note of line 1920.
\<close>

datatype diag =
    StartFlagError nat
  | LengthMismatch nat nat
  | NoSequenceNumber
  | NoEncryptFlag
  | NoFrameType
  | UnknownFrameType nat
  | DataLengthFieldError nat
  | BodyIncomplete nat nat
  | CrcMismatch nat nat
  | CrcUnreadable
  | BodyParseFailed pyexn
  | BodyTooShort parser_class nat nat
  | OfflineCardShort nat nat
  | AsciiNonPrintable "byte list"
  | AsciiDecodeFailed "byte list"
  | QrPrefixIncomplete nat nat
  | QrPrefixExcess nat nat
  | QrSuccessNote

text \<open>\<open>ParserContext\<close>: the two lists every decode call appends to.\<close>

record ctx =
  errors :: "diag list"
  warnings :: "diag list"

definition add_error :: "diag \<Rightarrow> ctx \<Rightarrow> ctx" where
  "add_error e c = c\<lparr>errors := errors c @ [e]\<rparr>"

definition add_warning :: "diag \<Rightarrow> ctx \<Rightarrow> ctx" where
  "add_warning w c = c\<lparr>warnings := warnings c @ [w]\<rparr>"

section \<open>ParserContext: the field codec primitives\<close>

text \<open>
  \<open>ParserContext.bcd_to_str\<close>: \<open>''.join(f"{b:02X}" for b in bcd_bytes)\<close>.  Formatting
  a byte cannot raise, so the \<open>except\<close> branch is dead.
\<close>

definition bcd_to_str :: "byte list \<Rightarrow> string" where
  "bcd_to_str bcd_bytes = concat (map (\<lambda>b. fmt_hex 2 (unat b)) bcd_bytes)"

text \<open>\<open>bs.rstrip(b'\x00')\<close>.\<close>

definition rstrip_zero :: "byte list \<Rightarrow> byte list" where
  "rstrip_zero bs = rev (dropWhile (\<lambda>b. b = 0) (rev bs))"

definition ascii_decode :: "byte list \<Rightarrow> string" where
  "ascii_decode bs = map (\<lambda>b. char_of (unat b)) bs"

text \<open>
  \<open>ParserContext.ascii_to_str\<close>.  \<open>decode('ascii')\<close> raises on a byte of 0x80 or more,
  and \<open>rstrip\<close> removes zero bytes only, so the \<open>except\<close> branch is taken exactly when
  the field holds such a byte.  Otherwise the warning is for a character that is neither
  printable (32 to 126) nor NUL.
\<close>

definition ascii_to_str :: "ctx \<Rightarrow> byte list \<Rightarrow> string \<times> ctx" where
  "ascii_to_str c ascii_bytes =
     (if \<exists>b \<in> set ascii_bytes. 128 \<le> unat b
      then (hex_upper ascii_bytes, add_warning (AsciiDecodeFailed ascii_bytes) c)
      else
        let text = ascii_decode (rstrip_zero ascii_bytes) in
        if \<not> (\<forall>b \<in> set ascii_bytes. (32 \<le> unat b \<and> unat b < 127) \<or> unat b = 0)
        then (text, add_warning (AsciiNonPrintable ascii_bytes) c)
        else (text, c))"

definition invalid_time :: string where
  "invalid_time = [CHR 0xE6, CHR 0x97, CHR 0xA0, CHR 0xE6, CHR 0x95, CHR 0x88, CHR 0xE6, CHR 0x97, CHR 0xB6, CHR 0xE9, CHR 0x97, CHR 0xB4] \<comment> \<open>invalid time\<close>"

text \<open>
  \<open>ParserContext.parse_cp56time2a\<close>.  With at least 7 bytes no statement of the
  \<open>try\<close> block can raise (indexes 2 to 6 exist, the formats take any integer), so the
  \<open>except\<close> branch and its warning are unreachable and the function is pure.
\<close>

definition parse_cp56time2a :: "byte list \<Rightarrow> string" where
  "parse_cp56time2a time_bytes =
     (if length time_bytes < 7 then invalid_time
      else
        let millisec = from_bytes_little (py_slice time_bytes 0 2);
            minute = unat (time_bytes ! 2 AND 0x3F);
            hour = unat (time_bytes ! 3 AND 0x1F);
            day = unat (time_bytes ! 4 AND 0x1F);
            month = unat (time_bytes ! 5 AND 0x0F);
            year = 2000 + unat (time_bytes ! 6 AND 0x7F);
            seconds = millisec div 1000;
            millis = millisec mod 1000
        in fmt_dec 4 year @ ''-'' @ fmt_dec 2 month @ ''-'' @ fmt_dec 2 day @ '' '' @
           fmt_dec 2 hour @ '':'' @ fmt_dec 2 minute @ '':'' @ fmt_dec 2 seconds @ ''.'' @
           fmt_dec 3 millis)"

definition fault_names :: "string list" where
  "fault_names =
     [[CHR 0xE6, CHR 0x80, CHR 0xA5, CHR 0xE5, CHR 0x81, CHR 0x9C, CHR 0xE6, CHR 0x8C, CHR 0x89, CHR 0xE9, CHR 0x92, CHR 0xAE, CHR 0xE5, CHR 0x8A, CHR 0xA8, CHR 0xE4, CHR 0xBD, CHR 0x9C] \<comment> \<open>emergency stop pressed\<close>,
      [CHR 0xE6, CHR 0x97, CHR 0xA0, CHR 0xE5, CHR 0x8F, CHR 0xAF, CHR 0xE7, CHR 0x94, CHR 0xA8, CHR 0xE6, CHR 0x95, CHR 0xB4, CHR 0xE6, CHR 0xB5, CHR 0x81, CHR 0xE6, CHR 0xA8, CHR 0xA1, CHR 0xE5, CHR 0x9D, CHR 0x97] \<comment> \<open>no rectifier module available\<close>,
      [CHR 0xE5, CHR 0x87, CHR 0xBA, CHR 0xE9, CHR 0xA3, CHR 0x8E, CHR 0xE5, CHR 0x8F, CHR 0xA3, CHR 0xE6, CHR 0xB8, CHR 0xA9, CHR 0xE5, CHR 0xBA, CHR 0xA6, CHR 0xE8, CHR 0xBF, CHR 0x87, CHR 0xE9, CHR 0xAB, CHR 0x98] \<comment> \<open>air outlet too hot\<close>,
      [CHR 0xE4, CHR 0xBA, CHR 0xA4, CHR 0xE6, CHR 0xB5, CHR 0x81, CHR 0xE9, CHR 0x98, CHR 0xB2, CHR 0xE9, CHR 0x9B, CHR 0xB7, CHR 0xE6, CHR 0x95, CHR 0x85, CHR 0xE9, CHR 0x9A, CHR 0x9C] \<comment> \<open>AC lightning protection fault\<close>,
      [CHR 0x44, CHR 0x43, CHR 0x32, CHR 0x30, CHR 0xE9, CHR 0x80, CHR 0x9A, CHR 0xE4, CHR 0xBF, CHR 0xA1, CHR 0xE4, CHR 0xB8, CHR 0xAD, CHR 0xE6, CHR 0x96, CHR 0xAD] \<comment> \<open>DC20 communication lost\<close>,
      [CHR 0x46, CHR 0x43, CHR 0x30, CHR 0x38, CHR 0xE9, CHR 0x80, CHR 0x9A, CHR 0xE4, CHR 0xBF, CHR 0xA1, CHR 0xE4, CHR 0xB8, CHR 0xAD, CHR 0xE6, CHR 0x96, CHR 0xAD] \<comment> \<open>FC08 communication lost\<close>,
      [CHR 0xE7, CHR 0x94, CHR 0xB5, CHR 0xE5, CHR 0xBA, CHR 0xA6, CHR 0xE8, CHR 0xA1, CHR 0xA8, CHR 0xE9, CHR 0x80, CHR 0x9A, CHR 0xE4, CHR 0xBF, CHR 0xA1, CHR 0xE4, CHR 0xB8, CHR 0xAD, CHR 0xE6, CHR 0x96, CHR 0xAD] \<comment> \<open>energy meter communication lost\<close>,
      [CHR 0xE8, CHR 0xAF, CHR 0xBB, CHR 0xE5, CHR 0x8D, CHR 0xA1, CHR 0xE5, CHR 0x99, CHR 0xA8, CHR 0xE9, CHR 0x80, CHR 0x9A, CHR 0xE4, CHR 0xBF, CHR 0xA1, CHR 0xE4, CHR 0xB8, CHR 0xAD, CHR 0xE6, CHR 0x96, CHR 0xAD] \<comment> \<open>card reader communication lost\<close>,
      [CHR 0x52, CHR 0x43, CHR 0x31, CHR 0x30, CHR 0xE9, CHR 0x80, CHR 0x9A, CHR 0xE4, CHR 0xBF, CHR 0xA1, CHR 0xE4, CHR 0xB8, CHR 0xAD, CHR 0xE6, CHR 0x96, CHR 0xAD] \<comment> \<open>RC10 communication lost\<close>,
      [CHR 0xE9, CHR 0xA3, CHR 0x8E, CHR 0xE6, CHR 0x89, CHR 0x87, CHR 0xE8, CHR 0xB0, CHR 0x83, CHR 0xE9, CHR 0x80, CHR 0x9F, CHR 0xE6, CHR 0x9D, CHR 0xBF, CHR 0xE6, CHR 0x95, CHR 0x85, CHR 0xE9, CHR 0x9A, CHR 0x9C] \<comment> \<open>fan speed board fault\<close>,
      [CHR 0xE7, CHR 0x9B, CHR 0xB4, CHR 0xE6, CHR 0xB5, CHR 0x81, CHR 0xE7, CHR 0x86, CHR 0x94, CHR 0xE6, CHR 0x96, CHR 0xAD, CHR 0xE5, CHR 0x99, CHR 0xA8, CHR 0xE6, CHR 0x95, CHR 0x85, CHR 0xE9, CHR 0x9A, CHR 0x9C] \<comment> \<open>DC fuse fault\<close>,
      [CHR 0xE9, CHR 0xAB, CHR 0x98, CHR 0xE5, CHR 0x8E, CHR 0x8B, CHR 0xE6, CHR 0x8E, CHR 0xA5, CHR 0xE8, CHR 0xA7, CHR 0xA6, CHR 0xE5, CHR 0x99, CHR 0xA8, CHR 0xE6, CHR 0x95, CHR 0x85, CHR 0xE9, CHR 0x9A, CHR 0x9C] \<comment> \<open>high-voltage contactor fault\<close>,
      [CHR 0xE9, CHR 0x97, CHR 0xA8, CHR 0xE6, CHR 0x89, CHR 0x93, CHR 0xE5, CHR 0xBC, CHR 0x80] \<comment> \<open>door open\<close>]"

text \<open>\<open>ParserContext.parse_fault_bits\<close>: the names of the set bits, in table order.\<close>

definition parse_fault_bits :: "nat \<Rightarrow> string list" where
  "parse_fault_bits fault =
     (let faults = map snd (filter (\<lambda>(i, name). fault AND push_bit i 1 \<noteq> 0)
                                   (zip [0..<length fault_names] fault_names))
      in if faults \<noteq> [] then faults else [[CHR 0xE6, CHR 0x97, CHR 0xA0, CHR 0xE6, CHR 0x95, CHR 0x85, CHR 0xE9, CHR 0x9A, CHR 0x9C] \<comment> \<open>no fault\<close>])"

section \<open>FrameParser: the base class of the body decoders\<close>

text \<open>
  What \<open>parser.parse(body)\<close> produces: the result dict, or the exception it raises,
  next to the context as the call leaves it.
\<close>

type_synonym body_outcome = "pyexn + fields"

text \<open>
  \<open>body[i]\<close> followed by the rest of the method: Python raises \<open>IndexError\<close> when
  \<open>i\<close> is not below \<open>len(body)\<close>, and what the method had appended to the context
  before stays there.
\<close>

definition index :: "byte list \<Rightarrow> nat \<Rightarrow> ctx \<Rightarrow> (nat \<Rightarrow> body_outcome \<times> ctx) \<Rightarrow> body_outcome \<times> ctx" where
  "index body i c k = (if i < length body then k (unat (body ! i)) else (Inl IndexError, c))"

text \<open>The property \<open>expected_min_length\<close> of each class.\<close>

fun expected_min_length :: "parser_class \<Rightarrow> nat" where
  "expected_min_length LoginParser = 28"
| "expected_min_length LoginResponseParser = 8"
| "expected_min_length HeartbeatParser = 7"
| "expected_min_length HeartbeatResponseParser = 7"
| "expected_min_length ReadRealtimeParser = 8"
| "expected_min_length RealtimeDataParser = 58"
| "expected_min_length ChargingHandshakeParser = 65"
| "expected_min_length ParameterConfigParser = 41"
| "expected_min_length ChargingEndParser = 35"
| "expected_min_length ErrorMessageParser = 32"
| "expected_min_length BMSStopParser = 28"
| "expected_min_length ChargerStopParser = 28"
| "expected_min_length BMSDemandOutputParser = 40"
| "expected_min_length BMSInfoParser = 31"
| "expected_min_length ChargingStartRequestParser = 21"
| "expected_min_length ChargingStartConfirmParser = 13"
| "expected_min_length RemoteStartReplyParser = 15"
| "expected_min_length RemoteStartCommandParser = 21"
| "expected_min_length RemoteStopReplyParser = 14"
| "expected_min_length RemoteStopCommandParser = 12"
| "expected_min_length TransactionRecordParser = 132"
| "expected_min_length TransactionConfirmParser = 17"
| "expected_min_length BalanceUpdateRequestParser = 20"
| "expected_min_length BalanceUpdateResponseParser = 16"
| "expected_min_length OfflineCardSyncParser = 8"
| "expected_min_length OfflineCardSyncResponseParser = 9"
| "expected_min_length OfflineCardDeleteParser = 8"
| "expected_min_length OfflineCardDeleteResponseParser = 7"
| "expected_min_length OfflineCardQueryParser = 8"
| "expected_min_length OfflineCardQueryResponseParser = 7"
| "expected_min_length WorkParameterSetResponseParser = 8"
| "expected_min_length WorkParameterSetParser = 18"
| "expected_min_length TimeSyncResponseParser = 8"
| "expected_min_length TimeSyncParser = 14"
| "expected_min_length BillingModelResponseParser = 8"
| "expected_min_length BillingModelSetParser = 29"
| "expected_min_length ParkingLockStatusParser = 9"
| "expected_min_length ParkingLockControlParser = 8"
| "expected_min_length ParkingLockResponseParser = 8"
| "expected_min_length RemoteRebootResponseParser = 8"
| "expected_min_length RemoteRebootParser = 7"
| "expected_min_length RemoteUpdateResponseParser = 8"
| "expected_min_length RemoteUpdateParser = 17"
| "expected_min_length ParallelChargingRequestParser = 8"
| "expected_min_length ParallelChargingConfirmParser = 8"
| "expected_min_length ParallelChargingReplyParser = 8"
| "expected_min_length ParallelChargingCommandParser = 8"
| "expected_min_length QRCodePrefixSetParser = 9"
| "expected_min_length QRCodePrefixSetResponseParser = 8"
| "expected_min_length DefaultParser = 0"

text \<open>\<open>FrameParser.validate_length\<close>.\<close>

definition validate_length :: "parser_class \<Rightarrow> ctx \<Rightarrow> byte list \<Rightarrow> bool \<times> ctx" where
  "validate_length cls c body =
     (if length body < expected_min_length cls
      then (False, add_error (BodyTooShort cls (expected_min_length cls) (length body)) c)
      else (True, c))"

text \<open>
  Every \<open>parse\<close> but the default one starts with
  \<open>if not self.validate_length(body): return {}\<close>; \<open>validated cls c body rest\<close> is that
  guard followed by the rest of the method.
\<close>

definition validated :: "parser_class \<Rightarrow> ctx \<Rightarrow> byte list \<Rightarrow> (ctx \<Rightarrow> body_outcome \<times> ctx) \<Rightarrow> body_outcome \<times> ctx" where
  "validated cls c body rest =
     (case validate_length cls c body of
        (False, c') \<Rightarrow> (Inr [], c')
      | (True, c') \<Rightarrow> rest c')"

text \<open>The shared f-string \<open>f"unknown({n})"\<close>, with the Chinese word for unknown.\<close>

definition unknown_code :: "nat \<Rightarrow> string" where
  "unknown_code n = [CHR 0xE6, CHR 0x9C, CHR 0xAA, CHR 0xE7, CHR 0x9F, CHR 0xA5] \<comment> \<open>unknown\<close> @ ''('' @ fmt_dec 0 n @ '')''"

text \<open>\<open>f"{n:016X}" if n > 0 else none_text\<close>, the rendering of a physical card number.\<close>

definition card_hex :: "nat \<Rightarrow> string \<Rightarrow> string" where
  "card_hex n none_text = (if n > 0 then fmt_hex 16 n else none_text)"

section \<open>Body decoders: login, heartbeat and live data\<close>

text \<open>
  Each \<open>parse\<close> method is translated with its reads in program order.  The source
  advances a local \<open>offset\<close>; the model writes the positions it reaches.  A slice
  \<open>body[i:j]\<close> never raises; an index \<open>body[i]\<close> does, through \<open>index\<close>.
\<close>

text \<open>
  \<open>LoginParser.parse\<close> (0x01).  \<open>f"v{protocol_version / 10:.1f}"\<close> prints a byte's tenth
  with one decimal: the integer part, a dot and the last decimal digit.
\<close>

definition LoginParser_parse :: "ctx \<Rightarrow> byte list \<Rightarrow> body_outcome \<times> ctx" where
  "LoginParser_parse c0 body =
     validated LoginParser c0 body (\<lambda>c.
       index body 7 c (\<lambda>pile_type.
       index body 8 c (\<lambda>gun_count.
       index body 9 c (\<lambda>protocol_version.
       (case ascii_to_str c (py_slice body 10 18) of (program_version, c) \<Rightarrow>
       index body 18 c (\<lambda>network_type.
       index body 29 c (\<lambda>operator.
         (Inr [(''pile_code'', PStr (bcd_to_str (py_slice body 0 7))),
               (''pile_type'', PStr (if pile_type = 0 then [CHR 0xE7, CHR 0x9B, CHR 0xB4, CHR 0xE6, CHR 0xB5, CHR 0x81, CHR 0xE6, CHR 0xA1, CHR 0xA9] \<comment> \<open>DC pile\<close> else [CHR 0xE4, CHR 0xBA, CHR 0xA4, CHR 0xE6, CHR 0xB5, CHR 0x81, CHR 0xE6, CHR 0xA1, CHR 0xA9] \<comment> \<open>AC pile\<close>)),
               (''pile_type_code'', PInt (int pile_type)),
               (''gun_count'', PInt (int gun_count)),
               (''protocol_version'',
                  PStr (''v'' @ fmt_dec 0 (protocol_version div 10) @ ''.'' @
                        fmt_dec 0 (protocol_version mod 10))),
               (''program_version'', PStr program_version),
               (''network_type'',
                  PStr (dict_get [(0, [CHR 0x53, CHR 0x49, CHR 0x4D, CHR 0xE5, CHR 0x8D, CHR 0xA1] \<comment> \<open>SIM card\<close>), (1, ''LAN''), (2, ''WAN''), (3, [CHR 0xE5, CHR 0x85, CHR 0xB6, CHR 0xE4, CHR 0xBB, CHR 0x96] \<comment> \<open>other\<close>)]
                          network_type (unknown_code network_type))),
               (''sim_card'', PStr (bcd_to_str (py_slice body 19 29))),
               (''operator'',
                  PStr (dict_get [(0, [CHR 0xE7, CHR 0xA7, CHR 0xBB, CHR 0xE5, CHR 0x8A, CHR 0xA8] \<comment> \<open>China Mobile\<close>), (2, [CHR 0xE7, CHR 0x94, CHR 0xB5, CHR 0xE4, CHR 0xBF, CHR 0xA1] \<comment> \<open>China Telecom\<close>),
                                  (3, [CHR 0xE8, CHR 0x81, CHR 0x94, CHR 0xE9, CHR 0x80, CHR 0x9A] \<comment> \<open>China Unicom\<close>), (4, [CHR 0xE5, CHR 0x85, CHR 0xB6, CHR 0xE4, CHR 0xBB, CHR 0x96] \<comment> \<open>other\<close>)]
                          operator (unknown_code operator)))],
          c))))))))"

text \<open>\<open>LoginResponseParser.parse\<close> (0x02).\<close>

definition LoginResponseParser_parse :: "ctx \<Rightarrow> byte list \<Rightarrow> body_outcome \<times> ctx" where
  "LoginResponseParser_parse c0 body =
     validated LoginResponseParser c0 body (\<lambda>c.
       index body 7 c (\<lambda>login_result.
         (Inr [(''pile_code'', PStr (bcd_to_str (py_slice body 0 7))),
               (''login_result'',
                  PStr (if login_result = 0 then [CHR 0xE7, CHR 0x99, CHR 0xBB, CHR 0xE5, CHR 0xBD, CHR 0x95, CHR 0xE6, CHR 0x88, CHR 0x90, CHR 0xE5, CHR 0x8A, CHR 0x9F] \<comment> \<open>login succeeded\<close> else [CHR 0xE7, CHR 0x99, CHR 0xBB, CHR 0xE5, CHR 0xBD, CHR 0x95, CHR 0xE5, CHR 0xA4, CHR 0xB1, CHR 0xE8, CHR 0xB4, CHR 0xA5] \<comment> \<open>login failed\<close>)),
               (''login_result_code'', PInt (int login_result))],
          c)))"

text \<open>\<open>HeartbeatParser.parse\<close> (0x03) and \<open>HeartbeatResponseParser.parse\<close> (0x04).\<close>

definition HeartbeatParser_parse :: "ctx \<Rightarrow> byte list \<Rightarrow> body_outcome \<times> ctx" where
  "HeartbeatParser_parse c0 body =
     validated HeartbeatParser c0 body (\<lambda>c.
       (Inr [(''pile_code'', PStr (bcd_to_str (py_slice body 0 7)))], c))"

definition HeartbeatResponseParser_parse :: "ctx \<Rightarrow> byte list \<Rightarrow> body_outcome \<times> ctx" where
  "HeartbeatResponseParser_parse c0 body =
     validated HeartbeatResponseParser c0 body (\<lambda>c.
       (Inr [(''pile_code'', PStr (bcd_to_str (py_slice body 0 7)))], c))"

text \<open>\<open>ReadRealtimeParser.parse\<close> (0x12).\<close>

definition ReadRealtimeParser_parse :: "ctx \<Rightarrow> byte list \<Rightarrow> body_outcome \<times> ctx" where
  "ReadRealtimeParser_parse c0 body =
     validated ReadRealtimeParser c0 body (\<lambda>c.
       index body 7 c (\<lambda>gun.
         (Inr [(''pile_code'', PStr (bcd_to_str (py_slice body 0 7))),
               (''gun_number'', PStr (fmt_hex 2 gun))],
          c)))"

text \<open>\<open>RealtimeDataParser.parse\<close> (0x13).\<close>

definition RealtimeDataParser_parse :: "ctx \<Rightarrow> byte list \<Rightarrow> body_outcome \<times> ctx" where
  "RealtimeDataParser_parse c0 body =
     validated RealtimeDataParser c0 body (\<lambda>c.
       index body 23 c (\<lambda>gun.
       index body 24 c (\<lambda>status.
       index body 25 c (\<lambda>gun_returned.
       index body 26 c (\<lambda>gun_plugged.
       index body 31 c (\<lambda>cable_temperature.
       index body 40 c (\<lambda>soc.
       index body 41 c (\<lambda>battery_max_temperature.
         (let voltage = int_le body 27 29;
              current = int_le body 29 31;
              charge_time = int_le body 42 44;
              remain_time = int_le body 44 46;
              energy = int_le body 46 50;
              energy_loss = int_le body 50 54;
              amount = int_le body 54 58;
              fault = int_le body 58 60
          in
          (Inr [(''transaction_id'', PStr (bcd_to_str (py_slice body 0 16))),
                (''pile_code'', PStr (bcd_to_str (py_slice body 16 23))),
                (''gun_number'', PStr (fmt_hex 2 gun)),
                (''status'',
                   PStr (dict_get [(0, [CHR 0xE7, CHR 0xA6, CHR 0xBB, CHR 0xE7, CHR 0xBA, CHR 0xBF] \<comment> \<open>offline\<close>), (1, [CHR 0xE6, CHR 0x95, CHR 0x85, CHR 0xE9, CHR 0x9A, CHR 0x9C] \<comment> \<open>fault\<close>), (2, [CHR 0xE7, CHR 0xA9, CHR 0xBA, CHR 0xE9, CHR 0x97, CHR 0xB2] \<comment> \<open>idle\<close>),
                                   (3, [CHR 0xE5, CHR 0x85, CHR 0x85, CHR 0xE7, CHR 0x94, CHR 0xB5] \<comment> \<open>charging\<close>)]
                           status (unknown_code status))),
                (''status_code'', PInt (int status)),
                (''gun_returned'',
                   PStr (dict_get [(0, [CHR 0xE5, CHR 0x90, CHR 0xA6] \<comment> \<open>no\<close>), (1, [CHR 0xE6, CHR 0x98, CHR 0xAF] \<comment> \<open>yes\<close>), (2, [CHR 0xE6, CHR 0x9C, CHR 0xAA, CHR 0xE7, CHR 0x9F, CHR 0xA5] \<comment> \<open>unknown\<close>)]
                           gun_returned [CHR 0xE6, CHR 0x9C, CHR 0xAA, CHR 0xE7, CHR 0x9F, CHR 0xA5] \<comment> \<open>unknown\<close>)),
                (''gun_plugged'', PStr (if gun_plugged = 1 then [CHR 0xE6, CHR 0x98, CHR 0xAF] \<comment> \<open>yes\<close> else [CHR 0xE5, CHR 0x90, CHR 0xA6] \<comment> \<open>no\<close>)),
                (''output_voltage'', PFloat (real voltage / 10)),
                (''output_current'', PFloat (real current / 10)),
                (''cable_temperature'', PInt (int cable_temperature - 50)),
                (''cable_code'', PStr (hex_upper (py_slice body 32 40))),
                (''soc'', PInt (int soc)),
                (''battery_max_temperature'', PInt (int battery_max_temperature - 50)),
                (''total_charge_time_minutes'', PInt (int charge_time)),
                (''remaining_time_minutes'', PInt (int remain_time)),
                (''charged_energy_kwh'', PFloat (real energy / 10000)),
                (''charged_energy_with_loss_kwh'', PFloat (real energy_loss / 10000)),
                (''charged_amount_yuan'', PFloat (real amount / 10000)),
                (''hardware_fault_code'', PStr (''0x'' @ fmt_hex 4 fault)),
                (''hardware_faults'', PList (map PStr (parse_fault_bits fault)))],
           c))))))))))"

text \<open>
  \<open>ChargingHandshakeParser.parse\<close> (0x15).  \<open>version_bytes[2]\<close> indexes the slice
  \<open>body[24:27]\<close>, so it raises exactly when \<open>body[26]\<close> would.
\<close>

definition ChargingHandshakeParser_parse :: "ctx \<Rightarrow> byte list \<Rightarrow> body_outcome \<times> ctx" where
  "ChargingHandshakeParser_parse c0 body =
     validated ChargingHandshakeParser c0 body (\<lambda>c.
       index body 26 c (\<lambda>version_major.
       index body 27 c (\<lambda>battery_type.
       (case ascii_to_str c (py_slice body 32 36) of (bms_manufacturer, c) \<Rightarrow>
       index body 40 c (\<lambda>year_byte.
       index body 41 c (\<lambda>month.
       index body 42 c (\<lambda>day.
       index body 46 c (\<lambda>ownership.
       (case ascii_to_str c (py_slice body 48 65) of (bms_vin, c) \<Rightarrow>
         (let capacity = int_le body 28 30;
              voltage = int_le body 30 32;
              year = year_byte + 1985;
              charge_times = int_le body 43 46
          in
          (Inr [(''transaction_id'', PStr (bcd_to_str (py_slice body 0 16))),
                (''pile_code'', PStr (bcd_to_str (py_slice body 16 23))),
                (''gun_number'', PStr (bcd_to_str (py_slice body 23 24))),
                (''bms_protocol_version'',
                   PStr (''V'' @ fmt_dec 0 version_major @ ''.'' @
                         fmt_dec 0 (from_bytes_little (py_slice (py_slice body 24 27) 0 2)))),
                (''bms_battery_type'',
                   PStr (dict_get [(0x01, [CHR 0xE9, CHR 0x93, CHR 0x85, CHR 0xE9, CHR 0x85, CHR 0xB8, CHR 0xE7, CHR 0x94, CHR 0xB5, CHR 0xE6, CHR 0xB1, CHR 0xA0] \<comment> \<open>lead-acid battery\<close>),
                                   (0x02, [CHR 0xE6, CHR 0xB0, CHR 0xA2, CHR 0xE7, CHR 0x94, CHR 0xB5, CHR 0xE6, CHR 0xB1, CHR 0xA0] \<comment> \<open>hydrogen battery\<close>),
                                   (0x03, [CHR 0xE7, CHR 0xA3, CHR 0xB7, CHR 0xE9, CHR 0x85, CHR 0xB8, CHR 0xE9, CHR 0x93, CHR 0x81, CHR 0xE9, CHR 0x94, CHR 0x82, CHR 0xE7, CHR 0x94, CHR 0xB5, CHR 0xE6, CHR 0xB1, CHR 0xA0] \<comment> \<open>lithium iron phosphate battery\<close>),
                                   (0x04, [CHR 0xE9, CHR 0x94, CHR 0xB0, CHR 0xE9, CHR 0x85, CHR 0xB8, CHR 0xE9, CHR 0x94, CHR 0x82, CHR 0xE7, CHR 0x94, CHR 0xB5, CHR 0xE6, CHR 0xB1, CHR 0xA0] \<comment> \<open>lithium manganate battery\<close>),
                                   (0x05, [CHR 0xE9, CHR 0x92, CHR 0xB4, CHR 0xE9, CHR 0x85, CHR 0xB8, CHR 0xE9, CHR 0x94, CHR 0x82, CHR 0xE7, CHR 0x94, CHR 0xB5, CHR 0xE6, CHR 0xB1, CHR 0xA0] \<comment> \<open>lithium cobaltate battery\<close>),
                                   (0x06, [CHR 0xE4, CHR 0xB8, CHR 0x89, CHR 0xE5, CHR 0x85, CHR 0x83, CHR 0xE6, CHR 0x9D, CHR 0x90, CHR 0xE6, CHR 0x96, CHR 0x99, CHR 0xE7, CHR 0x94, CHR 0xB5, CHR 0xE6, CHR 0xB1, CHR 0xA0] \<comment> \<open>ternary material battery\<close>),
                                   (0x07, [CHR 0xE8, CHR 0x81, CHR 0x9A, CHR 0xE5, CHR 0x90, CHR 0x88, CHR 0xE7, CHR 0x89, CHR 0xA9, CHR 0xE9, CHR 0x94, CHR 0x82, CHR 0xE7, CHR 0xA6, CHR 0xBB, CHR 0xE5, CHR 0xAD, CHR 0x90, CHR 0xE7, CHR 0x94, CHR 0xB5, CHR 0xE6, CHR 0xB1, CHR 0xA0] \<comment> \<open>polymer lithium-ion battery\<close>),
                                   (0x08, [CHR 0xE9, CHR 0x92, CHR 0x9B, CHR 0xE9, CHR 0x85, CHR 0xB8, CHR 0xE9, CHR 0x94, CHR 0x82, CHR 0xE7, CHR 0x94, CHR 0xB5, CHR 0xE6, CHR 0xB1, CHR 0xA0] \<comment> \<open>lithium titanate battery\<close>),
                                   (0xFF, [CHR 0xE5, CHR 0x85, CHR 0xB6, CHR 0xE4, CHR 0xBB, CHR 0x96] \<comment> \<open>other\<close>)]
                           battery_type (unknown_code battery_type))),
                (''bms_battery_type_code'', PInt (int battery_type)),
                (''bms_rated_capacity_ah'', PFloat (real capacity / 10)),
                (''bms_rated_voltage_v'', PFloat (real voltage / 10)),
                (''bms_manufacturer'', PStr bms_manufacturer),
                (''bms_battery_serial'', PStr (hex_upper (py_slice body 36 40))),
                (''bms_production_date'',
                   PStr (fmt_dec 4 year @ ''-'' @ fmt_dec 2 month @ ''-'' @ fmt_dec 2 day)),
                (''bms_charge_times'', PInt (int charge_times)),
                (''bms_ownership'',
                   PStr (if ownership = 0 then [CHR 0xE7, CHR 0xA7, CHR 0x9F, CHR 0xE8, CHR 0xB5, CHR 0x81] \<comment> \<open>leased\<close> else [CHR 0xE8, CHR 0xBD, CHR 0xA6, CHR 0xE8, CHR 0x87, CHR 0xAA, CHR 0xE6, CHR 0x9C, CHR 0x89] \<comment> \<open>owned by the vehicle\<close>)),
                (''bms_ownership_code'', PInt (int ownership)),
                (''bms_vin'', PStr bms_vin),
                (''bms_software_version'', PStr (hex_upper (py_slice body 65 73)))],
           c)))))))))))"

section \<open>Body decoders: the BMS frames\<close>

text \<open>\<open>ParameterConfigParser.parse\<close> (0x17).\<close>

definition ParameterConfigParser_parse :: "ctx \<Rightarrow> byte list \<Rightarrow> body_outcome \<times> ctx" where
  "ParameterConfigParser_parse c0 body =
     validated ParameterConfigParser c0 body (\<lambda>c.
       index body 32 c (\<lambda>max_temp.
         (let max_cell_voltage = int_le body 24 26;
              max_current = int_le body 26 28;
              total_energy = int_le body 28 30;
              max_voltage = int_le body 30 32;
              soc = int_le body 33 35;
              current_voltage = int_le body 35 37;
              charger_max_voltage = int_le body 37 39;
              charger_min_voltage = int_le body 39 41;
              charger_max_current = int_le body 41 43;
              charger_min_current = int_le body 43 45
          in
          (Inr [(''transaction_id'', PStr (bcd_to_str (py_slice body 0 16))),
                (''pile_code'', PStr (bcd_to_str (py_slice body 16 23))),
                (''gun_number'', PStr (bcd_to_str (py_slice body 23 24))),
                (''bms_max_cell_voltage_v'', PFloat (real max_cell_voltage / 100)),
                (''bms_max_charge_current_a'', PFloat (real max_current / 10 - 400)),
                (''bms_rated_energy_kwh'', PFloat (real total_energy / 10)),
                (''bms_max_total_voltage_v'', PFloat (real max_voltage / 10)),
                (''bms_max_temperature_celsius'', PInt (int max_temp - 50)),
                (''bms_soc_percent'', PFloat (real soc / 10)),
                (''bms_current_voltage_v'', PFloat (real current_voltage / 10)),
                (''charger_max_output_voltage_v'', PFloat (real charger_max_voltage / 10)),
                (''charger_min_output_voltage_v'', PFloat (real charger_min_voltage / 10)),
                (''charger_max_output_current_a'', PFloat (real charger_max_current / 10 - 400)),
                (''charger_min_output_current_a'', PFloat (real charger_min_current / 10 - 400))],
           c))))"

text \<open>\<open>ChargingEndParser.parse\<close> (0x19).\<close>

definition ChargingEndParser_parse :: "ctx \<Rightarrow> byte list \<Rightarrow> body_outcome \<times> ctx" where
  "ChargingEndParser_parse c0 body =
     validated ChargingEndParser c0 body (\<lambda>c.
       index body 24 c (\<lambda>stop_soc.
       index body 29 c (\<lambda>min_temp.
       index body 30 c (\<lambda>max_temp.
         (let min_voltage = int_le body 25 27;
              max_voltage = int_le body 27 29;
              charge_time = int_le body 31 33;
              output_energy = int_le body 33 35;
              charger_number = int_le body 35 39
          in
          (Inr [(''transaction_id'', PStr (bcd_to_str (py_slice body 0 16))),
                (''pile_code'', PStr (bcd_to_str (py_slice body 16 23))),
                (''gun_number'', PStr (bcd_to_str (py_slice body 23 24))),
                (''bms_stop_soc_percent'', PInt (int stop_soc)),
                (''bms_min_cell_voltage_v'', PFloat (real min_voltage / 100)),
                (''bms_max_cell_voltage_v'', PFloat (real max_voltage / 100)),
                (''bms_min_temperature_celsius'', PInt (int min_temp - 50)),
                (''bms_max_temperature_celsius'', PInt (int max_temp - 50)),
                (''charger_total_time_minutes'', PInt (int charge_time)),
                (''charger_output_energy_kwh'', PFloat (real output_energy / 10)),
                (''charger_number'', PInt (int charger_number))],
           c))))))"

text \<open>
  \<open>ErrorMessageParser.parse\<close> (0x1B); the list holds
  \<open>f"error byte {i+1}: 0x{b:02X}"\<close> for each byte of \<open>body[24:32]\<close>.
\<close>

definition ErrorMessageParser_parse :: "ctx \<Rightarrow> byte list \<Rightarrow> body_outcome \<times> ctx" where
  "ErrorMessageParser_parse c0 body =
     validated ErrorMessageParser c0 body (\<lambda>c.
       (let error_bytes = py_slice body 24 32 in
        (Inr [(''transaction_id'', PStr (bcd_to_str (py_slice body 0 16))),
              (''pile_code'', PStr (bcd_to_str (py_slice body 16 23))),
              (''gun_number'', PStr (bcd_to_str (py_slice body 23 24))),
              (''error_bytes_hex'', PStr (hex_upper error_bytes)),
              (''errors'',
                 PList (map (\<lambda>(i, b). PStr ([CHR 0xE9, CHR 0x94, CHR 0x99, CHR 0xE8, CHR 0xAF, CHR 0xAF, CHR 0xE5, CHR 0xAD, CHR 0x97, CHR 0xE8, CHR 0x8A, CHR 0x82] \<comment> \<open>error byte\<close> @ fmt_dec 0 (i + 1) @ '': 0x'' @
                                              fmt_hex 2 (unat b)))
                            (zip [0..<length error_bytes] error_bytes)))],
         c)))"

text \<open>
  The bit tests of the stop-reason helpers: \<open>if reason & m\<close> holds when the bitwise
  conjunction is not zero.  \<open>labels_or_none\<close> is \<open>"; ".join(xs) if xs else none\<close> with
  the one-character Chinese word for "none".
\<close>

definition bits_set :: "nat \<Rightarrow> nat \<Rightarrow> bool" where
  "bits_set v m = (v AND m \<noteq> 0)"

definition labels_or_none :: "string list \<Rightarrow> string" where
  "labels_or_none xs = (if xs \<noteq> [] then join ''; '' xs else [CHR 0xE6, CHR 0x97, CHR 0xA0] \<comment> \<open>none\<close>)"

text \<open>
  \<open>for i, name in enumerate(names): if fault & (0x03 << (i * 2)): faults.append(name)\<close>,
  shared by \<open>_parse_bms_fault_reason\<close> and \<open>_parse_charger_fault_reason\<close>.
\<close>

definition two_bit_labels :: "string list \<Rightarrow> nat \<Rightarrow> string list" where
  "two_bit_labels names fault =
     map snd (filter (\<lambda>(i, name). bits_set fault (push_bit (i * 2) 0x03))
                     (zip [0..<length names] names))"

definition parse_bms_stop_reason :: "nat \<Rightarrow> string" where
  "parse_bms_stop_reason reason =
     labels_or_none
       ((if bits_set reason 0x03 then [[CHR 0xE8, CHR 0xBE, CHR 0xBE, CHR 0xE5, CHR 0x88, CHR 0xB0, CHR 0xE6, CHR 0x89, CHR 0x80, CHR 0xE9, CHR 0x9C, CHR 0x80, CHR 0xE6, CHR 0xB1, CHR 0x82, CHR 0xE7, CHR 0x9A, CHR 0x84, CHR 0x53, CHR 0x4F, CHR 0x43, CHR 0xE7, CHR 0x9B, CHR 0xAE, CHR 0xE6, CHR 0xA0, CHR 0x87, CHR 0xE5, CHR 0x80, CHR 0xBC] \<comment> \<open>required SOC target reached\<close>] else []) @
        (if bits_set reason 0x0C then [[CHR 0xE8, CHR 0xBE, CHR 0xBE, CHR 0xE5, CHR 0x88, CHR 0xB0, CHR 0xE6, CHR 0x80, CHR 0xBB, CHR 0xE7, CHR 0x94, CHR 0xB5, CHR 0xE5, CHR 0x8E, CHR 0x8B, CHR 0xE7, CHR 0x9A, CHR 0x84, CHR 0xE8, CHR 0xAE, CHR 0xBE, CHR 0xE5, CHR 0xAE, CHR 0x9A, CHR 0xE5, CHR 0x80, CHR 0xBC] \<comment> \<open>total voltage setpoint reached\<close>] else []) @
        (if bits_set reason 0x30 then [[CHR 0xE8, CHR 0xBE, CHR 0xBE, CHR 0xE5, CHR 0x88, CHR 0xB0, CHR 0xE5, CHR 0x8D, CHR 0x95, CHR 0xE4, CHR 0xBD, CHR 0x93, CHR 0xE7, CHR 0x94, CHR 0xB5, CHR 0xE5, CHR 0x8E, CHR 0x8B, CHR 0xE8, CHR 0xAE, CHR 0xBE, CHR 0xE5, CHR 0xAE, CHR 0x9A, CHR 0xE5, CHR 0x80, CHR 0xBC] \<comment> \<open>cell voltage setpoint reached\<close>] else []) @
        (if bits_set reason 0xC0 then [[CHR 0xE5, CHR 0x85, CHR 0x85, CHR 0xE7, CHR 0x94, CHR 0xB5, CHR 0xE6, CHR 0x9C, CHR 0xBA, CHR 0xE4, CHR 0xB8, CHR 0xBB, CHR 0xE5, CHR 0x8A, CHR 0xA8, CHR 0xE4, CHR 0xB8, CHR 0xAD, CHR 0xE6, CHR 0xAD, CHR 0xA2] \<comment> \<open>charger stopped on its own\<close>] else []))"

definition parse_bms_fault_reason :: "nat \<Rightarrow> string" where
  "parse_bms_fault_reason fault =
     labels_or_none
       (two_bit_labels
          [[CHR 0xE7, CHR 0xBB, CHR 0x9D, CHR 0xE7, CHR 0xBC, CHR 0x98, CHR 0xE6, CHR 0x95, CHR 0x85, CHR 0xE9, CHR 0x9A, CHR 0x9C] \<comment> \<open>insulation fault\<close>,
           [CHR 0xE8, CHR 0xBE, CHR 0x93, CHR 0xE5, CHR 0x87, CHR 0xBA, CHR 0xE8, CHR 0xBF, CHR 0x9E, CHR 0xE6, CHR 0x8E, CHR 0xA5, CHR 0xE5, CHR 0x99, CHR 0xA8, CHR 0xE8, CHR 0xBF, CHR 0x87, CHR 0xE6, CHR 0xB8, CHR 0xA9, CHR 0xE6, CHR 0x95, CHR 0x85, CHR 0xE9, CHR 0x9A, CHR 0x9C] \<comment> \<open>output connector over-temperature fault\<close>,
           [CHR 0x42, CHR 0x4D, CHR 0x53, CHR 0xE5, CHR 0x85, CHR 0x83, CHR 0xE4, CHR 0xBB, CHR 0xB6, CHR 0xE3, CHR 0x80, CHR 0x81, CHR 0xE8, CHR 0xBE, CHR 0x93, CHR 0xE5, CHR 0x87, CHR 0xBA, CHR 0xE8, CHR 0xBF, CHR 0x9E, CHR 0xE6, CHR 0x8E, CHR 0xA5, CHR 0xE5, CHR 0x99, CHR 0xA8, CHR 0xE8, CHR 0xBF, CHR 0x87, CHR 0xE6, CHR 0xB8, CHR 0xA9] \<comment> \<open>BMS component or output connector over-temperature\<close>,
           [CHR 0xE5, CHR 0x85, CHR 0x85, CHR 0xE7, CHR 0x94, CHR 0xB5, CHR 0xE8, CHR 0xBF, CHR 0x9E, CHR 0xE6, CHR 0x8E, CHR 0xA5, CHR 0xE5, CHR 0x99, CHR 0xA8, CHR 0xE6, CHR 0x95, CHR 0x85, CHR 0xE9, CHR 0x9A, CHR 0x9C] \<comment> \<open>charging connector fault\<close>,
           [CHR 0xE7, CHR 0x94, CHR 0xB5, CHR 0xE6, CHR 0xB1, CHR 0xA0, CHR 0xE7, CHR 0xBB, CHR 0x84, CHR 0xE6, CHR 0xB8, CHR 0xA9, CHR 0xE5, CHR 0xBA, CHR 0xA6, CHR 0xE8, CHR 0xBF, CHR 0x87, CHR 0xE9, CHR 0xAB, CHR 0x98, CHR 0xE6, CHR 0x95, CHR 0x85, CHR 0xE9, CHR 0x9A, CHR 0x9C] \<comment> \<open>battery pack over-temperature fault\<close>,
           [CHR 0xE9, CHR 0xAB, CHR 0x98, CHR 0xE5, CHR 0x8E, CHR 0x8B, CHR 0xE7, CHR 0xBB, CHR 0xA7, CHR 0xE7, CHR 0x94, CHR 0xB5, CHR 0xE5, CHR 0x99, CHR 0xA8, CHR 0xE6, CHR 0x95, CHR 0x85, CHR 0xE9, CHR 0x9A, CHR 0x9C] \<comment> \<open>high-voltage relay fault\<close>,
           [CHR 0xE6, CHR 0xA3, CHR 0x80, CHR 0xE6, CHR 0xB5, CHR 0x8B, CHR 0xE7, CHR 0x82, CHR 0xB9, CHR 0x32, CHR 0xE7, CHR 0x94, CHR 0xB5, CHR 0xE5, CHR 0x8E, CHR 0x8B, CHR 0xE6, CHR 0xA3, CHR 0x80, CHR 0xE6, CHR 0xB5, CHR 0x8B, CHR 0xE6, CHR 0x95, CHR 0x85, CHR 0xE9, CHR 0x9A, CHR 0x9C] \<comment> \<open>voltage detection fault at check point 2\<close>,
           [CHR 0xE5, CHR 0x85, CHR 0xB6, CHR 0xE4, CHR 0xBB, CHR 0x96, CHR 0xE6, CHR 0x95, CHR 0x85, CHR 0xE9, CHR 0x9A, CHR 0x9C] \<comment> \<open>other fault\<close>]
          fault)"

definition parse_bms_error_reason :: "nat \<Rightarrow> string" where
  "parse_bms_error_reason error =
     labels_or_none
       ((if bits_set error 0x03 then [[CHR 0xE7, CHR 0x94, CHR 0xB5, CHR 0xE6, CHR 0xB5, CHR 0x81, CHR 0xE8, CHR 0xBF, CHR 0x87, CHR 0xE5, CHR 0xA4, CHR 0xA7] \<comment> \<open>current too high\<close>] else []) @
        (if bits_set error 0x0C then [[CHR 0xE7, CHR 0x94, CHR 0xB5, CHR 0xE5, CHR 0x8E, CHR 0x8B, CHR 0xE5, CHR 0xBC, CHR 0x82, CHR 0xE5, CHR 0xB8, CHR 0xB8] \<comment> \<open>abnormal voltage\<close>] else []))"

text \<open>\<open>BMSStopParser.parse\<close> (0x1D).\<close>

definition BMSStopParser_parse :: "ctx \<Rightarrow> byte list \<Rightarrow> body_outcome \<times> ctx" where
  "BMSStopParser_parse c0 body =
     validated BMSStopParser c0 body (\<lambda>c.
       index body 24 c (\<lambda>stop_reason.
       index body 27 c (\<lambda>error_reason.
         (let fault_reason = int_le body 25 27 in
          (Inr [(''transaction_id'', PStr (bcd_to_str (py_slice body 0 16))),
                (''pile_code'', PStr (bcd_to_str (py_slice body 16 23))),
                (''gun_number'', PStr (bcd_to_str (py_slice body 23 24))),
                (''bms_stop_reason_code'', PInt (int stop_reason)),
                (''bms_stop_reason'', PStr (parse_bms_stop_reason stop_reason)),
                (''bms_fault_reason_code'', PInt (int fault_reason)),
                (''bms_fault_reason'', PStr (parse_bms_fault_reason fault_reason)),
                (''bms_error_reason_code'', PInt (int error_reason)),
                (''bms_error_reason'', PStr (parse_bms_error_reason error_reason))],
           c)))))"

definition parse_charger_stop_reason :: "nat \<Rightarrow> string" where
  "parse_charger_stop_reason reason =
     labels_or_none
       ((if bits_set reason 0x03 then [[CHR 0xE8, CHR 0xBE, CHR 0xBE, CHR 0xE5, CHR 0x88, CHR 0xB0, CHR 0xE5, CHR 0x85, CHR 0x85, CHR 0xE7, CHR 0x94, CHR 0xB5, CHR 0xE6, CHR 0x9C, CHR 0xBA, CHR 0xE8, CHR 0xAE, CHR 0xBE, CHR 0xE5, CHR 0xAE, CHR 0x9A, CHR 0xE7, CHR 0x9A, CHR 0x84, CHR 0xE6, CHR 0x9D, CHR 0xA1, CHR 0xE4, CHR 0xBB, CHR 0xB6, CHR 0xE4, CHR 0xB8, CHR 0xAD, CHR 0xE6, CHR 0xAD, CHR 0xA2] \<comment> \<open>stopped on the charger's set condition\<close>] else []) @
        (if bits_set reason 0x0C then [[CHR 0xE4, CHR 0xBA, CHR 0xBA, CHR 0xE5, CHR 0xB7, CHR 0xA5, CHR 0xE4, CHR 0xB8, CHR 0xAD, CHR 0xE6, CHR 0xAD, CHR 0xA2] \<comment> \<open>stopped by hand\<close>] else []) @
        (if bits_set reason 0x30 then [[CHR 0xE5, CHR 0xBC, CHR 0x82, CHR 0xE5, CHR 0xB8, CHR 0xB8, CHR 0xE4, CHR 0xB8, CHR 0xAD, CHR 0xE6, CHR 0xAD, CHR 0xA2] \<comment> \<open>abnormal stop\<close>] else []) @
        (if bits_set reason 0xC0 then [[CHR 0x42, CHR 0x4D, CHR 0x53, CHR 0xE4, CHR 0xB8, CHR 0xBB, CHR 0xE5, CHR 0x8A, CHR 0xA8, CHR 0xE4, CHR 0xB8, CHR 0xAD, CHR 0xE6, CHR 0xAD, CHR 0xA2] \<comment> \<open>BMS stopped on its own\<close>] else []))"

definition parse_charger_fault_reason :: "nat \<Rightarrow> string" where
  "parse_charger_fault_reason fault =
     labels_or_none
       (two_bit_labels
          [[CHR 0xE5, CHR 0x85, CHR 0x85, CHR 0xE7, CHR 0x94, CHR 0xB5, CHR 0xE6, CHR 0x9C, CHR 0xBA, CHR 0xE8, CHR 0xBF, CHR 0x87, CHR 0xE6, CHR 0xB8, CHR 0xA9, CHR 0xE6, CHR 0x95, CHR 0x85, CHR 0xE9, CHR 0x9A, CHR 0x9C] \<comment> \<open>charger over-temperature fault\<close>,
           [CHR 0xE5, CHR 0x85, CHR 0x85, CHR 0xE7, CHR 0x94, CHR 0xB5, CHR 0xE8, CHR 0xBF, CHR 0x9E, CHR 0xE6, CHR 0x8E, CHR 0xA5, CHR 0xE5, CHR 0x99, CHR 0xA8, CHR 0xE6, CHR 0x95, CHR 0x85, CHR 0xE9, CHR 0x9A, CHR 0x9C] \<comment> \<open>charging connector fault\<close>,
           [CHR 0xE5, CHR 0x85, CHR 0x85, CHR 0xE7, CHR 0x94, CHR 0xB5, CHR 0xE6, CHR 0x9C, CHR 0xBA, CHR 0xE5, CHR 0x86, CHR 0x85, CHR 0xE9, CHR 0x83, CHR 0xA8, CHR 0xE8, CHR 0xBF, CHR 0x87, CHR 0xE6, CHR 0xB8, CHR 0xA9, CHR 0xE6, CHR 0x95, CHR 0x85, CHR 0xE9, CHR 0x9A, CHR 0x9C] \<comment> \<open>charger internal over-temperature fault\<close>,
           [CHR 0xE6, CHR 0x89, CHR 0x80, CHR 0xE9, CHR 0x9C, CHR 0x80, CHR 0xE7, CHR 0x94, CHR 0xB5, CHR 0xE9, CHR 0x87, CHR 0x8F, CHR 0xE4, CHR 0xB8, CHR 0x8D, CHR 0xE8, CHR 0x83, CHR 0xBD, CHR 0xE4, CHR 0xBC, CHR 0xA0, CHR 0xE9, CHR 0x80, CHR 0x81] \<comment> \<open>required energy cannot be delivered\<close>,
           [CHR 0xE5, CHR 0x85, CHR 0x85, CHR 0xE7, CHR 0x94, CHR 0xB5, CHR 0xE6, CHR 0x9C, CHR 0xBA, CHR 0xE6, CHR 0x80, CHR 0xA5, CHR 0xE5, CHR 0x81, CHR 0x9C, CHR 0xE6, CHR 0x95, CHR 0x85, CHR 0xE9, CHR 0x9A, CHR 0x9C] \<comment> \<open>charger emergency stop fault\<close>,
           [CHR 0xE5, CHR 0x85, CHR 0xB6, CHR 0xE4, CHR 0xBB, CHR 0x96, CHR 0xE6, CHR 0x95, CHR 0x85, CHR 0xE9, CHR 0x9A, CHR 0x9C] \<comment> \<open>other fault\<close>]
          fault)"

definition parse_charger_error_reason :: "nat \<Rightarrow> string" where
  "parse_charger_error_reason error =
     labels_or_none
       ((if bits_set error 0x03 then [[CHR 0xE7, CHR 0x94, CHR 0xB5, CHR 0xE6, CHR 0xB5, CHR 0x81, CHR 0xE4, CHR 0xB8, CHR 0x8D, CHR 0xE5, CHR 0x8C, CHR 0xB9, CHR 0xE9, CHR 0x85, CHR 0x8D] \<comment> \<open>current mismatch\<close>] else []) @
        (if bits_set error 0x0C then [[CHR 0xE7, CHR 0x94, CHR 0xB5, CHR 0xE5, CHR 0x8E, CHR 0x8B, CHR 0xE5, CHR 0xBC, CHR 0x82, CHR 0xE5, CHR 0xB8, CHR 0xB8] \<comment> \<open>abnormal voltage\<close>] else []))"

text \<open>\<open>ChargerStopParser.parse\<close> (0x21).\<close>

definition ChargerStopParser_parse :: "ctx \<Rightarrow> byte list \<Rightarrow> body_outcome \<times> ctx" where
  "ChargerStopParser_parse c0 body =
     validated ChargerStopParser c0 body (\<lambda>c.
       index body 24 c (\<lambda>stop_reason.
       index body 27 c (\<lambda>error_reason.
         (let fault_reason = int_le body 25 27 in
          (Inr [(''transaction_id'', PStr (bcd_to_str (py_slice body 0 16))),
                (''pile_code'', PStr (bcd_to_str (py_slice body 16 23))),
                (''gun_number'', PStr (bcd_to_str (py_slice body 23 24))),
                (''charger_stop_reason_code'', PInt (int stop_reason)),
                (''charger_stop_reason'', PStr (parse_charger_stop_reason stop_reason)),
                (''charger_fault_reason_code'', PInt (int fault_reason)),
                (''charger_fault_reason'', PStr (parse_charger_fault_reason fault_reason)),
                (''charger_error_reason_code'', PInt (int error_reason)),
                (''charger_error_reason'', PStr (parse_charger_error_reason error_reason))],
           c)))))"

text \<open>\<open>BMSDemandOutputParser.parse\<close> (0x23).\<close>

definition BMSDemandOutputParser_parse :: "ctx \<Rightarrow> byte list \<Rightarrow> body_outcome \<times> ctx" where
  "BMSDemandOutputParser_parse c0 body =
     validated BMSDemandOutputParser c0 body (\<lambda>c.
       index body 28 c (\<lambda>charge_mode.
       index body 35 c (\<lambda>current_soc.
         (let bms_voltage_demand = int_le body 24 26;
              bms_current_demand = int_le body 26 28;
              bms_voltage_measured = int_le body 29 31;
              bms_current_measured = int_le body 31 33;
              cell_voltage_data = int_le body 33 35;
              cell_voltage = real (cell_voltage_data AND 0x0FFF) / 100;
              cell_group = drop_bit 12 cell_voltage_data AND 0x0F;
              remaining_time = int_le body 36 38;
              charger_voltage = int_le body 38 40;
              charger_current = int_le body 40 42;
              total_time = int_le body 42 44
          in
          (Inr [(''transaction_id'', PStr (bcd_to_str (py_slice body 0 16))),
                (''pile_code'', PStr (bcd_to_str (py_slice body 16 23))),
                (''gun_number'', PStr (bcd_to_str (py_slice body 23 24))),
                (''bms_voltage_demand_v'', PFloat (real bms_voltage_demand / 10)),
                (''bms_current_demand_a'', PFloat (real bms_current_demand / 10 - 400)),
                (''bms_charge_mode'',
                   PStr (if charge_mode = 0x01 then [CHR 0xE6, CHR 0x81, CHR 0x92, CHR 0xE5, CHR 0x8E, CHR 0x8B, CHR 0xE5, CHR 0x85, CHR 0x85, CHR 0xE7, CHR 0x94, CHR 0xB5] \<comment> \<open>constant-voltage charging\<close>
                         else [CHR 0xE6, CHR 0x81, CHR 0x92, CHR 0xE6, CHR 0xB5, CHR 0x81, CHR 0xE5, CHR 0x85, CHR 0x85, CHR 0xE7, CHR 0x94, CHR 0xB5] \<comment> \<open>constant-current charging\<close>)),
                (''bms_charge_mode_code'', PInt (int charge_mode)),
                (''bms_voltage_measured_v'', PFloat (real bms_voltage_measured / 10)),
                (''bms_current_measured_a'', PFloat (real bms_current_measured / 10 - 400)),
                (''bms_max_cell_voltage_v'', PFloat cell_voltage),
                (''bms_max_cell_group_number'', PInt (int cell_group)),
                (''bms_current_soc_percent'', PInt (int current_soc)),
                (''bms_estimated_remaining_time_minutes'', PInt (int remaining_time)),
                (''charger_output_voltage_v'', PFloat (real charger_voltage / 10)),
                (''charger_output_current_a'', PFloat (real charger_current / 10 - 400)),
                (''total_charge_time_minutes'', PInt (int total_time))],
           c)))))"

text \<open>\<open>BMSInfoParser._parse_bms_status_flags\<close>: seven two-bit fields of a 16-bit value.\<close>

definition two_bits :: "nat \<Rightarrow> nat \<Rightarrow> nat" where
  "two_bits status_int k = drop_bit k status_int AND 0x03"

definition parse_bms_status_flags :: "byte list \<Rightarrow> fields" where
  "parse_bms_status_flags status_bytes =
     (let status_int = from_bytes_little status_bytes;
          normal = [CHR 0xE6, CHR 0xAD, CHR 0xA3, CHR 0xE5, CHR 0xB8, CHR 0xB8] \<comment> \<open>normal\<close>; too_high = [CHR 0xE8, CHR 0xBF, CHR 0x87, CHR 0xE9, CHR 0xAB, CHR 0x98] \<comment> \<open>too high\<close>; too_low = [CHR 0xE8, CHR 0xBF, CHR 0x87, CHR 0xE4, CHR 0xBD, CHR 0x8E] \<comment> \<open>too low\<close>;
          unknown = [CHR 0xE6, CHR 0x9C, CHR 0xAA, CHR 0xE7, CHR 0x9F, CHR 0xA5] \<comment> \<open>unknown\<close>; untrusted = [CHR 0xE4, CHR 0xB8, CHR 0x8D, CHR 0xE5, CHR 0x8F, CHR 0xAF, CHR 0xE4, CHR 0xBF, CHR 0xA1] \<comment> \<open>not trusted\<close>; fault = [CHR 0xE6, CHR 0x95, CHR 0x85, CHR 0xE9, CHR 0x9A, CHR 0x9C] \<comment> \<open>fault\<close>
      in
      [([CHR 0xE5, CHR 0x8D, CHR 0x95, CHR 0xE4, CHR 0xBD, CHR 0x93, CHR 0xE7, CHR 0x94, CHR 0xB5, CHR 0xE5, CHR 0x8E, CHR 0x8B] \<comment> \<open>cell voltage\<close>,
          PStr (dict_get [(0, normal), (1, too_high), (2, too_low)] (two_bits status_int 0) unknown)),
       (''SOC'',
          PStr (dict_get [(0, normal), (1, too_high), (2, too_low)] (two_bits status_int 2) unknown)),
       ([CHR 0xE5, CHR 0x85, CHR 0x85, CHR 0xE7, CHR 0x94, CHR 0xB5, CHR 0xE8, CHR 0xBF, CHR 0x87, CHR 0xE7, CHR 0x94, CHR 0xB5, CHR 0xE6, CHR 0xB5, CHR 0x81] \<comment> \<open>charging over-current\<close>,
          PStr (dict_get [(0, normal), (1, [CHR 0xE8, CHR 0xBF, CHR 0x87, CHR 0xE6, CHR 0xB5, CHR 0x81] \<comment> \<open>over-current\<close>), (2, untrusted)]
                  (two_bits status_int 4) unknown)),
       ([CHR 0xE7, CHR 0x94, CHR 0xB5, CHR 0xE6, CHR 0xB1, CHR 0xA0, CHR 0xE6, CHR 0xB8, CHR 0xA9, CHR 0xE5, CHR 0xBA, CHR 0xA6] \<comment> \<open>battery temperature\<close>,
          PStr (dict_get [(0, normal), (1, too_high), (2, untrusted)] (two_bits status_int 6) unknown)),
       ([CHR 0xE7, CHR 0xBB, CHR 0x9D, CHR 0xE7, CHR 0xBC, CHR 0x98, CHR 0xE7, CHR 0x8A, CHR 0xB6, CHR 0xE6, CHR 0x80, CHR 0x81] \<comment> \<open>insulation state\<close>,
          PStr (dict_get [(0, normal), (1, fault), (2, untrusted)] (two_bits status_int 8) unknown)),
       ([CHR 0xE8, CHR 0xBE, CHR 0x93, CHR 0xE5, CHR 0x87, CHR 0xBA, CHR 0xE8, CHR 0xBF, CHR 0x9E, CHR 0xE6, CHR 0x8E, CHR 0xA5, CHR 0xE5, CHR 0x99, CHR 0xA8] \<comment> \<open>output connector\<close>,
          PStr (dict_get [(0, normal), (1, fault), (2, untrusted)] (two_bits status_int 10) unknown)),
       ([CHR 0xE5, CHR 0x85, CHR 0x85, CHR 0xE7, CHR 0x94, CHR 0xB5, CHR 0xE8, CHR 0xAE, CHR 0xB8, CHR 0xE5, CHR 0x8F, CHR 0xAF] \<comment> \<open>charging permission\<close>,
          PStr (dict_get [(0, [CHR 0xE7, CHR 0xA6, CHR 0x81, CHR 0xE6, CHR 0xAD, CHR 0xA2] \<comment> \<open>forbidden\<close>), (1, [CHR 0xE5, CHR 0x85, CHR 0x81, CHR 0xE8, CHR 0xAE, CHR 0xB8] \<comment> \<open>allowed\<close>)]
                  (two_bits status_int 12) unknown))])"

text \<open>\<open>BMSInfoParser.parse\<close> (0x25).\<close>

definition BMSInfoParser_parse :: "ctx \<Rightarrow> byte list \<Rightarrow> body_outcome \<times> ctx" where
  "BMSInfoParser_parse c0 body =
     validated BMSInfoParser c0 body (\<lambda>c.
       index body 24 c (\<lambda>max_cell_number.
       index body 25 c (\<lambda>max_temp.
       index body 26 c (\<lambda>max_temp_sensor.
       index body 27 c (\<lambda>min_temp.
       index body 28 c (\<lambda>min_temp_sensor.
         (let status_bytes = py_slice body 29 31 in
          (Inr [(''transaction_id'', PStr (bcd_to_str (py_slice body 0 16))),
                (''pile_code'', PStr (bcd_to_str (py_slice body 16 23))),
                (''gun_number'', PStr (bcd_to_str (py_slice body 23 24))),
                (''bms_max_cell_number'', PInt (int max_cell_number + 1)),
                (''bms_max_temperature_celsius'', PInt (int max_temp - 50)),
                (''max_temperature_sensor_number'', PInt (int max_temp_sensor + 1)),
                (''bms_min_temperature_celsius'', PInt (int min_temp - 50)),
                (''min_temperature_sensor_number'', PInt (int min_temp_sensor + 1)),
                (''status_hex'', PStr (hex_upper status_bytes)),
                (''status_flags'', PDict (parse_bms_status_flags status_bytes))],
           c))))))))"

section \<open>Body decoders: charging sessions, billing and offline cards\<close>

text \<open>\<open>ChargingStartRequestParser.parse\<close> (0x31).\<close>

definition ChargingStartRequestParser_parse :: "ctx \<Rightarrow> byte list \<Rightarrow> body_outcome \<times> ctx" where
  "ChargingStartRequestParser_parse c0 body =
     validated ChargingStartRequestParser c0 body (\<lambda>c.
       index body 20 c (\<lambda>start_mode.
         (let card_number = int_le body 8 16;
              balance = int_le body 16 20
          in
          (Inr [(''pile_code'', PStr (bcd_to_str (py_slice body 0 7))),
                (''gun_number'', PStr (bcd_to_str (py_slice body 7 8))),
                (''physical_card_number'', PStr (card_hex card_number [CHR 0xE6, CHR 0x97, CHR 0xA0, CHR 0xE5, CHR 0x8D, CHR 0xA1] \<comment> \<open>no card\<close>)),
                (''card_balance_yuan'', PFloat (real balance / 100)),
                (''start_mode'',
                   PStr (dict_get [(0x01, [CHR 0xE5, CHR 0x88, CHR 0xB7, CHR 0xE5, CHR 0x8D, CHR 0xA1, CHR 0xE5, CHR 0x90, CHR 0xAF, CHR 0xE5, CHR 0x8A, CHR 0xA8] \<comment> \<open>start by card\<close>), (0x02, [CHR 0x56, CHR 0x49, CHR 0x4E, CHR 0xE5, CHR 0x90, CHR 0xAF, CHR 0xE5, CHR 0x8A, CHR 0xA8] \<comment> \<open>start by VIN\<close>),
                                   (0x03, [CHR 0xE8, CHR 0x87, CHR 0xAA, CHR 0xE5, CHR 0x8A, CHR 0xA8, CHR 0xE5, CHR 0x85, CHR 0x85, CHR 0xE6, CHR 0xBB, CHR 0xA1] \<comment> \<open>charge until full\<close>), (0x04, [CHR 0xE6, CHR 0x8C, CHR 0x89, CHR 0xE7, CHR 0x94, CHR 0xB5, CHR 0xE9, CHR 0x87, CHR 0x8F] \<comment> \<open>by energy\<close>),
                                   (0x05, [CHR 0xE6, CHR 0x8C, CHR 0x89, CHR 0xE9, CHR 0x87, CHR 0x91, CHR 0xE9, CHR 0xA2, CHR 0x9D] \<comment> \<open>by amount\<close>), (0x06, [CHR 0xE6, CHR 0x8C, CHR 0x89, CHR 0xE6, CHR 0x97, CHR 0xB6, CHR 0xE9, CHR 0x97, CHR 0xB4] \<comment> \<open>by time\<close>)]
                           start_mode (unknown_code start_mode))),
                (''start_mode_code'', PInt (int start_mode))],
           c))))"

text \<open>\<open>ChargingStartConfirmParser.parse\<close> (0x32).\<close>

definition ChargingStartConfirmParser_parse :: "ctx \<Rightarrow> byte list \<Rightarrow> body_outcome \<times> ctx" where
  "ChargingStartConfirmParser_parse c0 body =
     validated ChargingStartConfirmParser c0 body (\<lambda>c.
       index body 8 c (\<lambda>start_result.
       index body 9 c (\<lambda>charge_mode.
         (let order_number = int_le body 10 14 in
          (Inr [(''pile_code'', PStr (bcd_to_str (py_slice body 0 7))),
                (''gun_number'', PStr (bcd_to_str (py_slice body 7 8))),
                (''start_result'',
                   PStr (if start_result = 0x00 then [CHR 0xE5, CHR 0x90, CHR 0xAF, CHR 0xE5, CHR 0x8A, CHR 0xA8, CHR 0xE6, CHR 0x88, CHR 0x90, CHR 0xE5, CHR 0x8A, CHR 0x9F] \<comment> \<open>start succeeded\<close> else [CHR 0xE5, CHR 0x90, CHR 0xAF, CHR 0xE5, CHR 0x8A, CHR 0xA8, CHR 0xE5, CHR 0xA4, CHR 0xB1, CHR 0xE8, CHR 0xB4, CHR 0xA5] \<comment> \<open>start failed\<close>)),
                (''start_result_code'', PInt (int start_result)),
                (''charge_mode'',
                   PStr (dict_get [(0x01, [CHR 0xE8, CHR 0x87, CHR 0xAA, CHR 0xE5, CHR 0x8A, CHR 0xA8, CHR 0xE5, CHR 0x85, CHR 0x85, CHR 0xE6, CHR 0xBB, CHR 0xA1] \<comment> \<open>charge until full\<close>), (0x02, [CHR 0xE6, CHR 0x8C, CHR 0x89, CHR 0xE7, CHR 0x94, CHR 0xB5, CHR 0xE9, CHR 0x87, CHR 0x8F] \<comment> \<open>by energy\<close>),
                                   (0x03, [CHR 0xE6, CHR 0x8C, CHR 0x89, CHR 0xE9, CHR 0x87, CHR 0x91, CHR 0xE9, CHR 0xA2, CHR 0x9D] \<comment> \<open>by amount\<close>), (0x04, [CHR 0xE6, CHR 0x8C, CHR 0x89, CHR 0xE6, CHR 0x97, CHR 0xB6, CHR 0xE9, CHR 0x97, CHR 0xB4] \<comment> \<open>by time\<close>)]
                           charge_mode (unknown_code charge_mode))),
                (''charge_mode_code'', PInt (int charge_mode)),
                (''order_number'', PInt (int order_number))],
           c)))))"

text \<open>\<open>RemoteStartReplyParser.parse\<close> (0x33).\<close>

definition RemoteStartReplyParser_parse :: "ctx \<Rightarrow> byte list \<Rightarrow> body_outcome \<times> ctx" where
  "RemoteStartReplyParser_parse c0 body =
     validated RemoteStartReplyParser c0 body (\<lambda>c.
       index body 8 c (\<lambda>exec_result.
       index body 13 c (\<lambda>fail_reason.
         (let order_number = int_le body 9 13 in
          (Inr [(''pile_code'', PStr (bcd_to_str (py_slice body 0 7))),
                (''gun_number'', PStr (bcd_to_str (py_slice body 7 8))),
                (''exec_result'',
                   PStr (if exec_result = 0x00 then [CHR 0xE6, CHR 0x89, CHR 0xA7, CHR 0xE8, CHR 0xA1, CHR 0x8C, CHR 0xE6, CHR 0x88, CHR 0x90, CHR 0xE5, CHR 0x8A, CHR 0x9F] \<comment> \<open>executed\<close> else [CHR 0xE6, CHR 0x89, CHR 0xA7, CHR 0xE8, CHR 0xA1, CHR 0x8C, CHR 0xE5, CHR 0xA4, CHR 0xB1, CHR 0xE8, CHR 0xB4, CHR 0xA5] \<comment> \<open>execution failed\<close>)),
                (''exec_result_code'', PInt (int exec_result)),
                (''order_number'', PInt (int order_number)),
                (''fail_reason'',
                   PStr (dict_get [(0x00, [CHR 0xE6, CHR 0x97, CHR 0xA0] \<comment> \<open>none\<close>),
                                   (0x01, [CHR 0xE6, CHR 0xAD, CHR 0xA4, CHR 0xE5, CHR 0x85, CHR 0x85, CHR 0xE7, CHR 0x94, CHR 0xB5, CHR 0xE6, CHR 0xA1, CHR 0xA9, CHR 0xE4, CHR 0xB8, CHR 0x8D, CHR 0xE5, CHR 0xAD, CHR 0x98, CHR 0xE5, CHR 0x9C, CHR 0xA8] \<comment> \<open>this charging pile does not exist\<close>),
                                   (0x02, [CHR 0xE6, CHR 0xAD, CHR 0xA4, CHR 0xE5, CHR 0x85, CHR 0x85, CHR 0xE7, CHR 0x94, CHR 0xB5, CHR 0xE6, CHR 0x9E, CHR 0xAA, CHR 0xE4, CHR 0xB8, CHR 0x8D, CHR 0xE5, CHR 0xAD, CHR 0x98, CHR 0xE5, CHR 0x9C, CHR 0xA8] \<comment> \<open>this charging gun does not exist\<close>),
                                   (0x03, [CHR 0xE8, CHR 0xAE, CHR 0xBE, CHR 0xE5, CHR 0xA4, CHR 0x87, CHR 0xE6, CHR 0x95, CHR 0x85, CHR 0xE9, CHR 0x9A, CHR 0x9C] \<comment> \<open>device fault\<close>),
                                   (0x04, [CHR 0xE8, CHR 0xAE, CHR 0xBE, CHR 0xE5, CHR 0xA4, CHR 0x87, CHR 0xE7, CHR 0xA6, CHR 0xBB, CHR 0xE7, CHR 0xBA, CHR 0xBF] \<comment> \<open>device offline\<close>),
                                   (0x05, [CHR 0xE5, CHR 0x85, CHR 0x85, CHR 0xE7, CHR 0x94, CHR 0xB5, CHR 0xE6, CHR 0xA1, CHR 0xA9, CHR 0xE6, CHR 0x9C, CHR 0x89, CHR 0xE8, CHR 0xBD, CHR 0xA6, CHR 0xE5, CHR 0x8D, CHR 0xA0, CHR 0xE4, CHR 0xBD, CHR 0x8D] \<comment> \<open>a vehicle occupies the pile\<close>),
                                   (0x06, [CHR 0xE5, CHR 0x85, CHR 0x85, CHR 0xE7, CHR 0x94, CHR 0xB5, CHR 0xE6, CHR 0xA1, CHR 0xA9, CHR 0xE5, CHR 0xB7, CHR 0xB2, CHR 0xE5, CHR 0x9C, CHR 0xA8, CHR 0xE5, CHR 0x85, CHR 0x85, CHR 0xE7, CHR 0x94, CHR 0xB5] \<comment> \<open>the pile is already charging\<close>)]
                           fail_reason (unknown_code fail_reason))),
                (''fail_reason_code'', PInt (int fail_reason))],
           c)))))"

text \<open>\<open>RemoteStartCommandParser.parse\<close> (0x34).\<close>

definition RemoteStartCommandParser_parse :: "ctx \<Rightarrow> byte list \<Rightarrow> body_outcome \<times> ctx" where
  "RemoteStartCommandParser_parse c0 body =
     validated RemoteStartCommandParser c0 body (\<lambda>c.
       index body 20 c (\<lambda>charge_mode.
         (let card_number = int_le body 8 16;
              balance = int_le body 16 20
          in
          (Inr [(''pile_code'', PStr (bcd_to_str (py_slice body 0 7))),
                (''gun_number'', PStr (bcd_to_str (py_slice body 7 8))),
                (''physical_card_number'', PStr (card_hex card_number [CHR 0xE6, CHR 0x97, CHR 0xA0, CHR 0xE5, CHR 0x8D, CHR 0xA1] \<comment> \<open>no card\<close>)),
                (''card_balance_yuan'', PFloat (real balance / 100)),
                (''charge_mode'',
                   PStr (dict_get [(0x01, [CHR 0xE8, CHR 0x87, CHR 0xAA, CHR 0xE5, CHR 0x8A, CHR 0xA8, CHR 0xE5, CHR 0x85, CHR 0x85, CHR 0xE6, CHR 0xBB, CHR 0xA1] \<comment> \<open>charge until full\<close>), (0x02, [CHR 0xE6, CHR 0x8C, CHR 0x89, CHR 0xE7, CHR 0x94, CHR 0xB5, CHR 0xE9, CHR 0x87, CHR 0x8F] \<comment> \<open>by energy\<close>),
                                   (0x03, [CHR 0xE6, CHR 0x8C, CHR 0x89, CHR 0xE9, CHR 0x87, CHR 0x91, CHR 0xE9, CHR 0xA2, CHR 0x9D] \<comment> \<open>by amount\<close>), (0x04, [CHR 0xE6, CHR 0x8C, CHR 0x89, CHR 0xE6, CHR 0x97, CHR 0xB6, CHR 0xE9, CHR 0x97, CHR 0xB4] \<comment> \<open>by time\<close>)]
                           charge_mode (unknown_code charge_mode))),
                (''charge_mode_code'', PInt (int charge_mode))],
           c))))"

text \<open>\<open>RemoteStopReplyParser.parse\<close> (0x35).\<close>

definition RemoteStopReplyParser_parse :: "ctx \<Rightarrow> byte list \<Rightarrow> body_outcome \<times> ctx" where
  "RemoteStopReplyParser_parse c0 body =
     validated RemoteStopReplyParser c0 body (\<lambda>c.
       index body 8 c (\<lambda>exec_result.
       index body 13 c (\<lambda>fail_reason.
         (let order_number = int_le body 9 13 in
          (Inr [(''pile_code'', PStr (bcd_to_str (py_slice body 0 7))),
                (''gun_number'', PStr (bcd_to_str (py_slice body 7 8))),
                (''exec_result'',
                   PStr (if exec_result = 0x00 then [CHR 0xE6, CHR 0x89, CHR 0xA7, CHR 0xE8, CHR 0xA1, CHR 0x8C, CHR 0xE6, CHR 0x88, CHR 0x90, CHR 0xE5, CHR 0x8A, CHR 0x9F] \<comment> \<open>executed\<close> else [CHR 0xE6, CHR 0x89, CHR 0xA7, CHR 0xE8, CHR 0xA1, CHR 0x8C, CHR 0xE5, CHR 0xA4, CHR 0xB1, CHR 0xE8, CHR 0xB4, CHR 0xA5] \<comment> \<open>execution failed\<close>)),
                (''exec_result_code'', PInt (int exec_result)),
                (''order_number'', PInt (int order_number)),
                (''fail_reason'',
                   PStr (dict_get [(0x00, [CHR 0xE6, CHR 0x97, CHR 0xA0] \<comment> \<open>none\<close>),
                                   (0x01, [CHR 0xE6, CHR 0xAD, CHR 0xA4, CHR 0xE5, CHR 0x85, CHR 0x85, CHR 0xE7, CHR 0x94, CHR 0xB5, CHR 0xE6, CHR 0xA1, CHR 0xA9, CHR 0xE4, CHR 0xB8, CHR 0x8D, CHR 0xE5, CHR 0xAD, CHR 0x98, CHR 0xE5, CHR 0x9C, CHR 0xA8] \<comment> \<open>this charging pile does not exist\<close>),
                                   (0x02, [CHR 0xE6, CHR 0xAD, CHR 0xA4, CHR 0xE5, CHR 0x85, CHR 0x85, CHR 0xE7, CHR 0x94, CHR 0xB5, CHR 0xE6, CHR 0x9E, CHR 0xAA, CHR 0xE4, CHR 0xB8, CHR 0x8D, CHR 0xE5, CHR 0xAD, CHR 0x98, CHR 0xE5, CHR 0x9C, CHR 0xA8] \<comment> \<open>this charging gun does not exist\<close>),
                                   (0x03, [CHR 0xE8, CHR 0xAE, CHR 0xBE, CHR 0xE5, CHR 0xA4, CHR 0x87, CHR 0xE6, CHR 0x95, CHR 0x85, CHR 0xE9, CHR 0x9A, CHR 0x9C] \<comment> \<open>device fault\<close>),
                                   (0x04, [CHR 0xE8, CHR 0xAE, CHR 0xBE, CHR 0xE5, CHR 0xA4, CHR 0x87, CHR 0xE7, CHR 0xA6, CHR 0xBB, CHR 0xE7, CHR 0xBA, CHR 0xBF] \<comment> \<open>device offline\<close>),
                                   (0x05, [CHR 0xE5, CHR 0x85, CHR 0x85, CHR 0xE7, CHR 0x94, CHR 0xB5, CHR 0xE6, CHR 0x9E, CHR 0xAA, CHR 0xE7, CHR 0xA9, CHR 0xBA, CHR 0xE9, CHR 0x97, CHR 0xB2] \<comment> \<open>the charging gun is idle\<close>)]
                           fail_reason (unknown_code fail_reason))),
                (''fail_reason_code'', PInt (int fail_reason))],
           c)))))"

text \<open>\<open>RemoteStopCommandParser.parse\<close> (0x36).\<close>

definition RemoteStopCommandParser_parse :: "ctx \<Rightarrow> byte list \<Rightarrow> body_outcome \<times> ctx" where
  "RemoteStopCommandParser_parse c0 body =
     validated RemoteStopCommandParser c0 body (\<lambda>c.
       (let order_number = int_le body 8 12 in
        (Inr [(''pile_code'', PStr (bcd_to_str (py_slice body 0 7))),
              (''gun_number'', PStr (bcd_to_str (py_slice body 7 8))),
              (''order_number'', PInt (int order_number))],
         c)))"

text \<open>
  The loop of \<open>TransactionRecordParser.parse\<close> over the four tariff periods: four
  4-byte fields each, the \<open>k\<close>-th period starting at offset \<open>38 + 16 * k\<close>.
\<close>

definition period_fields :: "byte list \<Rightarrow> nat \<times> string \<Rightarrow> fields" where
  "period_fields body = (\<lambda>(k, period_name).
     (let offset = 38 + 16 * k;
          price = int_le body offset (offset + 4);
          energy = int_le body (offset + 4) (offset + 8);
          energy_loss = int_le body (offset + 8) (offset + 12);
          amount = int_le body (offset + 12) (offset + 16)
      in [(period_name @ ''_unit_price'', PFloat (real price / 100000)),
          (period_name @ ''_energy_kwh'', PFloat (real energy / 10000)),
          (period_name @ ''_energy_with_loss_kwh'', PFloat (real energy_loss / 10000)),
          (period_name @ ''_amount_yuan'', PFloat (real amount / 10000))]))"

text \<open>\<open>TransactionRecordParser.parse\<close> (0x3B).\<close>

definition TransactionRecordParser_parse :: "ctx \<Rightarrow> byte list \<Rightarrow> body_outcome \<times> ctx" where
  "TransactionRecordParser_parse c0 body =
     validated TransactionRecordParser c0 body (\<lambda>c.
       (case ascii_to_str c (py_slice body 124 141) of (vin_code, c) \<Rightarrow>
       index body 141 c (\<lambda>trade_type.
       index body 149 c (\<lambda>stop_reason.
         (let meter_start = int_le body 102 107;
              meter_end = int_le body 107 112;
              total_energy = int_le body 112 116;
              total_energy_loss = int_le body 116 120;
              total_amount = int_le body 120 124;
              card_number = int_le body 150 158
          in
          (Inr ([(''transaction_id'', PStr (bcd_to_str (py_slice body 0 16))),
                 (''pile_code'', PStr (bcd_to_str (py_slice body 16 23))),
                 (''gun_number'', PStr (bcd_to_str (py_slice body 23 24))),
                 (''start_time'', PStr (parse_cp56time2a (py_slice body 24 31))),
                 (''end_time'', PStr (parse_cp56time2a (py_slice body 31 38)))] @
                concat (map (period_fields body)
                            (zip [0..<4] [''sharp'', ''peak'', ''flat'', ''valley''])) @
                [(''meter_start_value_kwh'', PFloat (real meter_start / 10000)),
                 (''meter_end_value_kwh'', PFloat (real meter_end / 10000)),
                 (''total_energy_kwh'', PFloat (real total_energy / 10000)),
                 (''total_energy_with_loss_kwh'', PFloat (real total_energy_loss / 10000)),
                 (''total_amount_yuan'', PFloat (real total_amount / 10000)),
                 (''vin_code'', PStr vin_code),
                 (''trade_type'',
                    PStr (dict_get [(0x01, [CHR 0x61, CHR 0x70, CHR 0x70, CHR 0xE5, CHR 0x90, CHR 0xAF, CHR 0xE5, CHR 0x8A, CHR 0xA8] \<comment> \<open>started by app\<close>), (0x02, [CHR 0xE5, CHR 0x8D, CHR 0xA1, CHR 0xE5, CHR 0x90, CHR 0xAF, CHR 0xE5, CHR 0x8A, CHR 0xA8] \<comment> \<open>started by card\<close>),
                                    (0x04, [CHR 0xE7, CHR 0xA6, CHR 0xBB, CHR 0xE7, CHR 0xBA, CHR 0xBF, CHR 0xE5, CHR 0x8D, CHR 0xA1, CHR 0xE5, CHR 0x90, CHR 0xAF, CHR 0xE5, CHR 0x8A, CHR 0xA8] \<comment> \<open>started by offline card\<close>),
                                    (0x05, [CHR 0x56, CHR 0x49, CHR 0x4E, CHR 0xE7, CHR 0xA0, CHR 0x81, CHR 0xE5, CHR 0x90, CHR 0xAF, CHR 0xE5, CHR 0x8A, CHR 0xA8, CHR 0xE5, CHR 0x85, CHR 0x85, CHR 0xE7, CHR 0x94, CHR 0xB5] \<comment> \<open>charging started by VIN\<close>)]
                            trade_type (unknown_code trade_type))),
                 (''trade_type_code'', PInt (int trade_type)),
                 (''trade_datetime'', PStr (parse_cp56time2a (py_slice body 142 149))),
                 (''stop_reason_code'', PInt (int stop_reason)),
                 (''stop_reason'', PStr ([CHR 0xE5, CHR 0x81, CHR 0x9C, CHR 0xE6, CHR 0xAD, CHR 0xA2, CHR 0xE5, CHR 0x8E, CHR 0x9F, CHR 0xE5, CHR 0x9B, CHR 0xA0, CHR 0xE4, CHR 0xBB, CHR 0xA3, CHR 0xE7, CHR 0xA0, CHR 0x81, CHR 0x3A, CHR 0x20] \<comment> \<open>stop reason code: \<close> @ fmt_dec 0 stop_reason)),
                 (''physical_card_number'', PStr (card_hex card_number [CHR 0xE6, CHR 0x97, CHR 0xA0, CHR 0xE5, CHR 0x8D, CHR 0xA1] \<comment> \<open>no card\<close>))]),
           c))))))"

text \<open>\<open>TransactionConfirmParser.parse\<close> (0x40).\<close>

definition TransactionConfirmParser_parse :: "ctx \<Rightarrow> byte list \<Rightarrow> body_outcome \<times> ctx" where
  "TransactionConfirmParser_parse c0 body =
     validated TransactionConfirmParser c0 body (\<lambda>c.
       index body 16 c (\<lambda>confirm_result.
         (Inr [(''transaction_id'', PStr (bcd_to_str (py_slice body 0 16))),
               (''confirm_result'',
                  PStr (if confirm_result = 0x00 then [CHR 0xE4, CHR 0xB8, CHR 0x8A, CHR 0xE4, CHR 0xBC, CHR 0xA0, CHR 0xE6, CHR 0x88, CHR 0x90, CHR 0xE5, CHR 0x8A, CHR 0x9F] \<comment> \<open>upload succeeded\<close> else [CHR 0xE9, CHR 0x9D, CHR 0x9E, CHR 0xE6, CHR 0xB3, CHR 0x95, CHR 0xE8, CHR 0xB4, CHR 0xA6, CHR 0xE5, CHR 0x8D, CHR 0x95] \<comment> \<open>illegal bill\<close>)),
               (''confirm_result_code'', PInt (int confirm_result))],
          c)))"

text \<open>\<open>BalanceUpdateRequestParser.parse\<close> (0x42).\<close>

definition BalanceUpdateRequestParser_parse :: "ctx \<Rightarrow> byte list \<Rightarrow> body_outcome \<times> ctx" where
  "BalanceUpdateRequestParser_parse c0 body =
     validated BalanceUpdateRequestParser c0 body (\<lambda>c.
       (let card_number = int_le body 8 16;
            balance = int_le body 16 20
        in
        (Inr [(''pile_code'', PStr (bcd_to_str (py_slice body 0 7))),
              (''gun_number'', PStr (bcd_to_str (py_slice body 7 8))),
              (''physical_card_number'', PStr (card_hex card_number [CHR 0xE6, CHR 0x97, CHR 0xA0, CHR 0xE9, CHR 0x9C, CHR 0x80, CHR 0xE6, CHR 0xA0, CHR 0xA1, CHR 0xE9, CHR 0xAA, CHR 0x8C] \<comment> \<open>no check needed\<close>)),
              (''new_balance_yuan'', PFloat (real balance / 100))],
         c)))"

text \<open>\<open>BalanceUpdateResponseParser.parse\<close> (0x41).\<close>

definition BalanceUpdateResponseParser_parse :: "ctx \<Rightarrow> byte list \<Rightarrow> body_outcome \<times> ctx" where
  "BalanceUpdateResponseParser_parse c0 body =
     validated BalanceUpdateResponseParser c0 body (\<lambda>c.
       index body 15 c (\<lambda>modify_result.
         (let card_number = int_le body 7 15 in
          (Inr [(''pile_code'', PStr (bcd_to_str (py_slice body 0 7))),
                (''physical_card_number'', PStr (card_hex card_number [CHR 0xE6, CHR 0x97, CHR 0xA0] \<comment> \<open>none\<close>)),
                (''modify_result'',
                   PStr (dict_get [(0x00, [CHR 0xE4, CHR 0xBF, CHR 0xAE, CHR 0xE6, CHR 0x94, CHR 0xB9, CHR 0xE6, CHR 0x88, CHR 0x90, CHR 0xE5, CHR 0x8A, CHR 0x9F] \<comment> \<open>modified\<close>),
                                   (0x01, [CHR 0xE8, CHR 0xAE, CHR 0xBE, CHR 0xE5, CHR 0xA4, CHR 0x87, CHR 0xE7, CHR 0xBC, CHR 0x96, CHR 0xE5, CHR 0x8F, CHR 0xB7, CHR 0xE9, CHR 0x94, CHR 0x99, CHR 0xE8, CHR 0xAF, CHR 0xAF] \<comment> \<open>wrong device number\<close>),
                                   (0x02, [CHR 0xE5, CHR 0x8D, CHR 0xA1, CHR 0xE5, CHR 0x8F, CHR 0xB7, CHR 0xE9, CHR 0x94, CHR 0x99, CHR 0xE8, CHR 0xAF, CHR 0xAF] \<comment> \<open>wrong card number\<close>)]
                           modify_result (unknown_code modify_result))),
                (''modify_result_code'', PInt (int modify_result))],
           c))))"

text \<open>
  \<open>OfflineCardSyncParser.parse\<close> (0x44).  The declared count is checked against the
  body length, a shortfall is appended to \<open>context.errors\<close>, and the loop runs over
  \<open>range(min(card_count, (len(body) - 8) // 16))\<close>; the \<open>i\<close>-th record starts at
  offset \<open>8 + 16 * i\<close>.
\<close>

definition OfflineCardSyncParser_parse :: "ctx \<Rightarrow> byte list \<Rightarrow> body_outcome \<times> ctx" where
  "OfflineCardSyncParser_parse c0 body =
     validated OfflineCardSyncParser c0 body (\<lambda>c.
       index body 7 c (\<lambda>card_count.
         (let expected_len = 8 + card_count * 16;
              c = (if length body < expected_len
                   then add_error (OfflineCardShort expected_len (length body)) c else c);
              cards = map (\<lambda>i. PDict
                             [(''logical_card_number'',
                                 PStr (bcd_to_str (py_slice body (8 + 16 * i) (16 + 16 * i)))),
                              (''physical_card_number'',
                                 PStr (fmt_hex 16 (int_le body (16 + 16 * i) (24 + 16 * i))))])
                          [0..<min card_count ((length body - 8) div 16)]
          in
          (Inr [(''pile_code'', PStr (bcd_to_str (py_slice body 0 7))),
                (''card_count'', PInt (int card_count)),
                (''cards'', PList cards)],
           c))))"

text \<open>\<open>OfflineCardSyncResponseParser.parse\<close> (0x43).\<close>

definition OfflineCardSyncResponseParser_parse :: "ctx \<Rightarrow> byte list \<Rightarrow> body_outcome \<times> ctx" where
  "OfflineCardSyncResponseParser_parse c0 body =
     validated OfflineCardSyncResponseParser c0 body (\<lambda>c.
       index body 7 c (\<lambda>save_result.
       index body 8 c (\<lambda>fail_reason.
         (Inr [(''pile_code'', PStr (bcd_to_str (py_slice body 0 7))),
               (''save_result'', PStr (if save_result = 0x01 then [CHR 0xE6, CHR 0x88, CHR 0x90, CHR 0xE5, CHR 0x8A, CHR 0x9F] \<comment> \<open>success\<close> else [CHR 0xE5, CHR 0xA4, CHR 0xB1, CHR 0xE8, CHR 0xB4, CHR 0xA5] \<comment> \<open>failure\<close>)),
               (''save_result_code'', PInt (int save_result)),
               (''fail_reason'',
                  PStr (dict_get [(0x00, [CHR 0xE6, CHR 0x97, CHR 0xA0] \<comment> \<open>none\<close>),
                                  (0x01, [CHR 0xE5, CHR 0x8D, CHR 0xA1, CHR 0xE5, CHR 0x8F, CHR 0xB7, CHR 0xE6, CHR 0xA0, CHR 0xBC, CHR 0xE5, CHR 0xBC, CHR 0x8F, CHR 0xE9, CHR 0x94, CHR 0x99, CHR 0xE8, CHR 0xAF, CHR 0xAF] \<comment> \<open>card number format error\<close>),
                                  (0x02, [CHR 0xE5, CHR 0x82, CHR 0xA8, CHR 0xE5, CHR 0xAD, CHR 0x98, CHR 0xE7, CHR 0xA9, CHR 0xBA, CHR 0xE9, CHR 0x97, CHR 0xB4, CHR 0xE4, CHR 0xB8, CHR 0x8D, CHR 0xE8, CHR 0xB6, CHR 0xB3] \<comment> \<open>not enough storage\<close>)]
                          fail_reason (unknown_code fail_reason))),
               (''fail_reason_code'', PInt (int fail_reason))],
          c))))"

text \<open>
  The 8-byte card numbers read by the loops of \<open>OfflineCardDeleteParser\<close> and
  \<open>OfflineCardQueryParser\<close>: \<open>range(min(card_count, (len(body) - 8) // 8))\<close>, the \<open>i\<close>-th
  number starting at offset \<open>8 + 8 * i\<close>.
\<close>

definition card_numbers :: "byte list \<Rightarrow> nat \<Rightarrow> pyval list" where
  "card_numbers body card_count =
     map (\<lambda>i. PStr (fmt_hex 16 (int_le body (8 + 8 * i) (16 + 8 * i))))
         [0..<min card_count ((length body - 8) div 8)]"

text \<open>\<open>OfflineCardDeleteParser.parse\<close> (0x46).\<close>

definition OfflineCardDeleteParser_parse :: "ctx \<Rightarrow> byte list \<Rightarrow> body_outcome \<times> ctx" where
  "OfflineCardDeleteParser_parse c0 body =
     validated OfflineCardDeleteParser c0 body (\<lambda>c.
       index body 7 c (\<lambda>card_count.
         (let expected_len = 8 + card_count * 8;
              c = (if length body < expected_len
                   then add_error (OfflineCardShort expected_len (length body)) c else c)
          in
          (Inr [(''pile_code'', PStr (bcd_to_str (py_slice body 0 7))),
                (''card_count'', PInt (int card_count)),
                (''card_numbers'', PList (card_numbers body card_count))],
           c))))"

text \<open>
  The \<open>while offset + 10 <= len(body)\<close> loop of \<open>OfflineCardDeleteResponseParser\<close>:
  10-byte records, each with two indexed bytes.
\<close>

function delete_response_cards :: "byte list \<Rightarrow> nat \<Rightarrow> pyexn + pyval list" where
  "delete_response_cards body offset =
     (if offset + 10 \<le> length body then
        (if offset + 8 < length body \<and> offset + 9 < length body then
           (let physical = int_le body offset (offset + 8);
                delete_flag = unat (body ! (offset + 8));
                fail_reason = unat (body ! (offset + 9));
                card = PDict
                  [(''physical_card_number'', PStr (fmt_hex 16 physical)),
                   (''delete_result'',
                      PStr (if delete_flag = 0x01 then [CHR 0xE6, CHR 0xB8, CHR 0x85, CHR 0xE9, CHR 0x99, CHR 0xA4, CHR 0xE6, CHR 0x88, CHR 0x90, CHR 0xE5, CHR 0x8A, CHR 0x9F] \<comment> \<open>cleared\<close> else [CHR 0xE6, CHR 0xB8, CHR 0x85, CHR 0xE9, CHR 0x99, CHR 0xA4, CHR 0xE5, CHR 0xA4, CHR 0xB1, CHR 0xE8, CHR 0xB4, CHR 0xA5] \<comment> \<open>clearing failed\<close>)),
                   (''delete_flag'', PInt (int delete_flag)),
                   (''fail_reason'',
                      PStr (dict_get [(0x00, [CHR 0xE6, CHR 0xB8, CHR 0x85, CHR 0xE9, CHR 0x99, CHR 0xA4, CHR 0xE6, CHR 0x88, CHR 0x90, CHR 0xE5, CHR 0x8A, CHR 0x9F] \<comment> \<open>cleared\<close>),
                                      (0x01, [CHR 0xE5, CHR 0x8D, CHR 0xA1, CHR 0xE5, CHR 0x8F, CHR 0xB7, CHR 0xE6, CHR 0xA0, CHR 0xBC, CHR 0xE5, CHR 0xBC, CHR 0x8F, CHR 0xE9, CHR 0x94, CHR 0x99, CHR 0xE8, CHR 0xAF, CHR 0xAF] \<comment> \<open>card number format error\<close>)]
                              fail_reason (unknown_code fail_reason))),
                   (''fail_reason_code'', PInt (int fail_reason))]
            in case delete_response_cards body (offset + 10) of
                 Inl e \<Rightarrow> Inl e
               | Inr cards \<Rightarrow> Inr (card # cards))
         else Inl IndexError)
      else Inr [])"
  by pat_completeness auto
termination
  by (relation "measure (\<lambda>(body, offset). length body - offset)") auto

declare delete_response_cards.simps [simp del]

text \<open>\<open>OfflineCardDeleteResponseParser.parse\<close> (0x45).\<close>

definition OfflineCardDeleteResponseParser_parse :: "ctx \<Rightarrow> byte list \<Rightarrow> body_outcome \<times> ctx" where
  "OfflineCardDeleteResponseParser_parse c0 body =
     validated OfflineCardDeleteResponseParser c0 body (\<lambda>c.
       (case delete_response_cards body 7 of
          Inl e \<Rightarrow> (Inl e, c)
        | Inr cards \<Rightarrow>
            (Inr [(''pile_code'', PStr (bcd_to_str (py_slice body 0 7))),
                  (''cards'', PList cards)],
             c)))"

text \<open>\<open>OfflineCardQueryParser.parse\<close> (0x48).\<close>

definition OfflineCardQueryParser_parse :: "ctx \<Rightarrow> byte list \<Rightarrow> body_outcome \<times> ctx" where
  "OfflineCardQueryParser_parse c0 body =
     validated OfflineCardQueryParser c0 body (\<lambda>c.
       index body 7 c (\<lambda>card_count.
         (let expected_len = 8 + card_count * 8;
              c = (if length body < expected_len
                   then add_error (OfflineCardShort expected_len (length body)) c else c)
          in
          (Inr [(''pile_code'', PStr (bcd_to_str (py_slice body 0 7))),
                (''card_count'', PInt (int card_count)),
                (''card_numbers'', PList (card_numbers body card_count))],
           c))))"

text \<open>The \<open>while offset + 9 <= len(body)\<close> loop of \<open>OfflineCardQueryResponseParser\<close>.\<close>

function query_response_cards :: "byte list \<Rightarrow> nat \<Rightarrow> pyexn + pyval list" where
  "query_response_cards body offset =
     (if offset + 9 \<le> length body then
        (if offset + 8 < length body then
           (let physical = int_le body offset (offset + 8);
                query_result = unat (body ! (offset + 8));
                card = PDict
                  [(''physical_card_number'', PStr (fmt_hex 16 physical)),
                   (''exists'', PBool (query_result = 0x01)),
                   (''query_result'',
                      PStr (if query_result = 0x01 then [CHR 0xE5, CHR 0xAD, CHR 0x98, CHR 0xE5, CHR 0x9C, CHR 0xA8] \<comment> \<open>exists\<close> else [CHR 0xE4, CHR 0xB8, CHR 0x8D, CHR 0xE5, CHR 0xAD, CHR 0x98, CHR 0xE5, CHR 0x9C, CHR 0xA8] \<comment> \<open>does not exist\<close>)),
                   (''query_result_code'', PInt (int query_result))]
            in case query_response_cards body (offset + 9) of
                 Inl e \<Rightarrow> Inl e
               | Inr cards \<Rightarrow> Inr (card # cards))
         else Inl IndexError)
      else Inr [])"
  by pat_completeness auto
termination
  by (relation "measure (\<lambda>(body, offset). length body - offset)") auto

declare query_response_cards.simps [simp del]

text \<open>\<open>OfflineCardQueryResponseParser.parse\<close> (0x47).\<close>

definition OfflineCardQueryResponseParser_parse :: "ctx \<Rightarrow> byte list \<Rightarrow> body_outcome \<times> ctx" where
  "OfflineCardQueryResponseParser_parse c0 body =
     validated OfflineCardQueryResponseParser c0 body (\<lambda>c.
       (case query_response_cards body 7 of
          Inl e \<Rightarrow> (Inl e, c)
        | Inr cards \<Rightarrow>
            (Inr [(''pile_code'', PStr (bcd_to_str (py_slice body 0 7))),
                  (''cards'', PList cards)],
             c)))"

section \<open>Body decoders: settings, parking lock, maintenance and parallel charging\<close>

text \<open>
  Eleven decoders share one shape: the pile code, then one result byte at index 7
  rendered as one of two texts, then the byte itself.  \<open>pile_and_flag\<close> is that shape;
  each decoder below names its own keys, test value and texts as its source does.
\<close>

definition pile_and_flag ::
  "parser_class \<Rightarrow> string \<Rightarrow> (nat \<Rightarrow> string) \<Rightarrow> ctx \<Rightarrow> byte list \<Rightarrow> body_outcome \<times> ctx" where
  "pile_and_flag cls key render c0 body =
     validated cls c0 body (\<lambda>c.
       index body 7 c (\<lambda>flag.
         (Inr [(''pile_code'', PStr (bcd_to_str (py_slice body 0 7))),
               (key, PStr (render flag)),
               (key @ ''_code'', PInt (int flag))],
          c)))"

text \<open>\<open>WorkParameterSetResponseParser.parse\<close> (0x51).\<close>

definition WorkParameterSetResponseParser_parse :: "ctx \<Rightarrow> byte list \<Rightarrow> body_outcome \<times> ctx" where
  "WorkParameterSetResponseParser_parse =
     pile_and_flag WorkParameterSetResponseParser ''set_result''
       (\<lambda>set_result. if set_result = 0x00 then [CHR 0xE8, CHR 0xAE, CHR 0xBE, CHR 0xE7, CHR 0xBD, CHR 0xAE, CHR 0xE6, CHR 0x88, CHR 0x90, CHR 0xE5, CHR 0x8A, CHR 0x9F] \<comment> \<open>set\<close> else [CHR 0xE8, CHR 0xAE, CHR 0xBE, CHR 0xE7, CHR 0xBD, CHR 0xAE, CHR 0xE5, CHR 0xA4, CHR 0xB1, CHR 0xE8, CHR 0xB4, CHR 0xA5] \<comment> \<open>setting failed\<close>)"

text \<open>\<open>WorkParameterSetParser.parse\<close> (0x52).\<close>

definition WorkParameterSetParser_parse :: "ctx \<Rightarrow> byte list \<Rightarrow> body_outcome \<times> ctx" where
  "WorkParameterSetParser_parse c0 body =
     validated WorkParameterSetParser c0 body (\<lambda>c.
       index body 7 c (\<lambda>param_type.
         (let param_value = py_slice body 8 18 in
          case ascii_to_str c param_value of (param_value_ascii, c) \<Rightarrow>
          (Inr [(''pile_code'', PStr (bcd_to_str (py_slice body 0 7))),
                (''param_type'',
                   PStr (dict_get [(0x01, [CHR 0xE5, CHR 0xBF, CHR 0x83, CHR 0xE8, CHR 0xB7, CHR 0xB3, CHR 0xE5, CHR 0x91, CHR 0xA8, CHR 0xE6, CHR 0x9C, CHR 0x9F] \<comment> \<open>heartbeat period\<close>), (0x02, [CHR 0x49, CHR 0x50, CHR 0xE5, CHR 0x9C, CHR 0xB0, CHR 0xE5, CHR 0x9D, CHR 0x80] \<comment> \<open>IP address\<close>),
                                   (0x03, [CHR 0xE7, CHR 0xAB, CHR 0xAF, CHR 0xE5, CHR 0x8F, CHR 0xA3, CHR 0xE5, CHR 0x8F, CHR 0xB7] \<comment> \<open>port number\<close>), (0x04, ''APN''),
                                   (0x05, [CHR 0xE6, CHR 0x9C, CHR 0x8D, CHR 0xE5, CHR 0x8A, CHR 0xA1, CHR 0xE5, CHR 0x99, CHR 0xA8, CHR 0xE5, CHR 0x9F, CHR 0x9F, CHR 0xE5, CHR 0x90, CHR 0x8D] \<comment> \<open>server domain name\<close>)]
                           param_type (unknown_code param_type))),
                (''param_type_code'', PInt (int param_type)),
                (''param_value'', PStr (hex_upper param_value)),
                (''param_value_ascii'', PStr param_value_ascii)],
           c))))"

text \<open>\<open>TimeSyncResponseParser.parse\<close> (0x55).\<close>

definition TimeSyncResponseParser_parse :: "ctx \<Rightarrow> byte list \<Rightarrow> body_outcome \<times> ctx" where
  "TimeSyncResponseParser_parse =
     pile_and_flag TimeSyncResponseParser ''sync_result''
       (\<lambda>sync_result. if sync_result = 0x00 then [CHR 0xE5, CHR 0xAF, CHR 0xB9, CHR 0xE6, CHR 0x97, CHR 0xB6, CHR 0xE6, CHR 0x88, CHR 0x90, CHR 0xE5, CHR 0x8A, CHR 0x9F] \<comment> \<open>time synchronised\<close>
                       else [CHR 0xE5, CHR 0xAF, CHR 0xB9, CHR 0xE6, CHR 0x97, CHR 0xB6, CHR 0xE5, CHR 0xA4, CHR 0xB1, CHR 0xE8, CHR 0xB4, CHR 0xA5] \<comment> \<open>time synchronisation failed\<close>)"

text \<open>\<open>TimeSyncParser.parse\<close> (0x56).\<close>

definition TimeSyncParser_parse :: "ctx \<Rightarrow> byte list \<Rightarrow> body_outcome \<times> ctx" where
  "TimeSyncParser_parse c0 body =
     validated TimeSyncParser c0 body (\<lambda>c.
       (Inr [(''pile_code'', PStr (bcd_to_str (py_slice body 0 7))),
             (''sync_time'', PStr (parse_cp56time2a (py_slice body 7 14)))],
        c))"

text \<open>\<open>BillingModelResponseParser.parse\<close> (0x57).\<close>

definition BillingModelResponseParser_parse :: "ctx \<Rightarrow> byte list \<Rightarrow> body_outcome \<times> ctx" where
  "BillingModelResponseParser_parse =
     pile_and_flag BillingModelResponseParser ''set_result''
       (\<lambda>set_result. if set_result = 0x00 then [CHR 0xE8, CHR 0xAE, CHR 0xBE, CHR 0xE7, CHR 0xBD, CHR 0xAE, CHR 0xE6, CHR 0x88, CHR 0x90, CHR 0xE5, CHR 0x8A, CHR 0x9F] \<comment> \<open>set\<close> else [CHR 0xE8, CHR 0xAE, CHR 0xBE, CHR 0xE7, CHR 0xBD, CHR 0xAE, CHR 0xE5, CHR 0xA4, CHR 0xB1, CHR 0xE8, CHR 0xB4, CHR 0xA5] \<comment> \<open>setting failed\<close>)"

text \<open>\<open>BillingModelSetParser.parse\<close> (0x58); \<open>body[7:]\<close> is the rest of the body.\<close>

definition BillingModelSetParser_parse :: "ctx \<Rightarrow> byte list \<Rightarrow> body_outcome \<times> ctx" where
  "BillingModelSetParser_parse c0 body =
     validated BillingModelSetParser c0 body (\<lambda>c.
       (Inr [(''pile_code'', PStr (bcd_to_str (py_slice body 0 7))),
             (''billing_model_data'', PStr (hex_upper (drop 7 body))),
             (''note'', PStr [CHR 0xE8, CHR 0xAE, CHR 0xA1, CHR 0xE8, CHR 0xB4, CHR 0xB9, CHR 0xE6, CHR 0xA8, CHR 0xA1, CHR 0xE5, CHR 0x9E, CHR 0x8B, CHR 0xE6, CHR 0x95, CHR 0xB0, CHR 0xE6, CHR 0x8D, CHR 0xAE, CHR 0xE7, CHR 0xBB, CHR 0x93, CHR 0xE6, CHR 0x9E, CHR 0x84, CHR 0xE5, CHR 0xBE, CHR 0x85, CHR 0xE8, CHR 0xAF, CHR 0xA6, CHR 0xE7, CHR 0xBB, CHR 0x86, CHR 0xE8, CHR 0xA7, CHR 0xA3, CHR 0xE6, CHR 0x9E, CHR 0x90] \<comment> \<open>billing model data layout still to be parsed in detail\<close>)],
        c))"

text \<open>\<open>ParkingLockStatusParser.parse\<close> (0x61).\<close>

definition ParkingLockStatusParser_parse :: "ctx \<Rightarrow> byte list \<Rightarrow> body_outcome \<times> ctx" where
  "ParkingLockStatusParser_parse c0 body =
     validated ParkingLockStatusParser c0 body (\<lambda>c.
       index body 7 c (\<lambda>lock_status.
       index body 8 c (\<lambda>battery_level.
         (Inr [(''pile_code'', PStr (bcd_to_str (py_slice body 0 7))),
               (''lock_status'',
                  PStr (dict_get [(0x00, [CHR 0xE9, CHR 0x99, CHR 0x8D, CHR 0xE4, CHR 0xB8, CHR 0x8B] \<comment> \<open>lowered\<close>), (0x01, [CHR 0xE5, CHR 0x8D, CHR 0x87, CHR 0xE8, CHR 0xB5, CHR 0xB7] \<comment> \<open>raised\<close>), (0x02, [CHR 0xE6, CHR 0x95, CHR 0x85, CHR 0xE9, CHR 0x9A, CHR 0x9C] \<comment> \<open>fault\<close>)]
                          lock_status (unknown_code lock_status))),
               (''lock_status_code'', PInt (int lock_status)),
               (''battery_level_percent'', PInt (int battery_level))],
          c))))"

text \<open>\<open>ParkingLockControlParser.parse\<close> (0x62).\<close>

definition ParkingLockControlParser_parse :: "ctx \<Rightarrow> byte list \<Rightarrow> body_outcome \<times> ctx" where
  "ParkingLockControlParser_parse =
     pile_and_flag ParkingLockControlParser ''control_command''
       (\<lambda>control_cmd. dict_get [(0x00, [CHR 0xE9, CHR 0x99, CHR 0x8D, CHR 0xE4, CHR 0xB8, CHR 0x8B] \<comment> \<open>lowered\<close>), (0x01, [CHR 0xE5, CHR 0x8D, CHR 0x87, CHR 0xE8, CHR 0xB5, CHR 0xB7] \<comment> \<open>raised\<close>)]
                         control_cmd (unknown_code control_cmd))"

text \<open>\<open>ParkingLockResponseParser.parse\<close> (0x63).\<close>

definition ParkingLockResponseParser_parse :: "ctx \<Rightarrow> byte list \<Rightarrow> body_outcome \<times> ctx" where
  "ParkingLockResponseParser_parse =
     pile_and_flag ParkingLockResponseParser ''exec_result''
       (\<lambda>exec_result. if exec_result = 0x00 then [CHR 0xE6, CHR 0x89, CHR 0xA7, CHR 0xE8, CHR 0xA1, CHR 0x8C, CHR 0xE6, CHR 0x88, CHR 0x90, CHR 0xE5, CHR 0x8A, CHR 0x9F] \<comment> \<open>executed\<close> else [CHR 0xE6, CHR 0x89, CHR 0xA7, CHR 0xE8, CHR 0xA1, CHR 0x8C, CHR 0xE5, CHR 0xA4, CHR 0xB1, CHR 0xE8, CHR 0xB4, CHR 0xA5] \<comment> \<open>execution failed\<close>)"

text \<open>\<open>RemoteRebootResponseParser.parse\<close> (0x91).\<close>

definition RemoteRebootResponseParser_parse :: "ctx \<Rightarrow> byte list \<Rightarrow> body_outcome \<times> ctx" where
  "RemoteRebootResponseParser_parse =
     pile_and_flag RemoteRebootResponseParser ''reboot_result''
       (\<lambda>reboot_result. if reboot_result = 0x00 then [CHR 0xE9, CHR 0x87, CHR 0x8D, CHR 0xE5, CHR 0x90, CHR 0xAF, CHR 0xE6, CHR 0x88, CHR 0x90, CHR 0xE5, CHR 0x8A, CHR 0x9F] \<comment> \<open>rebooted\<close> else [CHR 0xE9, CHR 0x87, CHR 0x8D, CHR 0xE5, CHR 0x90, CHR 0xAF, CHR 0xE5, CHR 0xA4, CHR 0xB1, CHR 0xE8, CHR 0xB4, CHR 0xA5] \<comment> \<open>reboot failed\<close>)"

text \<open>\<open>RemoteRebootParser.parse\<close> (0x92).\<close>

definition RemoteRebootParser_parse :: "ctx \<Rightarrow> byte list \<Rightarrow> body_outcome \<times> ctx" where
  "RemoteRebootParser_parse c0 body =
     validated RemoteRebootParser c0 body (\<lambda>c.
       (Inr [(''pile_code'', PStr (bcd_to_str (py_slice body 0 7)))], c))"

text \<open>\<open>RemoteUpdateResponseParser.parse\<close> (0x93).\<close>

definition RemoteUpdateResponseParser_parse :: "ctx \<Rightarrow> byte list \<Rightarrow> body_outcome \<times> ctx" where
  "RemoteUpdateResponseParser_parse =
     pile_and_flag RemoteUpdateResponseParser ''update_result''
       (\<lambda>update_result. if update_result = 0x00 then [CHR 0xE6, CHR 0x9B, CHR 0xB4, CHR 0xE6, CHR 0x96, CHR 0xB0, CHR 0xE6, CHR 0x88, CHR 0x90, CHR 0xE5, CHR 0x8A, CHR 0x9F] \<comment> \<open>updated\<close> else [CHR 0xE6, CHR 0x9B, CHR 0xB4, CHR 0xE6, CHR 0x96, CHR 0xB0, CHR 0xE5, CHR 0xA4, CHR 0xB1, CHR 0xE8, CHR 0xB4, CHR 0xA5] \<comment> \<open>update failed\<close>)"

text \<open>\<open>RemoteUpdateParser.parse\<close> (0x94).\<close>

definition RemoteUpdateParser_parse :: "ctx \<Rightarrow> byte list \<Rightarrow> body_outcome \<times> ctx" where
  "RemoteUpdateParser_parse c0 body =
     validated RemoteUpdateParser c0 body (\<lambda>c.
       (Inr [(''pile_code'', PStr (bcd_to_str (py_slice body 0 7))),
             (''update_params'', PStr (hex_upper (drop 7 body))),
             (''note'', PStr [CHR 0xE6, CHR 0x9B, CHR 0xB4, CHR 0xE6, CHR 0x96, CHR 0xB0, CHR 0xE5, CHR 0x8F, CHR 0x82, CHR 0xE6, CHR 0x95, CHR 0xB0, CHR 0xE6, CHR 0x95, CHR 0xB0, CHR 0xE6, CHR 0x8D, CHR 0xAE, CHR 0xE5, CHR 0xBE, CHR 0x85, CHR 0xE8, CHR 0xAF, CHR 0xA6, CHR 0xE7, CHR 0xBB, CHR 0x86, CHR 0xE8, CHR 0xA7, CHR 0xA3, CHR 0xE6, CHR 0x9E, CHR 0x90] \<comment> \<open>update parameter data still to be parsed in detail\<close>)],
        c))"

text \<open>\<open>ParallelChargingRequestParser.parse\<close> (0xA1).\<close>

definition ParallelChargingRequestParser_parse :: "ctx \<Rightarrow> byte list \<Rightarrow> body_outcome \<times> ctx" where
  "ParallelChargingRequestParser_parse =
     pile_and_flag ParallelChargingRequestParser ''request_type''
       (\<lambda>request_type. if request_type = 0x01 then [CHR 0xE7, CHR 0x94, CHR 0xB3, CHR 0xE8, CHR 0xAF, CHR 0xB7, CHR 0xE5, CHR 0xB9, CHR 0xB6, CHR 0xE5, CHR 0x85, CHR 0x85] \<comment> \<open>parallel charging requested\<close>
                        else unknown_code request_type)"

text \<open>\<open>ParallelChargingConfirmParser.parse\<close> (0xA2).\<close>

definition ParallelChargingConfirmParser_parse :: "ctx \<Rightarrow> byte list \<Rightarrow> body_outcome \<times> ctx" where
  "ParallelChargingConfirmParser_parse =
     pile_and_flag ParallelChargingConfirmParser ''confirm_result''
       (\<lambda>confirm_result. if confirm_result = 0x00 then [CHR 0xE7, CHR 0xA1, CHR 0xAE, CHR 0xE8, CHR 0xAE, CHR 0xA4, CHR 0xE6, CHR 0x88, CHR 0x90, CHR 0xE5, CHR 0x8A, CHR 0x9F] \<comment> \<open>confirmed\<close>
                          else [CHR 0xE7, CHR 0xA1, CHR 0xAE, CHR 0xE8, CHR 0xAE, CHR 0xA4, CHR 0xE5, CHR 0xA4, CHR 0xB1, CHR 0xE8, CHR 0xB4, CHR 0xA5] \<comment> \<open>confirmation failed\<close>)"

text \<open>\<open>ParallelChargingReplyParser.parse\<close> (0xA3).\<close>

definition ParallelChargingReplyParser_parse :: "ctx \<Rightarrow> byte list \<Rightarrow> body_outcome \<times> ctx" where
  "ParallelChargingReplyParser_parse =
     pile_and_flag ParallelChargingReplyParser ''exec_result''
       (\<lambda>exec_result. if exec_result = 0x00 then [CHR 0xE6, CHR 0x89, CHR 0xA7, CHR 0xE8, CHR 0xA1, CHR 0x8C, CHR 0xE6, CHR 0x88, CHR 0x90, CHR 0xE5, CHR 0x8A, CHR 0x9F] \<comment> \<open>executed\<close> else [CHR 0xE6, CHR 0x89, CHR 0xA7, CHR 0xE8, CHR 0xA1, CHR 0x8C, CHR 0xE5, CHR 0xA4, CHR 0xB1, CHR 0xE8, CHR 0xB4, CHR 0xA5] \<comment> \<open>execution failed\<close>)"

text \<open>\<open>ParallelChargingCommandParser.parse\<close> (0xA4).\<close>

definition ParallelChargingCommandParser_parse :: "ctx \<Rightarrow> byte list \<Rightarrow> body_outcome \<times> ctx" where
  "ParallelChargingCommandParser_parse =
     pile_and_flag ParallelChargingCommandParser ''control_command''
       (\<lambda>control_cmd. if control_cmd = 0x01 then [CHR 0xE5, CHR 0x90, CHR 0xAF, CHR 0xE5, CHR 0x8A, CHR 0xA8, CHR 0xE5, CHR 0xB9, CHR 0xB6, CHR 0xE5, CHR 0x85, CHR 0x85] \<comment> \<open>start parallel charging\<close>
                       else unknown_code control_cmd)"

text \<open>
  \<open>QRCodePrefixSetParser.parse\<close> (0xF0).  The class is defined but not registered in
  the factory.  \<open>remaining = len(body) - 9\<close> is not negative after the length check.
\<close>

definition QRCodePrefixSetParser_parse :: "ctx \<Rightarrow> byte list \<Rightarrow> body_outcome \<times> ctx" where
  "QRCodePrefixSetParser_parse c0 body =
     validated QRCodePrefixSetParser c0 body (\<lambda>c.
       index body 7 c (\<lambda>prefix_format.
       index body 8 c (\<lambda>prefix_length.
         (let remaining = length body - 9;
              take_n = max 0 (min prefix_length remaining);
              prefix_bytes = py_slice body 9 (9 + take_n)
          in
          case (if take_n > 0 then ascii_to_str c prefix_bytes else ('''', c)) of
            (qrcode_prefix, c) \<Rightarrow>
          (let c = (if remaining < prefix_length
                    then add_warning (QrPrefixIncomplete prefix_length remaining) c
                    else if remaining > prefix_length
                    then add_warning (QrPrefixExcess prefix_length remaining) c
                    else c)
           in
           (Inr [(''pile_code'', PStr (bcd_to_str (py_slice body 0 7))),
                 (''qrcode_prefix_format'',
                    PStr (dict_get [(0x00, [CHR 0xE7, CHR 0xAC, CHR 0xAC, CHR 0xE4, CHR 0xB8, CHR 0x80, CHR 0xE7, CHR 0xA7, CHR 0x8D, CHR 0xE5, CHR 0x89, CHR 0x8D, CHR 0xE7, CHR 0xBC, CHR 0x80, CHR 0x2B, CHR 0xE6, CHR 0xA1, CHR 0xA9, CHR 0xE7, CHR 0xBC, CHR 0x96, CHR 0xE5, CHR 0x8F, CHR 0xB7] \<comment> \<open>first prefix kind + pile number\<close>),
                                    (0x01, [CHR 0xE7, CHR 0xAC, CHR 0xAC, CHR 0xE4, CHR 0xBA, CHR 0x8C, CHR 0xE7, CHR 0xA7, CHR 0x8D, CHR 0xE5, CHR 0x89, CHR 0x8D, CHR 0xE7, CHR 0xBC, CHR 0x80, CHR 0x2B, CHR 0xE7, CHR 0xBB, CHR 0x84, CHR 0xE7, CHR 0xBB, CHR 0x87, CHR 0xE5, CHR 0x8F, CHR 0xB7, CHR 0x2B, CHR 0xE6, CHR 0xA1, CHR 0xA9, CHR 0xE7, CHR 0xBC, CHR 0x96, CHR 0xE5, CHR 0x8F, CHR 0xB7] \<comment> \<open>second prefix kind + organisation number + pile number\<close>)]
                            prefix_format (unknown_code prefix_format))),
                 (''qrcode_prefix_format_code'', PInt (int prefix_format)),
                 (''qrcode_prefix_length'', PInt (int prefix_length)),
                 (''qrcode_prefix'', PStr qrcode_prefix),
                 (''qrcode_prefix_hex'', PStr (hex_upper prefix_bytes))],
            c))))))"

text \<open>\<open>QRCodePrefixSetResponseParser.parse\<close> (0xF1); not registered in the factory either.\<close>

definition QRCodePrefixSetResponseParser_parse :: "ctx \<Rightarrow> byte list \<Rightarrow> body_outcome \<times> ctx" where
  "QRCodePrefixSetResponseParser_parse c0 body =
     validated QRCodePrefixSetResponseParser c0 body (\<lambda>c.
       index body 7 c (\<lambda>set_result.
         (Inr [(''pile_code'', PStr (bcd_to_str (py_slice body 0 7))),
               (''set_result'', PStr (if set_result = 0x01 then [CHR 0xE6, CHR 0x88, CHR 0x90, CHR 0xE5, CHR 0x8A, CHR 0x9F] \<comment> \<open>success\<close> else [CHR 0xE5, CHR 0xA4, CHR 0xB1, CHR 0xE8, CHR 0xB4, CHR 0xA5] \<comment> \<open>failure\<close>)),
               (''set_result_code'', PInt (int set_result))],
          (if set_result = 0x01 then add_warning QrSuccessNote c else c))))"

text \<open>
  \<open>DefaultParser.parse\<close>: no length check; the raw body in uppercase hex and a fixed
  note.
\<close>

definition not_implemented_note :: string where
  "not_implemented_note = [CHR 0xE8, CHR 0xAF, CHR 0xA5, CHR 0xE5, CHR 0xB8, CHR 0xA7, CHR 0xE7, CHR 0xB1, CHR 0xBB, CHR 0xE5, CHR 0x9E, CHR 0x8B, CHR 0xE6, CHR 0x9A, CHR 0x82, CHR 0xE6, CHR 0x9C, CHR 0xAA, CHR 0xE5, CHR 0xAE, CHR 0x9E, CHR 0xE7, CHR 0x8E, CHR 0xB0, CHR 0xE8, CHR 0xAF, CHR 0xA6, CHR 0xE7, CHR 0xBB, CHR 0x86, CHR 0xE8, CHR 0xA7, CHR 0xA3, CHR 0xE6, CHR 0x9E, CHR 0x90] \<comment> \<open>detailed parsing of this frame type is not implemented yet\<close>"

definition DefaultParser_parse :: "ctx \<Rightarrow> byte list \<Rightarrow> body_outcome \<times> ctx" where
  "DefaultParser_parse c body =
     (Inr [(''raw'', PStr (hex_upper body)), (''note'', PStr not_implemented_note)], c)"

section \<open>FrameParserFactory\<close>

text \<open>The class attribute \<open>_parsers\<close>: frame-type code to decoder class.\<close>

definition parsers :: "(nat \<times> parser_class) list" where
  "parsers =
     [(0x01, LoginParser), (0x02, LoginResponseParser),
      (0x03, HeartbeatParser), (0x04, HeartbeatResponseParser),
      (0x12, ReadRealtimeParser), (0x13, RealtimeDataParser),
      (0x15, ChargingHandshakeParser), (0x17, ParameterConfigParser),
      (0x19, ChargingEndParser), (0x1B, ErrorMessageParser),
      (0x1D, BMSStopParser), (0x21, ChargerStopParser),
      (0x23, BMSDemandOutputParser), (0x25, BMSInfoParser),
      (0x31, ChargingStartRequestParser), (0x32, ChargingStartConfirmParser),
      (0x33, RemoteStartReplyParser), (0x34, RemoteStartCommandParser),
      (0x35, RemoteStopReplyParser), (0x36, RemoteStopCommandParser),
      (0x3B, TransactionRecordParser), (0x40, TransactionConfirmParser),
      (0x41, BalanceUpdateResponseParser), (0x42, BalanceUpdateRequestParser),
      (0x43, OfflineCardSyncResponseParser), (0x44, OfflineCardSyncParser),
      (0x45, OfflineCardDeleteResponseParser), (0x46, OfflineCardDeleteParser),
      (0x47, OfflineCardQueryResponseParser), (0x48, OfflineCardQueryParser),
      (0x51, WorkParameterSetResponseParser), (0x52, WorkParameterSetParser),
      (0x55, TimeSyncResponseParser), (0x56, TimeSyncParser),
      (0x57, BillingModelResponseParser), (0x58, BillingModelSetParser),
      (0x61, ParkingLockStatusParser), (0x62, ParkingLockControlParser),
      (0x63, ParkingLockResponseParser),
      (0x91, RemoteRebootResponseParser), (0x92, RemoteRebootParser),
      (0x93, RemoteUpdateResponseParser), (0x94, RemoteUpdateParser),
      (0xA1, ParallelChargingRequestParser), (0xA2, ParallelChargingConfirmParser),
      (0xA3, ParallelChargingReplyParser), (0xA4, ParallelChargingCommandParser)]"

text \<open>\<open>FrameParserFactory.get_parser\<close>: \<open>cls._parsers.get(frame_type, DefaultParser)\<close>.\<close>

definition get_parser :: "nat \<Rightarrow> parser_class" where
  "get_parser frame_type = dict_get parsers frame_type DefaultParser"

text \<open>\<open>parser.parse(body)\<close>: the method of the instance's class.\<close>

fun parser_parse :: "parser_class \<Rightarrow> ctx \<Rightarrow> byte list \<Rightarrow> body_outcome \<times> ctx" where
  "parser_parse LoginParser = LoginParser_parse"
| "parser_parse LoginResponseParser = LoginResponseParser_parse"
| "parser_parse HeartbeatParser = HeartbeatParser_parse"
| "parser_parse HeartbeatResponseParser = HeartbeatResponseParser_parse"
| "parser_parse ReadRealtimeParser = ReadRealtimeParser_parse"
| "parser_parse RealtimeDataParser = RealtimeDataParser_parse"
| "parser_parse ChargingHandshakeParser = ChargingHandshakeParser_parse"
| "parser_parse ParameterConfigParser = ParameterConfigParser_parse"
| "parser_parse ChargingEndParser = ChargingEndParser_parse"
| "parser_parse ErrorMessageParser = ErrorMessageParser_parse"
| "parser_parse BMSStopParser = BMSStopParser_parse"
| "parser_parse ChargerStopParser = ChargerStopParser_parse"
| "parser_parse BMSDemandOutputParser = BMSDemandOutputParser_parse"
| "parser_parse BMSInfoParser = BMSInfoParser_parse"
| "parser_parse ChargingStartRequestParser = ChargingStartRequestParser_parse"
| "parser_parse ChargingStartConfirmParser = ChargingStartConfirmParser_parse"
| "parser_parse RemoteStartReplyParser = RemoteStartReplyParser_parse"
| "parser_parse RemoteStartCommandParser = RemoteStartCommandParser_parse"
| "parser_parse RemoteStopReplyParser = RemoteStopReplyParser_parse"
| "parser_parse RemoteStopCommandParser = RemoteStopCommandParser_parse"
| "parser_parse TransactionRecordParser = TransactionRecordParser_parse"
| "parser_parse TransactionConfirmParser = TransactionConfirmParser_parse"
| "parser_parse BalanceUpdateRequestParser = BalanceUpdateRequestParser_parse"
| "parser_parse BalanceUpdateResponseParser = BalanceUpdateResponseParser_parse"
| "parser_parse OfflineCardSyncParser = OfflineCardSyncParser_parse"
| "parser_parse OfflineCardSyncResponseParser = OfflineCardSyncResponseParser_parse"
| "parser_parse OfflineCardDeleteParser = OfflineCardDeleteParser_parse"
| "parser_parse OfflineCardDeleteResponseParser = OfflineCardDeleteResponseParser_parse"
| "parser_parse OfflineCardQueryParser = OfflineCardQueryParser_parse"
| "parser_parse OfflineCardQueryResponseParser = OfflineCardQueryResponseParser_parse"
| "parser_parse WorkParameterSetResponseParser = WorkParameterSetResponseParser_parse"
| "parser_parse WorkParameterSetParser = WorkParameterSetParser_parse"
| "parser_parse TimeSyncResponseParser = TimeSyncResponseParser_parse"
| "parser_parse TimeSyncParser = TimeSyncParser_parse"
| "parser_parse BillingModelResponseParser = BillingModelResponseParser_parse"
| "parser_parse BillingModelSetParser = BillingModelSetParser_parse"
| "parser_parse ParkingLockStatusParser = ParkingLockStatusParser_parse"
| "parser_parse ParkingLockControlParser = ParkingLockControlParser_parse"
| "parser_parse ParkingLockResponseParser = ParkingLockResponseParser_parse"
| "parser_parse RemoteRebootResponseParser = RemoteRebootResponseParser_parse"
| "parser_parse RemoteRebootParser = RemoteRebootParser_parse"
| "parser_parse RemoteUpdateResponseParser = RemoteUpdateResponseParser_parse"
| "parser_parse RemoteUpdateParser = RemoteUpdateParser_parse"
| "parser_parse ParallelChargingRequestParser = ParallelChargingRequestParser_parse"
| "parser_parse ParallelChargingConfirmParser = ParallelChargingConfirmParser_parse"
| "parser_parse ParallelChargingReplyParser = ParallelChargingReplyParser_parse"
| "parser_parse ParallelChargingCommandParser = ParallelChargingCommandParser_parse"
| "parser_parse QRCodePrefixSetParser = QRCodePrefixSetParser_parse"
| "parser_parse QRCodePrefixSetResponseParser = QRCodePrefixSetResponseParser_parse"
| "parser_parse DefaultParser = DefaultParser_parse"

section \<open>YKCProtocolParser: the envelope parser\<close>

text \<open>The class attribute \<open>FRAME_TYPES\<close>: frame-type code to display name.\<close>

definition FRAME_TYPES :: "(nat \<times> string) list" where
  "FRAME_TYPES =
     [(0x01, [CHR 0xE5, CHR 0x85, CHR 0x85, CHR 0xE7, CHR 0x94, CHR 0xB5, CHR 0xE6, CHR 0xA1, CHR 0xA9, CHR 0xE7, CHR 0x99, CHR 0xBB, CHR 0xE5, CHR 0xBD, CHR 0x95, CHR 0xE8, CHR 0xAE, CHR 0xA4, CHR 0xE8, CHR 0xAF, CHR 0x81] \<comment> \<open>charging pile login\<close>),
      (0x02, [CHR 0xE7, CHR 0x99, CHR 0xBB, CHR 0xE5, CHR 0xBD, CHR 0x95, CHR 0xE8, CHR 0xAE, CHR 0xA4, CHR 0xE8, CHR 0xAF, CHR 0x81, CHR 0xE5, CHR 0xBA, CHR 0x94, CHR 0xE7, CHR 0xAD, CHR 0x94] \<comment> \<open>login reply\<close>),
      (0x03, [CHR 0xE5, CHR 0x85, CHR 0x85, CHR 0xE7, CHR 0x94, CHR 0xB5, CHR 0xE6, CHR 0xA1, CHR 0xA9, CHR 0xE5, CHR 0xBF, CHR 0x83, CHR 0xE8, CHR 0xB7, CHR 0xB3, CHR 0xE5, CHR 0x8C, CHR 0x85] \<comment> \<open>charging pile heartbeat\<close>),
      (0x04, [CHR 0xE5, CHR 0xBF, CHR 0x83, CHR 0xE8, CHR 0xB7, CHR 0xB3, CHR 0xE5, CHR 0x8C, CHR 0x85, CHR 0xE5, CHR 0xBA, CHR 0x94, CHR 0xE7, CHR 0xAD, CHR 0x94] \<comment> \<open>heartbeat reply\<close>),
      (0x05, [CHR 0xE8, CHR 0xAE, CHR 0xA1, CHR 0xE8, CHR 0xB4, CHR 0xB9, CHR 0xE6, CHR 0xA8, CHR 0xA1, CHR 0xE5, CHR 0x9E, CHR 0x8B, CHR 0xE9, CHR 0xAA, CHR 0x8C, CHR 0xE8, CHR 0xAF, CHR 0x81, CHR 0xE8, CHR 0xAF, CHR 0xB7, CHR 0xE6, CHR 0xB1, CHR 0x82] \<comment> \<open>billing model verification request\<close>),
      (0x06, [CHR 0xE8, CHR 0xAE, CHR 0xA1, CHR 0xE8, CHR 0xB4, CHR 0xB9, CHR 0xE6, CHR 0xA8, CHR 0xA1, CHR 0xE5, CHR 0x9E, CHR 0x8B, CHR 0xE9, CHR 0xAA, CHR 0x8C, CHR 0xE8, CHR 0xAF, CHR 0x81, CHR 0xE5, CHR 0xBA, CHR 0x94, CHR 0xE7, CHR 0xAD, CHR 0x94] \<comment> \<open>billing model verification reply\<close>),
      (0x09, [CHR 0xE5, CHR 0x85, CHR 0x85, CHR 0xE7, CHR 0x94, CHR 0xB5, CHR 0xE6, CHR 0xA1, CHR 0xA9, CHR 0xE8, CHR 0xAE, CHR 0xA1, CHR 0xE8, CHR 0xB4, CHR 0xB9, CHR 0xE6, CHR 0xA8, CHR 0xA1, CHR 0xE5, CHR 0x9E, CHR 0x8B, CHR 0xE8, CHR 0xAF, CHR 0xB7, CHR 0xE6, CHR 0xB1, CHR 0x82] \<comment> \<open>charging pile billing model request\<close>),
      (0x0A, [CHR 0xE8, CHR 0xAE, CHR 0xA1, CHR 0xE8, CHR 0xB4, CHR 0xB9, CHR 0xE6, CHR 0xA8, CHR 0xA1, CHR 0xE5, CHR 0x9E, CHR 0x8B, CHR 0xE8, CHR 0xAF, CHR 0xB7, CHR 0xE6, CHR 0xB1, CHR 0x82, CHR 0xE5, CHR 0xBA, CHR 0x94, CHR 0xE7, CHR 0xAD, CHR 0x94] \<comment> \<open>billing model request reply\<close>),
      (0x12, [CHR 0xE8, CHR 0xAF, CHR 0xBB, CHR 0xE5, CHR 0x8F, CHR 0x96, CHR 0xE5, CHR 0xAE, CHR 0x9E, CHR 0xE6, CHR 0x97, CHR 0xB6, CHR 0xE7, CHR 0x9B, CHR 0x91, CHR 0xE6, CHR 0xB5, CHR 0x8B, CHR 0xE6, CHR 0x95, CHR 0xB0, CHR 0xE6, CHR 0x8D, CHR 0xAE] \<comment> \<open>read live monitoring data\<close>),
      (0x13, [CHR 0xE4, CHR 0xB8, CHR 0x8A, CHR 0xE4, CHR 0xBC, CHR 0xA0, CHR 0xE5, CHR 0xAE, CHR 0x9E, CHR 0xE6, CHR 0x97, CHR 0xB6, CHR 0xE7, CHR 0x9B, CHR 0x91, CHR 0xE6, CHR 0xB5, CHR 0x8B, CHR 0xE6, CHR 0x95, CHR 0xB0, CHR 0xE6, CHR 0x8D, CHR 0xAE] \<comment> \<open>upload live monitoring data\<close>),
      (0x15, [CHR 0xE5, CHR 0x85, CHR 0x85, CHR 0xE7, CHR 0x94, CHR 0xB5, CHR 0xE6, CHR 0x8F, CHR 0xA1, CHR 0xE6, CHR 0x89, CHR 0x8B] \<comment> \<open>charging handshake\<close>),
      (0x17, [CHR 0xE5, CHR 0x8F, CHR 0x82, CHR 0xE6, CHR 0x95, CHR 0xB0, CHR 0xE9, CHR 0x85, CHR 0x8D, CHR 0xE7, CHR 0xBD, CHR 0xAE] \<comment> \<open>parameter configuration\<close>),
      (0x19, [CHR 0xE5, CHR 0x85, CHR 0x85, CHR 0xE7, CHR 0x94, CHR 0xB5, CHR 0xE7, CHR 0xBB, CHR 0x93, CHR 0xE6, CHR 0x9D, CHR 0x9F] \<comment> \<open>charging ended\<close>),
      (0x1B, [CHR 0xE9, CHR 0x94, CHR 0x99, CHR 0xE8, CHR 0xAF, CHR 0xAF, CHR 0xE6, CHR 0x8A, CHR 0xA5, CHR 0xE6, CHR 0x96, CHR 0x87] \<comment> \<open>error message\<close>),
      (0x1D, [CHR 0xE5, CHR 0x85, CHR 0x85, CHR 0xE7, CHR 0x94, CHR 0xB5, CHR 0xE9, CHR 0x98, CHR 0xB6, CHR 0xE6, CHR 0xAE, CHR 0xB5, CHR 0x42, CHR 0x4D, CHR 0x53, CHR 0xE4, CHR 0xB8, CHR 0xAD, CHR 0xE6, CHR 0xAD, CHR 0xA2] \<comment> \<open>BMS stop during charging\<close>),
      (0x21, [CHR 0xE5, CHR 0x85, CHR 0x85, CHR 0xE7, CHR 0x94, CHR 0xB5, CHR 0xE9, CHR 0x98, CHR 0xB6, CHR 0xE6, CHR 0xAE, CHR 0xB5, CHR 0xE5, CHR 0x85, CHR 0x85, CHR 0xE7, CHR 0x94, CHR 0xB5, CHR 0xE6, CHR 0x9C, CHR 0xBA, CHR 0xE4, CHR 0xB8, CHR 0xAD, CHR 0xE6, CHR 0xAD, CHR 0xA2] \<comment> \<open>charger stop during charging\<close>),
      (0x23, [CHR 0x42, CHR 0x4D, CHR 0x53, CHR 0xE9, CHR 0x9C, CHR 0x80, CHR 0xE6, CHR 0xB1, CHR 0x82, CHR 0x2F, CHR 0xE5, CHR 0x85, CHR 0x85, CHR 0xE7, CHR 0x94, CHR 0xB5, CHR 0xE6, CHR 0x9C, CHR 0xBA, CHR 0xE8, CHR 0xBE, CHR 0x93, CHR 0xE5, CHR 0x87, CHR 0xBA] \<comment> \<open>BMS demand / charger output\<close>),
      (0x25, [CHR 0x42, CHR 0x4D, CHR 0x53, CHR 0xE4, CHR 0xBF, CHR 0xA1, CHR 0xE6, CHR 0x81, CHR 0xAF] \<comment> \<open>BMS information\<close>),
      (0x31, [CHR 0xE5, CHR 0x85, CHR 0x85, CHR 0xE7, CHR 0x94, CHR 0xB5, CHR 0xE6, CHR 0xA1, CHR 0xA9, CHR 0xE4, CHR 0xB8, CHR 0xBB, CHR 0xE5, CHR 0x8A, CHR 0xA8, CHR 0xE7, CHR 0x94, CHR 0xB3, CHR 0xE8, CHR 0xAF, CHR 0xB7, CHR 0xE5, CHR 0x90, CHR 0xAF, CHR 0xE5, CHR 0x8A, CHR 0xA8] \<comment> \<open>pile asks to start\<close>),
      (0x32, [CHR 0xE7, CHR 0xA1, CHR 0xAE, CHR 0xE8, CHR 0xAE, CHR 0xA4, CHR 0xE5, CHR 0x90, CHR 0xAF, CHR 0xE5, CHR 0x8A, CHR 0xA8, CHR 0xE5, CHR 0x85, CHR 0x85, CHR 0xE7, CHR 0x94, CHR 0xB5] \<comment> \<open>start of charging confirmed\<close>),
      (0x33, [CHR 0xE8, CHR 0xBF, CHR 0x9C, CHR 0xE7, CHR 0xA8, CHR 0x8B, CHR 0xE5, CHR 0x90, CHR 0xAF, CHR 0xE6, CHR 0x9C, CHR 0xBA, CHR 0xE5, CHR 0x9B, CHR 0x9E, CHR 0xE5, CHR 0xA4, CHR 0x8D] \<comment> \<open>remote start reply\<close>),
      (0x34, [CHR 0xE8, CHR 0xBF, CHR 0x9C, CHR 0xE7, CHR 0xA8, CHR 0x8B, CHR 0xE6, CHR 0x8E, CHR 0xA7, CHR 0xE5, CHR 0x88, CHR 0xB6, CHR 0xE5, CHR 0x90, CHR 0xAF, CHR 0xE6, CHR 0x9C, CHR 0xBA] \<comment> \<open>remote start command\<close>),
      (0x35, [CHR 0xE8, CHR 0xBF, CHR 0x9C, CHR 0xE7, CHR 0xA8, CHR 0x8B, CHR 0xE5, CHR 0x81, CHR 0x9C, CHR 0xE6, CHR 0x9C, CHR 0xBA, CHR 0xE5, CHR 0x9B, CHR 0x9E, CHR 0xE5, CHR 0xA4, CHR 0x8D] \<comment> \<open>remote stop reply\<close>),
      (0x36, [CHR 0xE8, CHR 0xBF, CHR 0x9C, CHR 0xE7, CHR 0xA8, CHR 0x8B, CHR 0xE5, CHR 0x81, CHR 0x9C, CHR 0xE6, CHR 0x9C, CHR 0xBA] \<comment> \<open>remote stop\<close>),
      (0x3B, [CHR 0xE4, CHR 0xBA, CHR 0xA4, CHR 0xE6, CHR 0x98, CHR 0x93, CHR 0xE8, CHR 0xAE, CHR 0xB0, CHR 0xE5, CHR 0xBD, CHR 0x95] \<comment> \<open>transaction record\<close>),
      (0x40, [CHR 0xE4, CHR 0xBA, CHR 0xA4, CHR 0xE6, CHR 0x98, CHR 0x93, CHR 0xE8, CHR 0xAE, CHR 0xB0, CHR 0xE5, CHR 0xBD, CHR 0x95, CHR 0xE7, CHR 0xA1, CHR 0xAE, CHR 0xE8, CHR 0xAE, CHR 0xA4] \<comment> \<open>transaction record confirmation\<close>),
      (0x41, [CHR 0xE4, CHR 0xBD, CHR 0x99, CHR 0xE9, CHR 0xA2, CHR 0x9D, CHR 0xE6, CHR 0x9B, CHR 0xB4, CHR 0xE6, CHR 0x96, CHR 0xB0, CHR 0xE5, CHR 0xBA, CHR 0x94, CHR 0xE7, CHR 0xAD, CHR 0x94] \<comment> \<open>balance update reply\<close>),
      (0x42, [CHR 0xE8, CHR 0xBF, CHR 0x9C, CHR 0xE7, CHR 0xA8, CHR 0x8B, CHR 0xE8, CHR 0xB4, CHR 0xA6, CHR 0xE6, CHR 0x88, CHR 0xB7, CHR 0xE4, CHR 0xBD, CHR 0x99, CHR 0xE9, CHR 0xA2, CHR 0x9D, CHR 0xE6, CHR 0x9B, CHR 0xB4, CHR 0xE6, CHR 0x96, CHR 0xB0] \<comment> \<open>remote account balance update\<close>),
      (0x43, [CHR 0xE7, CHR 0xA6, CHR 0xBB, CHR 0xE7, CHR 0xBA, CHR 0xBF, CHR 0xE5, CHR 0x8D, CHR 0xA1, CHR 0xE6, CHR 0x95, CHR 0xB0, CHR 0xE6, CHR 0x8D, CHR 0xAE, CHR 0xE5, CHR 0x90, CHR 0x8C, CHR 0xE6, CHR 0xAD, CHR 0xA5, CHR 0xE5, CHR 0xBA, CHR 0x94, CHR 0xE7, CHR 0xAD, CHR 0x94] \<comment> \<open>offline card sync reply\<close>),
      (0x44, [CHR 0xE7, CHR 0xA6, CHR 0xBB, CHR 0xE7, CHR 0xBA, CHR 0xBF, CHR 0xE5, CHR 0x8D, CHR 0xA1, CHR 0xE6, CHR 0x95, CHR 0xB0, CHR 0xE6, CHR 0x8D, CHR 0xAE, CHR 0xE5, CHR 0x90, CHR 0x8C, CHR 0xE6, CHR 0xAD, CHR 0xA5] \<comment> \<open>offline card sync\<close>),
      (0x45, [CHR 0xE7, CHR 0xA6, CHR 0xBB, CHR 0xE7, CHR 0xBA, CHR 0xBF, CHR 0xE5, CHR 0x8D, CHR 0xA1, CHR 0xE6, CHR 0x95, CHR 0xB0, CHR 0xE6, CHR 0x8D, CHR 0xAE, CHR 0xE6, CHR 0xB8, CHR 0x85, CHR 0xE9, CHR 0x99, CHR 0xA4, CHR 0xE5, CHR 0xBA, CHR 0x94, CHR 0xE7, CHR 0xAD, CHR 0x94] \<comment> \<open>offline card clearing reply\<close>),
      (0x46, [CHR 0xE7, CHR 0xA6, CHR 0xBB, CHR 0xE7, CHR 0xBA, CHR 0xBF, CHR 0xE5, CHR 0x8D, CHR 0xA1, CHR 0xE6, CHR 0x95, CHR 0xB0, CHR 0xE6, CHR 0x8D, CHR 0xAE, CHR 0xE6, CHR 0xB8, CHR 0x85, CHR 0xE9, CHR 0x99, CHR 0xA4] \<comment> \<open>offline card clearing\<close>),
      (0x47, [CHR 0xE7, CHR 0xA6, CHR 0xBB, CHR 0xE7, CHR 0xBA, CHR 0xBF, CHR 0xE5, CHR 0x8D, CHR 0xA1, CHR 0xE6, CHR 0x95, CHR 0xB0, CHR 0xE6, CHR 0x8D, CHR 0xAE, CHR 0xE6, CHR 0x9F, CHR 0xA5, CHR 0xE8, CHR 0xAF, CHR 0xA2, CHR 0xE5, CHR 0xBA, CHR 0x94, CHR 0xE7, CHR 0xAD, CHR 0x94] \<comment> \<open>offline card query reply\<close>),
      (0x48, [CHR 0xE7, CHR 0xA6, CHR 0xBB, CHR 0xE7, CHR 0xBA, CHR 0xBF, CHR 0xE5, CHR 0x8D, CHR 0xA1, CHR 0xE6, CHR 0x95, CHR 0xB0, CHR 0xE6, CHR 0x8D, CHR 0xAE, CHR 0xE6, CHR 0x9F, CHR 0xA5, CHR 0xE8, CHR 0xAF, CHR 0xA2] \<comment> \<open>offline card query\<close>),
      (0x51, [CHR 0xE5, CHR 0xB7, CHR 0xA5, CHR 0xE4, CHR 0xBD, CHR 0x9C, CHR 0xE5, CHR 0x8F, CHR 0x82, CHR 0xE6, CHR 0x95, CHR 0xB0, CHR 0xE8, CHR 0xAE, CHR 0xBE, CHR 0xE7, CHR 0xBD, CHR 0xAE, CHR 0xE5, CHR 0xBA, CHR 0x94, CHR 0xE7, CHR 0xAD, CHR 0x94] \<comment> \<open>working parameter setting reply\<close>),
      (0x52, [CHR 0xE5, CHR 0xB7, CHR 0xA5, CHR 0xE4, CHR 0xBD, CHR 0x9C, CHR 0xE5, CHR 0x8F, CHR 0x82, CHR 0xE6, CHR 0x95, CHR 0xB0, CHR 0xE8, CHR 0xAE, CHR 0xBE, CHR 0xE7, CHR 0xBD, CHR 0xAE] \<comment> \<open>working parameter setting\<close>),
      (0x55, [CHR 0xE5, CHR 0xAF, CHR 0xB9, CHR 0xE6, CHR 0x97, CHR 0xB6, CHR 0xE8, CHR 0xAE, CHR 0xBE, CHR 0xE7, CHR 0xBD, CHR 0xAE, CHR 0xE5, CHR 0xBA, CHR 0x94, CHR 0xE7, CHR 0xAD, CHR 0x94] \<comment> \<open>time sync reply\<close>),
      (0x56, [CHR 0xE5, CHR 0xAF, CHR 0xB9, CHR 0xE6, CHR 0x97, CHR 0xB6, CHR 0xE8, CHR 0xAE, CHR 0xBE, CHR 0xE7, CHR 0xBD, CHR 0xAE] \<comment> \<open>time sync\<close>),
      (0x57, [CHR 0xE8, CHR 0xAE, CHR 0xA1, CHR 0xE8, CHR 0xB4, CHR 0xB9, CHR 0xE6, CHR 0xA8, CHR 0xA1, CHR 0xE5, CHR 0x9E, CHR 0x8B, CHR 0xE5, CHR 0xBA, CHR 0x94, CHR 0xE7, CHR 0xAD, CHR 0x94] \<comment> \<open>billing model reply\<close>),
      (0x58, [CHR 0xE8, CHR 0xAE, CHR 0xA1, CHR 0xE8, CHR 0xB4, CHR 0xB9, CHR 0xE6, CHR 0xA8, CHR 0xA1, CHR 0xE5, CHR 0x9E, CHR 0x8B, CHR 0xE8, CHR 0xAE, CHR 0xBE, CHR 0xE7, CHR 0xBD, CHR 0xAE] \<comment> \<open>billing model setting\<close>),
      (0x61, [CHR 0xE5, CHR 0x9C, CHR 0xB0, CHR 0xE9, CHR 0x94, CHR 0x81, CHR 0xE6, CHR 0x95, CHR 0xB0, CHR 0xE6, CHR 0x8D, CHR 0xAE, CHR 0xE4, CHR 0xB8, CHR 0x8A, CHR 0xE9, CHR 0x80, CHR 0x81] \<comment> \<open>parking lock data upload\<close>),
      (0x62, [CHR 0xE9, CHR 0x81, CHR 0xA5, CHR 0xE6, CHR 0x8E, CHR 0xA7, CHR 0xE5, CHR 0x9C, CHR 0xB0, CHR 0xE9, CHR 0x94, CHR 0x81, CHR 0xE5, CHR 0x8D, CHR 0x87, CHR 0xE9, CHR 0x99, CHR 0x8D] \<comment> \<open>remote parking lock raise or lower\<close>),
      (0x63, [CHR 0xE5, CHR 0x85, CHR 0x85, CHR 0xE7, CHR 0x94, CHR 0xB5, CHR 0xE6, CHR 0xA1, CHR 0xA9, CHR 0xE8, CHR 0xBF, CHR 0x94, CHR 0xE5, CHR 0x9B, CHR 0x9E, CHR 0xE6, CHR 0x95, CHR 0xB0, CHR 0xE6, CHR 0x8D, CHR 0xAE] \<comment> \<open>data returned by the pile\<close>),
      (0x91, [CHR 0xE8, CHR 0xBF, CHR 0x9C, CHR 0xE7, CHR 0xA8, CHR 0x8B, CHR 0xE9, CHR 0x87, CHR 0x8D, CHR 0xE5, CHR 0x90, CHR 0xAF, CHR 0xE5, CHR 0xBA, CHR 0x94, CHR 0xE7, CHR 0xAD, CHR 0x94] \<comment> \<open>remote reboot reply\<close>),
      (0x92, [CHR 0xE8, CHR 0xBF, CHR 0x9C, CHR 0xE7, CHR 0xA8, CHR 0x8B, CHR 0xE9, CHR 0x87, CHR 0x8D, CHR 0xE5, CHR 0x90, CHR 0xAF] \<comment> \<open>remote reboot\<close>),
      (0x93, [CHR 0xE8, CHR 0xBF, CHR 0x9C, CHR 0xE7, CHR 0xA8, CHR 0x8B, CHR 0xE6, CHR 0x9B, CHR 0xB4, CHR 0xE6, CHR 0x96, CHR 0xB0, CHR 0xE5, CHR 0xBA, CHR 0x94, CHR 0xE7, CHR 0xAD, CHR 0x94] \<comment> \<open>remote update reply\<close>),
      (0x94, [CHR 0xE8, CHR 0xBF, CHR 0x9C, CHR 0xE7, CHR 0xA8, CHR 0x8B, CHR 0xE6, CHR 0x9B, CHR 0xB4, CHR 0xE6, CHR 0x96, CHR 0xB0] \<comment> \<open>remote update\<close>),
      (0xA1, [CHR 0xE4, CHR 0xB8, CHR 0xBB, CHR 0xE5, CHR 0x8A, CHR 0xA8, CHR 0xE7, CHR 0x94, CHR 0xB3, CHR 0xE8, CHR 0xAF, CHR 0xB7, CHR 0xE5, CHR 0xB9, CHR 0xB6, CHR 0xE5, CHR 0x85, CHR 0x85] \<comment> \<open>parallel charging request\<close>),
      (0xA2, [CHR 0xE7, CHR 0xA1, CHR 0xAE, CHR 0xE8, CHR 0xAE, CHR 0xA4, CHR 0xE5, CHR 0xB9, CHR 0xB6, CHR 0xE5, CHR 0x85, CHR 0x85, CHR 0xE5, CHR 0x90, CHR 0xAF, CHR 0xE5, CHR 0x8A, CHR 0xA8] \<comment> \<open>parallel charging start confirmed\<close>),
      (0xA3, [CHR 0xE8, CHR 0xBF, CHR 0x9C, CHR 0xE7, CHR 0xA8, CHR 0x8B, CHR 0xE5, CHR 0xB9, CHR 0xB6, CHR 0xE5, CHR 0x85, CHR 0x85, CHR 0xE5, CHR 0x90, CHR 0xAF, CHR 0xE6, CHR 0x9C, CHR 0xBA, CHR 0xE5, CHR 0x9B, CHR 0x9E, CHR 0xE5, CHR 0xA4, CHR 0x8D] \<comment> \<open>remote parallel start reply\<close>),
      (0xA4, [CHR 0xE8, CHR 0xBF, CHR 0x9C, CHR 0xE7, CHR 0xA8, CHR 0x8B, CHR 0xE6, CHR 0x8E, CHR 0xA7, CHR 0xE5, CHR 0x88, CHR 0xB6, CHR 0xE5, CHR 0xB9, CHR 0xB6, CHR 0xE5, CHR 0x85, CHR 0x85, CHR 0xE5, CHR 0x90, CHR 0xAF, CHR 0xE6, CHR 0x9C, CHR 0xBA] \<comment> \<open>remote parallel start command\<close>),
      (0xF0, [CHR 0xE5, CHR 0x90, CHR 0x8E, CHR 0xE5, CHR 0x8F, CHR 0xB0, CHR 0xE4, CHR 0xB8, CHR 0x8B, CHR 0xE5, CHR 0x8F, CHR 0x91, CHR 0xE4, CHR 0xBA, CHR 0x8C, CHR 0xE7, CHR 0xBB, CHR 0xB4, CHR 0xE7, CHR 0xA0, CHR 0x81, CHR 0xE5, CHR 0x89, CHR 0x8D, CHR 0xE7, CHR 0xBC, CHR 0x80, CHR 0xE6, CHR 0x8C, CHR 0x87, CHR 0xE4, CHR 0xBB, CHR 0xA4] \<comment> \<open>platform sends QR code prefix command\<close>),
      (0xF1, [CHR 0xE6, CHR 0xA1, CHR 0xA9, CHR 0xE5, CHR 0xBA, CHR 0x94, CHR 0xE7, CHR 0xAD, CHR 0x94, CHR 0xE8, CHR 0xBF, CHR 0x94, CHR 0xE5, CHR 0x9B, CHR 0x9E, CHR 0xE4, CHR 0xB8, CHR 0x8B, CHR 0xE5, CHR 0x8F, CHR 0x91, CHR 0xE4, CHR 0xBA, CHR 0x8C, CHR 0xE7, CHR 0xBB, CHR 0xB4, CHR 0xE7, CHR 0xA0, CHR 0x81, CHR 0xE5, CHR 0x89, CHR 0x8D, CHR 0xE7, CHR 0xBC, CHR 0x80, CHR 0xE6, CHR 0x8C, CHR 0x87, CHR 0xE4, CHR 0xBB, CHR 0xA4] \<comment> \<open>pile reply to QR code prefix command\<close>)]"

text \<open>The default of \<open>FRAME_TYPES.get\<close>: the Chinese text for "unknown frame type".\<close>

definition unknown_frame_type_name :: string where
  "unknown_frame_type_name = [CHR 0xE6, CHR 0x9C, CHR 0xAA, CHR 0xE7, CHR 0x9F, CHR 0xA5, CHR 0xE5, CHR 0xB8, CHR 0xA7, CHR 0xE7, CHR 0xB1, CHR 0xBB, CHR 0xE5, CHR 0x9E, CHR 0x8B] \<comment> \<open>unknown frame type\<close>"

text \<open>
  The dict \<open>result\<close> built by \<open>_parse_structure\<close>: a field is \<open>None\<close> while its key is
  absent.  \<open>body_data\<close> holds the decoder's dict, or Python's \<open>None\<close> after a decoder
  exception.
\<close>

datatype body_value = BodyNone | BodyDict fields

record frame_result =
  start_flag :: "string option"
  data_length :: "nat option"
  sequence_number :: "nat option"
  encrypt_flag :: "string option"
  is_encrypted :: "bool option"
  frame_type :: "string option"
  frame_type_name :: "string option"
  body_length :: "nat option"
  body_hex :: "string option"
  crc16_received :: "string option"
  crc16_calculated :: "string option"
  crc16_valid :: "bool option"
  body_data :: "body_value option"

definition empty_result :: frame_result where
  "empty_result =
     \<lparr>start_flag = None, data_length = None, sequence_number = None, encrypt_flag = None,
      is_encrypted = None, frame_type = None, frame_type_name = None, body_length = None,
      body_hex = None, crc16_received = None, crc16_calculated = None, crc16_valid = None,
      body_data = None\<rparr>"

text \<open>
  Step 6 of \<open>_parse_structure\<close>, the body slice: \<open>data[6:]\<close> with an error when the
  frame ends before \<open>body_end\<close>, \<open>data[6:body_end]\<close> otherwise.
\<close>

definition body_slice :: "byte list \<Rightarrow> nat \<Rightarrow> byte list" where
  "body_slice data body_end =
     (if length data < body_end then drop 6 data else py_slice data 6 body_end)"

definition read_body :: "byte list \<Rightarrow> nat \<Rightarrow> ctx \<Rightarrow> ctx" where
  "read_body data body_end c =
     (if length data < body_end then add_error (BodyIncomplete body_end (length data)) c else c)"

text \<open>
  Step 7, the checksum.  \<open>calculate_crc16\<close> comes from the module \<open>crc16\<close>, which is
  not among the sources: it is the parameter \<open>crc\<close>, any function from bytes to a
  non-negative integer.
\<close>

definition check_crc ::
  "(byte list \<Rightarrow> nat) \<Rightarrow> byte list \<Rightarrow> nat \<Rightarrow> frame_result \<Rightarrow> ctx \<Rightarrow> frame_result \<times> ctx" where
  "check_crc crc data body_end result c =
     (if length data \<ge> body_end + 2 then
        (let crc_bytes = py_slice data body_end (body_end + 2);
             crc_received = from_bytes_big crc_bytes;
             result = result\<lparr>crc16_received := Some (''0x'' @ fmt_hex 4 crc_received)\<rparr>;
             crc_data = py_slice data 2 body_end;
             crc_calculated = crc crc_data;
             result = result\<lparr>crc16_calculated := Some (''0x'' @ fmt_hex 4 crc_calculated)\<rparr>
         in if crc_calculated \<noteq> crc_received
            then (result\<lparr>crc16_valid := Some False\<rparr>,
                  add_warning (CrcMismatch crc_received crc_calculated) c)
            else (result\<lparr>crc16_valid := Some True\<rparr>, c))
      else (result\<lparr>crc16_valid := Some False\<rparr>, add_error CrcUnreadable c))"

text \<open>
  Step 8, the body decoder: only \<open>if body:\<close>, and any exception of the decoder becomes
  one error and \<open>body_data = None\<close>.
\<close>

definition decode_body :: "nat \<Rightarrow> byte list \<Rightarrow> frame_result \<Rightarrow> ctx \<Rightarrow> frame_result \<times> ctx" where
  "decode_body ftype body result c =
     (if body \<noteq> [] then
        (case parser_parse (get_parser ftype) c body of
           (Inr parsed, c') \<Rightarrow> (result\<lparr>body_data := Some (BodyDict parsed)\<rparr>, c')
         | (Inl e, c') \<Rightarrow>
             (result\<lparr>body_data := Some BodyNone\<rparr>, add_error (BodyParseFailed e) c'))
      else (result, c))"

text \<open>
  \<open>YKCProtocolParser._parse_structure\<close>.  \<open>data[0]\<close> and \<open>data[1]\<close> raise on a buffer
  of fewer than two bytes; \<open>parse\<close> never passes one.  The three early \<open>return result\<close>
  and the one after a negative body length are the \<open>Inr\<close> results before the last.
\<close>

definition parse_structure ::
  "(byte list \<Rightarrow> nat) \<Rightarrow> ctx \<Rightarrow> byte list \<Rightarrow> (pyexn + frame_result) \<times> ctx" where
  "parse_structure crc c0 data =
     (if length data < 1 then (Inl IndexError, c0)
      else
        let sflag = unat (data ! 0);
            result = empty_result\<lparr>start_flag := Some (''0x'' @ fmt_hex 2 sflag)\<rparr>;
            c = (if sflag \<noteq> 0x68 then add_error (StartFlagError sflag) c0 else c0)
        in
        if length data < 2 then (Inl IndexError, c)
        else
          let data_len = unat (data ! 1);
              result = result\<lparr>data_length := Some data_len\<rparr>;
              expected_total_len = 1 + 1 + data_len + 2;
              c = (if length data \<noteq> expected_total_len
                   then add_error (LengthMismatch expected_total_len (length data)) c else c)
          in
          if \<not> length data \<ge> 4 then (Inr result, add_error NoSequenceNumber c)
          else
            let seq_num = from_bytes_little (py_slice data 2 4);
                result = result\<lparr>sequence_number := Some seq_num\<rparr>
            in
            if \<not> length data \<ge> 5 then (Inr result, add_error NoEncryptFlag c)
            else
              let eflag = unat (data ! 4);
                  result = result\<lparr>encrypt_flag := Some (''0x'' @ fmt_hex 2 eflag),
                                  is_encrypted := Some (eflag = 0x01)\<rparr>
              in
              if \<not> length data \<ge> 6 then (Inr result, add_error NoFrameType c)
              else
                let ftype = unat (data ! 5);
                    result = result\<lparr>frame_type := Some (''0x'' @ fmt_hex 2 ftype),
                                    frame_type_name :=
                                      Some (dict_get FRAME_TYPES ftype unknown_frame_type_name)\<rparr>;
                    c = (if ftype \<notin> fst ` set FRAME_TYPES
                         then add_warning (UnknownFrameType ftype) c else c);
                    body_len = int data_len - 4
                in
                if body_len < 0 then (Inr result, add_error (DataLengthFieldError data_len) c)
                else
                  let body_start = 6;
                      body_end = body_start + nat body_len;
                      c = read_body data body_end c;
                      body = body_slice data body_end;
                      result = result\<lparr>body_length := Some (length body),
                                      body_hex := Some (hex_upper body)\<rparr>
                  in
                  case check_crc crc data body_end result c of (result, c) \<Rightarrow>
                  case decode_body ftype body result c of (result, c) \<Rightarrow>
                    (Inr result, c))"

text \<open>
  The \<open>msg\<close> of a response:
  \<^item> \<open>MsgOddLength\<close>: "the frame must have an even number of hex characters";
  \<^item> \<open>MsgFrameTooShort n\<close>: "frame too short: \<open>n\<close> bytes, at least 8 needed";
  \<^item> \<open>MsgParseFailed es\<close>: "parsing failed: " followed by \<open>"; ".join(es)\<close>;
  \<^item> \<open>MsgParseOk\<close>: "parsing succeeded";
  \<^item> \<open>MsgHexFormatError\<close>: "hex string format error: \<open>str(e)\<close>";
  \<^item> \<open>MsgParseException e\<close>: "parsing exception: \<open>str(e)\<close>".
\<close>

datatype message =
    MsgOddLength
  | MsgFrameTooShort nat
  | MsgParseFailed "diag list"
  | MsgParseOk
  | MsgHexFormatError
  | MsgParseException pyexn

text \<open>
  What \<open>parse\<close> returns: the dict of \<open>_parse_structure\<close> with the keys \<open>code\<close>,
  \<open>msg\<close> and, only when the list is not empty, \<open>errors\<close> and \<open>warnings\<close>; or the dict of
  \<open>_error_response\<close>, which has \<open>code\<close>, \<open>msg\<close> and a key \<open>data\<close> holding \<open>None\<close>.
\<close>

record response =
  fields_of :: frame_result
  code :: nat
  msg :: message
  errors_key :: "diag list option"
  warnings_key :: "diag list option"
  data_is_none :: bool

text \<open>\<open>YKCProtocolParser._error_response\<close>.\<close>

definition error_response :: "message \<Rightarrow> response" where
  "error_response m =
     \<lparr>fields_of = empty_result, code = 500, msg = m, errors_key = None, warnings_key = None,
      data_is_none = True\<rparr>"

text \<open>
  The input text.  A character is one of the 256 code points \<open>char\<close> has; \<open>str.strip()\<close>
  removes the characters Python counts as whitespace, which in this range are 9 to 13,
  28 to 32, 0x85 and 0xA0.
\<close>

definition py_isspace :: "char \<Rightarrow> bool" where
  "py_isspace ch = (let n = (of_char ch :: nat) in
     (9 \<le> n \<and> n \<le> 13) \<or> (28 \<le> n \<and> n \<le> 32) \<or> n = 0x85 \<or> n = 0xA0)"

definition strip :: "string \<Rightarrow> string" where
  "strip s = rev (dropWhile py_isspace (rev (dropWhile py_isspace s)))"

text \<open>
  \<open>bytes.fromhex\<close>: ASCII whitespace (9 to 13 and 32) is skipped before a pair of hex
  digits, anything else raises \<open>ValueError\<close>, here \<open>None\<close>.
\<close>

definition hex_value :: "char \<Rightarrow> nat option" where
  "hex_value ch = (let n = (of_char ch :: nat) in
     if 48 \<le> n \<and> n \<le> 57 then Some (n - 48)
     else if 65 \<le> n \<and> n \<le> 70 then Some (n - 55)
     else if 97 \<le> n \<and> n \<le> 102 then Some (n - 87)
     else None)"

definition c_isspace :: "char \<Rightarrow> bool" where
  "c_isspace ch = (let n = (of_char ch :: nat) in (9 \<le> n \<and> n \<le> 13) \<or> n = 32)"

fun fromhex :: "string \<Rightarrow> byte list option" where
  "fromhex [] = Some []"
| "fromhex [ch] = (if c_isspace ch then Some [] else None)"
| "fromhex (ch # d # rest) =
     (if c_isspace ch then fromhex (d # rest)
      else case (hex_value ch, hex_value d) of
             (Some hi, Some lo) \<Rightarrow>
               (case fromhex rest of
                  Some bs \<Rightarrow> Some (of_nat (hi * 16 + lo) # bs)
                | None \<Rightarrow> None)
           | _ \<Rightarrow> None)"

text \<open>\<open>hex_str.replace(" ", "").replace("\n", "").strip()\<close>, the first statement of \<open>parse\<close>.\<close>

definition clean_input :: "string \<Rightarrow> string" where
  "clean_input hex_str = strip (filter (\<lambda>ch. ch \<noteq> CHR '' '' \<and> ch \<noteq> CHR 0x0A) hex_str)"

text \<open>
  \<open>YKCProtocolParser.parse\<close>.  The context is reset first, so the result depends on the
  input text alone; the context the call leaves behind is returned next to the response.
  The two \<open>except\<close> clauses: a \<open>ValueError\<close> gives the hex format message, any other
  exception the parse exception message.
\<close>

definition parse :: "(byte list \<Rightarrow> nat) \<Rightarrow> string \<Rightarrow> response \<times> ctx" where
  "parse crc hex_str0 =
     (let c = \<lparr>errors = [], warnings = []\<rparr>;
          hex_str = clean_input hex_str0
      in
      if length hex_str mod 2 \<noteq> 0 then (error_response MsgOddLength, c)
      else
        (case fromhex hex_str of
           None \<Rightarrow> (error_response MsgHexFormatError, c)
         | Some data \<Rightarrow>
             (if length data < 8 then (error_response (MsgFrameTooShort (length data)), c)
              else
                (case parse_structure crc c data of
                   (Inl e, c) \<Rightarrow>
                     (error_response
                        (case e of ValueError \<Rightarrow> MsgHexFormatError
                         | IndexError \<Rightarrow> MsgParseException e), c)
                 | (Inr result, c) \<Rightarrow>
                     (\<lparr>fields_of = result,
                       code = (if errors c \<noteq> [] then 500 else 200),
                       msg = (if errors c \<noteq> [] then MsgParseFailed (take 3 (errors c))
                              else MsgParseOk),
                       errors_key = (if errors c \<noteq> [] then Some (errors c) else None),
                       warnings_key = (if warnings c \<noteq> [] then Some (warnings c) else None),
                       data_is_none = False\<rparr>,
                      c)))))"

section \<open>Notions used to state the properties\<close>

text \<open>The messages that only \<open>_parse_structure\<close> writes, as opposed to the body decoders.\<close>

fun envelope_diag :: "diag \<Rightarrow> bool" where
  "envelope_diag (StartFlagError f) = True"
| "envelope_diag (LengthMismatch e a) = True"
| "envelope_diag NoSequenceNumber = True"
| "envelope_diag NoEncryptFlag = True"
| "envelope_diag NoFrameType = True"
| "envelope_diag (UnknownFrameType t) = True"
| "envelope_diag (DataLengthFieldError n) = True"
| "envelope_diag (BodyIncomplete n a) = True"
| "envelope_diag (CrcMismatch r c) = True"
| "envelope_diag CrcUnreadable = True"
| "envelope_diag (BodyParseFailed e) = True"
| "envelope_diag (BodyTooShort cls n a) = False"
| "envelope_diag (OfflineCardShort n a) = False"
| "envelope_diag (AsciiNonPrintable bs) = False"
| "envelope_diag (AsciiDecodeFailed bs) = False"
| "envelope_diag (QrPrefixIncomplete e a) = False"
| "envelope_diag (QrPrefixExcess e a) = False"
| "envelope_diag QrSuccessNote = False"

text \<open>
  \<open>decoder_appends c c'\<close>: the context \<open>c'\<close> is \<open>c\<close> with decoder messages appended to
  its two lists, and nothing removed or reordered.
\<close>

definition decoder_appends :: "ctx \<Rightarrow> ctx \<Rightarrow> bool" where
  "decoder_appends c c' =
     (\<exists>es ws. errors c' = errors c @ es \<and> warnings c' = warnings c @ ws \<and>
              (\<forall>d \<in> set es \<union> set ws. \<not> envelope_diag d))"

text \<open>
  The inputs that reach \<open>_parse_structure\<close>: an even number of characters after
  cleaning, all of them hex digit pairs, at least 8 bytes.
\<close>

definition reaches_structure :: "string \<Rightarrow> bool" where
  "reaches_structure hex_str =
     (length (clean_input hex_str) mod 2 = 0 \<and>
      (case fromhex (clean_input hex_str) of None \<Rightarrow> False | Some data \<Rightarrow> 8 \<le> length data))"

text \<open>
  A checksum function for closed examples, since \<open>calculate_crc16\<close> is not among the
  sources: every byte range has checksum 0.  The general theorems hold for every
  checksum function.
\<close>

definition zero_crc :: "byte list \<Rightarrow> nat" where
  "zero_crc bs = 0"

text \<open>The number of length-mismatch errors in a list of messages.\<close>

definition length_mismatches :: "diag list \<Rightarrow> nat" where
  "length_mismatches ds = length (filter (\<lambda>d. case d of LengthMismatch e a \<Rightarrow> True | _ \<Rightarrow> False) ds)"

text \<open>The declared end of the body, \<open>6 + (data[1] - 4)\<close>, and the body the frame gives.\<close>

definition body_end_of :: "byte list \<Rightarrow> nat" where
  "body_end_of data = 6 + (unat (data ! 1) - 4)"

definition body_of :: "byte list \<Rightarrow> byte list" where
  "body_of data = body_slice data (body_end_of data)"

text \<open>
  One structural decode as \<open>parse\<close> runs it: \<open>_parse_structure\<close> on the context that
  \<open>parse\<close> has just reset.
\<close>

definition decode :: "(byte list \<Rightarrow> nat) \<Rightarrow> byte list \<Rightarrow> (pyexn + frame_result) \<times> ctx" where
  "decode crc data = parse_structure crc \<lparr>errors = [], warnings = []\<rparr> data"

text \<open>
  The envelope fields of a frame of at least 6 bytes, as steps 1 to 5 of
  \<open>_parse_structure\<close> write them.
\<close>

definition header_result :: "byte list \<Rightarrow> frame_result" where
  "header_result data =
     empty_result
       \<lparr>start_flag := Some (''0x'' @ fmt_hex 2 (unat (data ! 0))),
        data_length := Some (unat (data ! 1)),
        sequence_number := Some (from_bytes_little (py_slice data 2 4)),
        encrypt_flag := Some (''0x'' @ fmt_hex 2 (unat (data ! 4))),
        is_encrypted := Some (unat (data ! 4) = 0x01),
        frame_type := Some (''0x'' @ fmt_hex 2 (unat (data ! 5))),
        frame_type_name := Some (dict_get FRAME_TYPES (unat (data ! 5)) unknown_frame_type_name)\<rparr>"

text \<open>
  The errors and warnings that steps 1 to 7 of \<open>_parse_structure\<close> record on a frame
  of at least 6 bytes, in program order, and the two checksums of step 7.
\<close>

definition envelope_errors :: "byte list \<Rightarrow> diag list" where
  "envelope_errors data =
     (if unat (data ! 0) \<noteq> 0x68 then [StartFlagError (unat (data ! 0))] else []) @
     (if length data \<noteq> 1 + 1 + unat (data ! 1) + 2
      then [LengthMismatch (1 + 1 + unat (data ! 1) + 2) (length data)] else []) @
     (if unat (data ! 1) < 4 then [DataLengthFieldError (unat (data ! 1))]
      else (if length data < body_end_of data
            then [BodyIncomplete (body_end_of data) (length data)] else []) @
           (if length data < body_end_of data + 2 then [CrcUnreadable] else []))"

definition crc_received_of :: "byte list \<Rightarrow> nat" where
  "crc_received_of data =
     from_bytes_big (py_slice data (body_end_of data) (body_end_of data + 2))"

definition crc_calculated_of :: "(byte list \<Rightarrow> nat) \<Rightarrow> byte list \<Rightarrow> nat" where
  "crc_calculated_of crc data = crc (py_slice data 2 (body_end_of data))"

definition envelope_warnings :: "(byte list \<Rightarrow> nat) \<Rightarrow> byte list \<Rightarrow> diag list" where
  "envelope_warnings crc data =
     (if unat (data ! 5) \<notin> fst ` set FRAME_TYPES then [UnknownFrameType (unat (data ! 5))] else []) @
     (if 4 \<le> unat (data ! 1) \<and> body_end_of data + 2 \<le> length data \<and>
         crc_calculated_of crc data \<noteq> crc_received_of data
      then [CrcMismatch (crc_received_of data) (crc_calculated_of crc data)] else [])"

section \<open>What a body decoder does to the context\<close>

text \<open>
  Every decoder only appends to the two lists of the context, and only messages of its
  own; the proof follows the shape of the decoders, one rule for each construct.
\<close>

lemma decoder_appends_refl: "decoder_appends c c"
  by (simp add: decoder_appends_def)

lemma decoder_appends_trans:
  "decoder_appends a b \<Longrightarrow> decoder_appends b c \<Longrightarrow> decoder_appends a c"
  unfolding decoder_appends_def
proof -
  assume "\<exists>es ws. errors b = errors a @ es \<and> warnings b = warnings a @ ws \<and> (\<forall>d\<in>set es \<union> set ws. \<not> envelope_diag d)"
  then obtain es ws where 1: "errors b = errors a @ es" "warnings b = warnings a @ ws"
    "\<forall>d\<in>set es \<union> set ws. \<not> envelope_diag d" by blast
  assume "\<exists>es ws. errors c = errors b @ es \<and> warnings c = warnings b @ ws \<and> (\<forall>d\<in>set es \<union> set ws. \<not> envelope_diag d)"
  then obtain es' ws' where 2: "errors c = errors b @ es'" "warnings c = warnings b @ ws'"
    "\<forall>d\<in>set es' \<union> set ws'. \<not> envelope_diag d" by blast
  have "errors c = errors a @ (es @ es')" "warnings c = warnings a @ (ws @ ws')"
    using 1 2 by simp_all
  moreover have "\<forall>d\<in>set (es @ es') \<union> set (ws @ ws'). \<not> envelope_diag d"
    using 1 2 by auto
  ultimately show "\<exists>es ws. errors c = errors a @ es \<and> warnings c = warnings a @ ws \<and> (\<forall>d\<in>set es \<union> set ws. \<not> envelope_diag d)"
    by blast
qed

lemma appends_add_error:
  "decoder_appends c0 c \<Longrightarrow> \<not> envelope_diag e \<Longrightarrow> decoder_appends c0 (add_error e c)"
  by (rule decoder_appends_trans) (auto simp: decoder_appends_def add_error_def)

lemma appends_add_warning:
  "decoder_appends c0 c \<Longrightarrow> \<not> envelope_diag w \<Longrightarrow> decoder_appends c0 (add_warning w c)"
  by (rule decoder_appends_trans) (auto simp: decoder_appends_def add_warning_def)

lemma appends_if:
  "(b \<Longrightarrow> decoder_appends c0 x) \<Longrightarrow> (\<not> b \<Longrightarrow> decoder_appends c0 y) \<Longrightarrow>
   decoder_appends c0 (if b then x else y)"
  by simp

lemma appends_final: "decoder_appends c0 c \<Longrightarrow> decoder_appends c0 (snd (x, c))"
  by simp

lemma appends_index:
  "decoder_appends c0 c \<Longrightarrow> (\<And>v. decoder_appends c0 (snd (k v))) \<Longrightarrow>
   decoder_appends c0 (snd (index body i c k))"
  by (simp add: index_def)

lemma appends_validated:
  "decoder_appends c0 c \<Longrightarrow> (\<And>c'. decoder_appends c0 c' \<Longrightarrow> decoder_appends c0 (snd (rest c'))) \<Longrightarrow>
   decoder_appends c0 (snd (validated cls c body rest))"
  by (auto simp: validated_def validate_length_def intro: appends_add_error)

lemma appends_ascii:
  "decoder_appends c0 c \<Longrightarrow> decoder_appends c0 (snd (ascii_to_str c bs))"
  by (auto simp: ascii_to_str_def Let_def intro: appends_add_warning)

lemma appends_case_pair:
  "decoder_appends c0 (snd p) \<Longrightarrow>
   (\<And>s c1. decoder_appends c0 c1 \<Longrightarrow> decoder_appends c0 (snd (F s c1))) \<Longrightarrow>
   decoder_appends c0 (snd (case p of (s, c1) \<Rightarrow> F s c1))"
  by (cases p) simp

lemma appends_case_sum:
  "(\<And>e. decoder_appends c0 (snd (F e))) \<Longrightarrow> (\<And>x. decoder_appends c0 (snd (G x))) \<Longrightarrow>
   decoder_appends c0 (snd (case s of Inl e \<Rightarrow> F e | Inr x \<Rightarrow> G x))"
  by (cases s) simp_all

lemma appends_snd_if:
  "(b \<Longrightarrow> decoder_appends c0 (snd x)) \<Longrightarrow> (\<not> b \<Longrightarrow> decoder_appends c0 (snd y)) \<Longrightarrow>
   decoder_appends c0 (snd (if b then x else y))"
  by simp

lemmas appends_rules =
  appends_validated appends_index appends_case_pair appends_case_sum appends_ascii
  appends_final appends_snd_if appends_if appends_add_error appends_add_warning
  decoder_appends_refl

lemma pile_and_flag_appends: "decoder_appends c (snd (pile_and_flag cls key render c body))"
  unfolding pile_and_flag_def
  by (rule appends_rules | assumption | simp)+

lemma LoginParser_appends: "decoder_appends c (snd (LoginParser_parse c body))"
  unfolding LoginParser_parse_def Let_def
  by (rule appends_rules | assumption | simp)+

lemma LoginResponseParser_appends: "decoder_appends c (snd (LoginResponseParser_parse c body))"
  unfolding LoginResponseParser_parse_def Let_def
  by (rule appends_rules | assumption | simp)+

lemma HeartbeatParser_appends: "decoder_appends c (snd (HeartbeatParser_parse c body))"
  unfolding HeartbeatParser_parse_def Let_def
  by (rule appends_rules | assumption | simp)+

lemma HeartbeatResponseParser_appends: "decoder_appends c (snd (HeartbeatResponseParser_parse c body))"
  unfolding HeartbeatResponseParser_parse_def Let_def
  by (rule appends_rules | assumption | simp)+

lemma ReadRealtimeParser_appends: "decoder_appends c (snd (ReadRealtimeParser_parse c body))"
  unfolding ReadRealtimeParser_parse_def Let_def
  by (rule appends_rules | assumption | simp)+

lemma RealtimeDataParser_appends: "decoder_appends c (snd (RealtimeDataParser_parse c body))"
  unfolding RealtimeDataParser_parse_def Let_def
  by (rule appends_rules | assumption | simp)+

lemma ChargingHandshakeParser_appends: "decoder_appends c (snd (ChargingHandshakeParser_parse c body))"
  unfolding ChargingHandshakeParser_parse_def Let_def
  by (rule appends_rules | assumption | simp)+

lemma ParameterConfigParser_appends: "decoder_appends c (snd (ParameterConfigParser_parse c body))"
  unfolding ParameterConfigParser_parse_def Let_def
  by (rule appends_rules | assumption | simp)+

lemma ChargingEndParser_appends: "decoder_appends c (snd (ChargingEndParser_parse c body))"
  unfolding ChargingEndParser_parse_def Let_def
  by (rule appends_rules | assumption | simp)+

lemma ErrorMessageParser_appends: "decoder_appends c (snd (ErrorMessageParser_parse c body))"
  unfolding ErrorMessageParser_parse_def Let_def
  by (rule appends_rules | assumption | simp)+

lemma BMSStopParser_appends: "decoder_appends c (snd (BMSStopParser_parse c body))"
  unfolding BMSStopParser_parse_def Let_def
  by (rule appends_rules | assumption | simp)+

lemma ChargerStopParser_appends: "decoder_appends c (snd (ChargerStopParser_parse c body))"
  unfolding ChargerStopParser_parse_def Let_def
  by (rule appends_rules | assumption | simp)+

lemma BMSDemandOutputParser_appends: "decoder_appends c (snd (BMSDemandOutputParser_parse c body))"
  unfolding BMSDemandOutputParser_parse_def Let_def
  by (rule appends_rules | assumption | simp)+

lemma BMSInfoParser_appends: "decoder_appends c (snd (BMSInfoParser_parse c body))"
  unfolding BMSInfoParser_parse_def Let_def
  by (rule appends_rules | assumption | simp)+

lemma ChargingStartRequestParser_appends: "decoder_appends c (snd (ChargingStartRequestParser_parse c body))"
  unfolding ChargingStartRequestParser_parse_def Let_def
  by (rule appends_rules | assumption | simp)+

lemma ChargingStartConfirmParser_appends: "decoder_appends c (snd (ChargingStartConfirmParser_parse c body))"
  unfolding ChargingStartConfirmParser_parse_def Let_def
  by (rule appends_rules | assumption | simp)+

lemma RemoteStartReplyParser_appends: "decoder_appends c (snd (RemoteStartReplyParser_parse c body))"
  unfolding RemoteStartReplyParser_parse_def Let_def
  by (rule appends_rules | assumption | simp)+

lemma RemoteStartCommandParser_appends: "decoder_appends c (snd (RemoteStartCommandParser_parse c body))"
  unfolding RemoteStartCommandParser_parse_def Let_def
  by (rule appends_rules | assumption | simp)+

lemma RemoteStopReplyParser_appends: "decoder_appends c (snd (RemoteStopReplyParser_parse c body))"
  unfolding RemoteStopReplyParser_parse_def Let_def
  by (rule appends_rules | assumption | simp)+

lemma RemoteStopCommandParser_appends: "decoder_appends c (snd (RemoteStopCommandParser_parse c body))"
  unfolding RemoteStopCommandParser_parse_def Let_def
  by (rule appends_rules | assumption | simp)+

lemma TransactionRecordParser_appends: "decoder_appends c (snd (TransactionRecordParser_parse c body))"
  unfolding TransactionRecordParser_parse_def Let_def
  by (rule appends_rules | assumption | simp)+

lemma TransactionConfirmParser_appends: "decoder_appends c (snd (TransactionConfirmParser_parse c body))"
  unfolding TransactionConfirmParser_parse_def Let_def
  by (rule appends_rules | assumption | simp)+

lemma BalanceUpdateRequestParser_appends: "decoder_appends c (snd (BalanceUpdateRequestParser_parse c body))"
  unfolding BalanceUpdateRequestParser_parse_def Let_def
  by (rule appends_rules | assumption | simp)+

lemma BalanceUpdateResponseParser_appends: "decoder_appends c (snd (BalanceUpdateResponseParser_parse c body))"
  unfolding BalanceUpdateResponseParser_parse_def Let_def
  by (rule appends_rules | assumption | simp)+

lemma OfflineCardSyncParser_appends: "decoder_appends c (snd (OfflineCardSyncParser_parse c body))"
  unfolding OfflineCardSyncParser_parse_def Let_def
  by (rule appends_rules | assumption | simp)+

lemma OfflineCardSyncResponseParser_appends: "decoder_appends c (snd (OfflineCardSyncResponseParser_parse c body))"
  unfolding OfflineCardSyncResponseParser_parse_def Let_def
  by (rule appends_rules | assumption | simp)+

lemma OfflineCardDeleteParser_appends: "decoder_appends c (snd (OfflineCardDeleteParser_parse c body))"
  unfolding OfflineCardDeleteParser_parse_def Let_def
  by (rule appends_rules | assumption | simp)+

lemma OfflineCardDeleteResponseParser_appends: "decoder_appends c (snd (OfflineCardDeleteResponseParser_parse c body))"
  unfolding OfflineCardDeleteResponseParser_parse_def Let_def
  by (rule appends_rules | assumption | simp)+

lemma OfflineCardQueryParser_appends: "decoder_appends c (snd (OfflineCardQueryParser_parse c body))"
  unfolding OfflineCardQueryParser_parse_def Let_def
  by (rule appends_rules | assumption | simp)+

lemma OfflineCardQueryResponseParser_appends: "decoder_appends c (snd (OfflineCardQueryResponseParser_parse c body))"
  unfolding OfflineCardQueryResponseParser_parse_def Let_def
  by (rule appends_rules | assumption | simp)+

lemma WorkParameterSetResponseParser_appends: "decoder_appends c (snd (WorkParameterSetResponseParser_parse c body))"
  unfolding WorkParameterSetResponseParser_parse_def by (rule pile_and_flag_appends)

lemma WorkParameterSetParser_appends: "decoder_appends c (snd (WorkParameterSetParser_parse c body))"
  unfolding WorkParameterSetParser_parse_def Let_def
  by (rule appends_rules | assumption | simp)+

lemma TimeSyncResponseParser_appends: "decoder_appends c (snd (TimeSyncResponseParser_parse c body))"
  unfolding TimeSyncResponseParser_parse_def by (rule pile_and_flag_appends)

lemma TimeSyncParser_appends: "decoder_appends c (snd (TimeSyncParser_parse c body))"
  unfolding TimeSyncParser_parse_def Let_def
  by (rule appends_rules | assumption | simp)+

lemma BillingModelResponseParser_appends: "decoder_appends c (snd (BillingModelResponseParser_parse c body))"
  unfolding BillingModelResponseParser_parse_def by (rule pile_and_flag_appends)

lemma BillingModelSetParser_appends: "decoder_appends c (snd (BillingModelSetParser_parse c body))"
  unfolding BillingModelSetParser_parse_def Let_def
  by (rule appends_rules | assumption | simp)+

lemma ParkingLockStatusParser_appends: "decoder_appends c (snd (ParkingLockStatusParser_parse c body))"
  unfolding ParkingLockStatusParser_parse_def Let_def
  by (rule appends_rules | assumption | simp)+

lemma ParkingLockControlParser_appends: "decoder_appends c (snd (ParkingLockControlParser_parse c body))"
  unfolding ParkingLockControlParser_parse_def by (rule pile_and_flag_appends)

lemma ParkingLockResponseParser_appends: "decoder_appends c (snd (ParkingLockResponseParser_parse c body))"
  unfolding ParkingLockResponseParser_parse_def by (rule pile_and_flag_appends)

lemma RemoteRebootResponseParser_appends: "decoder_appends c (snd (RemoteRebootResponseParser_parse c body))"
  unfolding RemoteRebootResponseParser_parse_def by (rule pile_and_flag_appends)

lemma RemoteRebootParser_appends: "decoder_appends c (snd (RemoteRebootParser_parse c body))"
  unfolding RemoteRebootParser_parse_def Let_def
  by (rule appends_rules | assumption | simp)+

lemma RemoteUpdateResponseParser_appends: "decoder_appends c (snd (RemoteUpdateResponseParser_parse c body))"
  unfolding RemoteUpdateResponseParser_parse_def by (rule pile_and_flag_appends)

lemma RemoteUpdateParser_appends: "decoder_appends c (snd (RemoteUpdateParser_parse c body))"
  unfolding RemoteUpdateParser_parse_def Let_def
  by (rule appends_rules | assumption | simp)+

lemma ParallelChargingRequestParser_appends: "decoder_appends c (snd (ParallelChargingRequestParser_parse c body))"
  unfolding ParallelChargingRequestParser_parse_def by (rule pile_and_flag_appends)

lemma ParallelChargingConfirmParser_appends: "decoder_appends c (snd (ParallelChargingConfirmParser_parse c body))"
  unfolding ParallelChargingConfirmParser_parse_def by (rule pile_and_flag_appends)

lemma ParallelChargingReplyParser_appends: "decoder_appends c (snd (ParallelChargingReplyParser_parse c body))"
  unfolding ParallelChargingReplyParser_parse_def by (rule pile_and_flag_appends)

lemma ParallelChargingCommandParser_appends: "decoder_appends c (snd (ParallelChargingCommandParser_parse c body))"
  unfolding ParallelChargingCommandParser_parse_def by (rule pile_and_flag_appends)

lemma QRCodePrefixSetParser_appends: "decoder_appends c (snd (QRCodePrefixSetParser_parse c body))"
  unfolding QRCodePrefixSetParser_parse_def Let_def
  by (rule appends_rules | assumption | simp)+

lemma QRCodePrefixSetResponseParser_appends: "decoder_appends c (snd (QRCodePrefixSetResponseParser_parse c body))"
  unfolding QRCodePrefixSetResponseParser_parse_def Let_def
  by (rule appends_rules | assumption | simp)+

lemma DefaultParser_appends: "decoder_appends c (snd (DefaultParser_parse c body))"
  unfolding DefaultParser_parse_def Let_def
  by (rule appends_rules | assumption | simp)+

lemma parser_parse_appends: "decoder_appends c (snd (parser_parse cls c body))"
  by (cases cls) (simp_all add: LoginParser_appends LoginResponseParser_appends HeartbeatParser_appends HeartbeatResponseParser_appends ReadRealtimeParser_appends RealtimeDataParser_appends ChargingHandshakeParser_appends ParameterConfigParser_appends ChargingEndParser_appends ErrorMessageParser_appends BMSStopParser_appends ChargerStopParser_appends BMSDemandOutputParser_appends BMSInfoParser_appends ChargingStartRequestParser_appends ChargingStartConfirmParser_appends RemoteStartReplyParser_appends RemoteStartCommandParser_appends RemoteStopReplyParser_appends RemoteStopCommandParser_appends TransactionRecordParser_appends TransactionConfirmParser_appends BalanceUpdateRequestParser_appends BalanceUpdateResponseParser_appends OfflineCardSyncParser_appends OfflineCardSyncResponseParser_appends OfflineCardDeleteParser_appends OfflineCardDeleteResponseParser_appends OfflineCardQueryParser_appends OfflineCardQueryResponseParser_appends WorkParameterSetResponseParser_appends WorkParameterSetParser_appends TimeSyncResponseParser_appends TimeSyncParser_appends BillingModelResponseParser_appends BillingModelSetParser_appends ParkingLockStatusParser_appends ParkingLockControlParser_appends ParkingLockResponseParser_appends RemoteRebootResponseParser_appends RemoteRebootParser_appends RemoteUpdateResponseParser_appends RemoteUpdateParser_appends ParallelChargingRequestParser_appends ParallelChargingConfirmParser_appends ParallelChargingReplyParser_appends ParallelChargingCommandParser_appends QRCodePrefixSetParser_appends QRCodePrefixSetResponseParser_appends DefaultParser_appends)

section \<open>What a body decoder takes from the context\<close>

text \<open>
  No decoder reads the context: its result dict, or the exception it raises, is the same
  whatever the context holds when it is called.
\<close>

lemma same_final: "fst (x, c) = fst (x, c')"
  by simp

lemma same_index:
  "(\<And>v. fst (k v) = fst (k' v)) \<Longrightarrow> fst (index body i c k) = fst (index body i c' k')"
  by (simp add: index_def)

lemma same_validated:
  "(\<And>c1 c2. fst (rest c1) = fst (rest' c2)) \<Longrightarrow>
   fst (validated cls c body rest) = fst (validated cls c' body rest')"
  by (simp add: validated_def validate_length_def)

lemma ascii_to_str_text: "fst (ascii_to_str c bs) = fst (ascii_to_str c' bs)"
  by (simp add: ascii_to_str_def Let_def)

lemma same_case_ascii:
  "(\<And>s ca cb. fst (F s ca) = fst (F' s cb)) \<Longrightarrow>
   fst (case ascii_to_str c bs of (s, c1) \<Rightarrow> F s c1) =
   fst (case ascii_to_str c' bs of (s, c1) \<Rightarrow> F' s c1)"
  using ascii_to_str_text [of c bs c']
  by (cases "ascii_to_str c bs"; cases "ascii_to_str c' bs") simp

lemma same_case_sum:
  "(\<And>e. fst (F e) = fst (F' e)) \<Longrightarrow> (\<And>x. fst (G x) = fst (G' x)) \<Longrightarrow>
   fst (case s of Inl e \<Rightarrow> F e | Inr x \<Rightarrow> G x) = fst (case s of Inl e \<Rightarrow> F' e | Inr x \<Rightarrow> G' x)"
  by (cases s) simp_all

lemmas same_rules = same_validated same_index same_case_ascii same_case_sum same_final

lemma pile_and_flag_same:
  "fst (pile_and_flag cls key render c body) = fst (pile_and_flag cls key render c' body)"
  unfolding pile_and_flag_def by (rule same_rules)+

lemma LoginParser_same: "fst (LoginParser_parse c body) = fst (LoginParser_parse c' body)"
  unfolding LoginParser_parse_def Let_def
  by (rule same_rules)+

lemma LoginResponseParser_same: "fst (LoginResponseParser_parse c body) = fst (LoginResponseParser_parse c' body)"
  unfolding LoginResponseParser_parse_def Let_def
  by (rule same_rules)+

lemma HeartbeatParser_same: "fst (HeartbeatParser_parse c body) = fst (HeartbeatParser_parse c' body)"
  unfolding HeartbeatParser_parse_def Let_def
  by (rule same_rules)+

lemma HeartbeatResponseParser_same: "fst (HeartbeatResponseParser_parse c body) = fst (HeartbeatResponseParser_parse c' body)"
  unfolding HeartbeatResponseParser_parse_def Let_def
  by (rule same_rules)+

lemma ReadRealtimeParser_same: "fst (ReadRealtimeParser_parse c body) = fst (ReadRealtimeParser_parse c' body)"
  unfolding ReadRealtimeParser_parse_def Let_def
  by (rule same_rules)+

lemma RealtimeDataParser_same: "fst (RealtimeDataParser_parse c body) = fst (RealtimeDataParser_parse c' body)"
  unfolding RealtimeDataParser_parse_def Let_def
  by (rule same_rules)+

lemma ChargingHandshakeParser_same: "fst (ChargingHandshakeParser_parse c body) = fst (ChargingHandshakeParser_parse c' body)"
  unfolding ChargingHandshakeParser_parse_def Let_def
  by (rule same_rules)+

lemma ParameterConfigParser_same: "fst (ParameterConfigParser_parse c body) = fst (ParameterConfigParser_parse c' body)"
  unfolding ParameterConfigParser_parse_def Let_def
  by (rule same_rules)+

lemma ChargingEndParser_same: "fst (ChargingEndParser_parse c body) = fst (ChargingEndParser_parse c' body)"
  unfolding ChargingEndParser_parse_def Let_def
  by (rule same_rules)+

lemma ErrorMessageParser_same: "fst (ErrorMessageParser_parse c body) = fst (ErrorMessageParser_parse c' body)"
  unfolding ErrorMessageParser_parse_def Let_def
  by (rule same_rules)+

lemma BMSStopParser_same: "fst (BMSStopParser_parse c body) = fst (BMSStopParser_parse c' body)"
  unfolding BMSStopParser_parse_def Let_def
  by (rule same_rules)+

lemma ChargerStopParser_same: "fst (ChargerStopParser_parse c body) = fst (ChargerStopParser_parse c' body)"
  unfolding ChargerStopParser_parse_def Let_def
  by (rule same_rules)+

lemma BMSDemandOutputParser_same: "fst (BMSDemandOutputParser_parse c body) = fst (BMSDemandOutputParser_parse c' body)"
  unfolding BMSDemandOutputParser_parse_def Let_def
  by (rule same_rules)+

lemma BMSInfoParser_same: "fst (BMSInfoParser_parse c body) = fst (BMSInfoParser_parse c' body)"
  unfolding BMSInfoParser_parse_def Let_def
  by (rule same_rules)+

lemma ChargingStartRequestParser_same: "fst (ChargingStartRequestParser_parse c body) = fst (ChargingStartRequestParser_parse c' body)"
  unfolding ChargingStartRequestParser_parse_def Let_def
  by (rule same_rules)+

lemma ChargingStartConfirmParser_same: "fst (ChargingStartConfirmParser_parse c body) = fst (ChargingStartConfirmParser_parse c' body)"
  unfolding ChargingStartConfirmParser_parse_def Let_def
  by (rule same_rules)+

lemma RemoteStartReplyParser_same: "fst (RemoteStartReplyParser_parse c body) = fst (RemoteStartReplyParser_parse c' body)"
  unfolding RemoteStartReplyParser_parse_def Let_def
  by (rule same_rules)+

lemma RemoteStartCommandParser_same: "fst (RemoteStartCommandParser_parse c body) = fst (RemoteStartCommandParser_parse c' body)"
  unfolding RemoteStartCommandParser_parse_def Let_def
  by (rule same_rules)+

lemma RemoteStopReplyParser_same: "fst (RemoteStopReplyParser_parse c body) = fst (RemoteStopReplyParser_parse c' body)"
  unfolding RemoteStopReplyParser_parse_def Let_def
  by (rule same_rules)+

lemma RemoteStopCommandParser_same: "fst (RemoteStopCommandParser_parse c body) = fst (RemoteStopCommandParser_parse c' body)"
  unfolding RemoteStopCommandParser_parse_def Let_def
  by (rule same_rules)+

lemma TransactionRecordParser_same: "fst (TransactionRecordParser_parse c body) = fst (TransactionRecordParser_parse c' body)"
  unfolding TransactionRecordParser_parse_def Let_def
  by (rule same_rules)+

lemma TransactionConfirmParser_same: "fst (TransactionConfirmParser_parse c body) = fst (TransactionConfirmParser_parse c' body)"
  unfolding TransactionConfirmParser_parse_def Let_def
  by (rule same_rules)+

lemma BalanceUpdateRequestParser_same: "fst (BalanceUpdateRequestParser_parse c body) = fst (BalanceUpdateRequestParser_parse c' body)"
  unfolding BalanceUpdateRequestParser_parse_def Let_def
  by (rule same_rules)+

lemma BalanceUpdateResponseParser_same: "fst (BalanceUpdateResponseParser_parse c body) = fst (BalanceUpdateResponseParser_parse c' body)"
  unfolding BalanceUpdateResponseParser_parse_def Let_def
  by (rule same_rules)+

lemma OfflineCardSyncParser_same: "fst (OfflineCardSyncParser_parse c body) = fst (OfflineCardSyncParser_parse c' body)"
  unfolding OfflineCardSyncParser_parse_def Let_def
  by (rule same_rules)+

lemma OfflineCardSyncResponseParser_same: "fst (OfflineCardSyncResponseParser_parse c body) = fst (OfflineCardSyncResponseParser_parse c' body)"
  unfolding OfflineCardSyncResponseParser_parse_def Let_def
  by (rule same_rules)+

lemma OfflineCardDeleteParser_same: "fst (OfflineCardDeleteParser_parse c body) = fst (OfflineCardDeleteParser_parse c' body)"
  unfolding OfflineCardDeleteParser_parse_def Let_def
  by (rule same_rules)+

lemma OfflineCardDeleteResponseParser_same: "fst (OfflineCardDeleteResponseParser_parse c body) = fst (OfflineCardDeleteResponseParser_parse c' body)"
  unfolding OfflineCardDeleteResponseParser_parse_def Let_def
  by (rule same_rules)+

lemma OfflineCardQueryParser_same: "fst (OfflineCardQueryParser_parse c body) = fst (OfflineCardQueryParser_parse c' body)"
  unfolding OfflineCardQueryParser_parse_def Let_def
  by (rule same_rules)+

lemma OfflineCardQueryResponseParser_same: "fst (OfflineCardQueryResponseParser_parse c body) = fst (OfflineCardQueryResponseParser_parse c' body)"
  unfolding OfflineCardQueryResponseParser_parse_def Let_def
  by (rule same_rules)+

lemma WorkParameterSetResponseParser_same: "fst (WorkParameterSetResponseParser_parse c body) = fst (WorkParameterSetResponseParser_parse c' body)"
  unfolding WorkParameterSetResponseParser_parse_def by (rule pile_and_flag_same)

lemma WorkParameterSetParser_same: "fst (WorkParameterSetParser_parse c body) = fst (WorkParameterSetParser_parse c' body)"
  unfolding WorkParameterSetParser_parse_def Let_def
  by (rule same_rules)+

lemma TimeSyncResponseParser_same: "fst (TimeSyncResponseParser_parse c body) = fst (TimeSyncResponseParser_parse c' body)"
  unfolding TimeSyncResponseParser_parse_def by (rule pile_and_flag_same)

lemma TimeSyncParser_same: "fst (TimeSyncParser_parse c body) = fst (TimeSyncParser_parse c' body)"
  unfolding TimeSyncParser_parse_def Let_def
  by (rule same_rules)+

lemma BillingModelResponseParser_same: "fst (BillingModelResponseParser_parse c body) = fst (BillingModelResponseParser_parse c' body)"
  unfolding BillingModelResponseParser_parse_def by (rule pile_and_flag_same)

lemma BillingModelSetParser_same: "fst (BillingModelSetParser_parse c body) = fst (BillingModelSetParser_parse c' body)"
  unfolding BillingModelSetParser_parse_def Let_def
  by (rule same_rules)+

lemma ParkingLockStatusParser_same: "fst (ParkingLockStatusParser_parse c body) = fst (ParkingLockStatusParser_parse c' body)"
  unfolding ParkingLockStatusParser_parse_def Let_def
  by (rule same_rules)+

lemma ParkingLockControlParser_same: "fst (ParkingLockControlParser_parse c body) = fst (ParkingLockControlParser_parse c' body)"
  unfolding ParkingLockControlParser_parse_def by (rule pile_and_flag_same)

lemma ParkingLockResponseParser_same: "fst (ParkingLockResponseParser_parse c body) = fst (ParkingLockResponseParser_parse c' body)"
  unfolding ParkingLockResponseParser_parse_def by (rule pile_and_flag_same)

lemma RemoteRebootResponseParser_same: "fst (RemoteRebootResponseParser_parse c body) = fst (RemoteRebootResponseParser_parse c' body)"
  unfolding RemoteRebootResponseParser_parse_def by (rule pile_and_flag_same)

lemma RemoteRebootParser_same: "fst (RemoteRebootParser_parse c body) = fst (RemoteRebootParser_parse c' body)"
  unfolding RemoteRebootParser_parse_def Let_def
  by (rule same_rules)+

lemma RemoteUpdateResponseParser_same: "fst (RemoteUpdateResponseParser_parse c body) = fst (RemoteUpdateResponseParser_parse c' body)"
  unfolding RemoteUpdateResponseParser_parse_def by (rule pile_and_flag_same)

lemma RemoteUpdateParser_same: "fst (RemoteUpdateParser_parse c body) = fst (RemoteUpdateParser_parse c' body)"
  unfolding RemoteUpdateParser_parse_def Let_def
  by (rule same_rules)+

lemma ParallelChargingRequestParser_same: "fst (ParallelChargingRequestParser_parse c body) = fst (ParallelChargingRequestParser_parse c' body)"
  unfolding ParallelChargingRequestParser_parse_def by (rule pile_and_flag_same)

lemma ParallelChargingConfirmParser_same: "fst (ParallelChargingConfirmParser_parse c body) = fst (ParallelChargingConfirmParser_parse c' body)"
  unfolding ParallelChargingConfirmParser_parse_def by (rule pile_and_flag_same)

lemma ParallelChargingReplyParser_same: "fst (ParallelChargingReplyParser_parse c body) = fst (ParallelChargingReplyParser_parse c' body)"
  unfolding ParallelChargingReplyParser_parse_def by (rule pile_and_flag_same)

lemma ParallelChargingCommandParser_same: "fst (ParallelChargingCommandParser_parse c body) = fst (ParallelChargingCommandParser_parse c' body)"
  unfolding ParallelChargingCommandParser_parse_def by (rule pile_and_flag_same)

lemma same_case_if_ascii:
  assumes "\<And>q ca cb. fst (F q ca) = fst (F' q cb)"
  shows "fst (case (if t then ascii_to_str c bs else (s0, c)) of (q, c1) \<Rightarrow> F q c1) =
         fst (case (if t then ascii_to_str c' bs else (s0, c')) of (q, c1) \<Rightarrow> F' q c1)"
proof (cases t)
  case True
  then show ?thesis using same_case_ascii [of F F' c bs c', OF assms] by simp
next
  case False
  then show ?thesis using assms by simp
qed

lemma QRCodePrefixSetParser_same:
  "fst (QRCodePrefixSetParser_parse c body) = fst (QRCodePrefixSetParser_parse c' body)"
  unfolding QRCodePrefixSetParser_parse_def Let_def
  by (rule same_validated same_index same_case_if_ascii same_final)+

lemma QRCodePrefixSetResponseParser_same: "fst (QRCodePrefixSetResponseParser_parse c body) = fst (QRCodePrefixSetResponseParser_parse c' body)"
  unfolding QRCodePrefixSetResponseParser_parse_def Let_def
  by (rule same_rules)+

lemma DefaultParser_same: "fst (DefaultParser_parse c body) = fst (DefaultParser_parse c' body)"
  unfolding DefaultParser_parse_def Let_def
  by (rule same_rules)+

lemma parser_parse_same: "fst (parser_parse cls c body) = fst (parser_parse cls c' body)"
  by (cases cls) (simp_all add: LoginParser_same [of c body c'] LoginResponseParser_same [of c body c'] HeartbeatParser_same [of c body c'] HeartbeatResponseParser_same [of c body c'] ReadRealtimeParser_same [of c body c'] RealtimeDataParser_same [of c body c'] ChargingHandshakeParser_same [of c body c'] ParameterConfigParser_same [of c body c'] ChargingEndParser_same [of c body c'] ErrorMessageParser_same [of c body c'] BMSStopParser_same [of c body c'] ChargerStopParser_same [of c body c'] BMSDemandOutputParser_same [of c body c'] BMSInfoParser_same [of c body c'] ChargingStartRequestParser_same [of c body c'] ChargingStartConfirmParser_same [of c body c'] RemoteStartReplyParser_same [of c body c'] RemoteStartCommandParser_same [of c body c'] RemoteStopReplyParser_same [of c body c'] RemoteStopCommandParser_same [of c body c'] TransactionRecordParser_same [of c body c'] TransactionConfirmParser_same [of c body c'] BalanceUpdateRequestParser_same [of c body c'] BalanceUpdateResponseParser_same [of c body c'] OfflineCardSyncParser_same [of c body c'] OfflineCardSyncResponseParser_same [of c body c'] OfflineCardDeleteParser_same [of c body c'] OfflineCardDeleteResponseParser_same [of c body c'] OfflineCardQueryParser_same [of c body c'] OfflineCardQueryResponseParser_same [of c body c'] WorkParameterSetResponseParser_same [of c body c'] WorkParameterSetParser_same [of c body c'] TimeSyncResponseParser_same [of c body c'] TimeSyncParser_same [of c body c'] BillingModelResponseParser_same [of c body c'] BillingModelSetParser_same [of c body c'] ParkingLockStatusParser_same [of c body c'] ParkingLockControlParser_same [of c body c'] ParkingLockResponseParser_same [of c body c'] RemoteRebootResponseParser_same [of c body c'] RemoteRebootParser_same [of c body c'] RemoteUpdateResponseParser_same [of c body c'] RemoteUpdateParser_same [of c body c'] ParallelChargingRequestParser_same [of c body c'] ParallelChargingConfirmParser_same [of c body c'] ParallelChargingReplyParser_same [of c body c'] ParallelChargingCommandParser_same [of c body c'] QRCodePrefixSetParser_same [of c body c'] QRCodePrefixSetResponseParser_same [of c body c'] DefaultParser_same [of c body c'])

section \<open>The packed timestamp\<close>

lemma unat_and_mask_mod: "unat ((b::byte) AND mask n) = unat b mod 2 ^ n"
  unfolding take_bit_eq_mask [symmetric] unsigned_take_bit_eq by (simp add: take_bit_eq_mod)

lemma low_bits:
  "unat ((b::byte) AND 0x3F) = unat b mod 64"
  "unat ((b::byte) AND 0x1F) = unat b mod 32"
  "unat ((b::byte) AND 0x0F) = unat b mod 16"
  "unat ((b::byte) AND 0x7F) = unat b mod 128"
  using unat_and_mask_mod [of b 6] unat_and_mask_mod [of b 5]
        unat_and_mask_mod [of b 4] unat_and_mask_mod [of b 7]
  by (simp_all add: mask_eq_exp_minus_1)

lemma digits_of_length: "1 < base \<Longrightarrow> n < base ^ w \<Longrightarrow> 0 < w \<Longrightarrow> length (digits_of base n) \<le> w"
proof (induction base n arbitrary: w rule: digits_of.induct)
  case (1 base n)
  show ?case
  proof (cases "n < base")
    case True
    then show ?thesis using 1(4) by (simp add: digits_of.simps)
  next
    case False
    then obtain w' where w: "w = Suc w'" using 1(4) by (cases w) auto
    have "w' > 0" using False 1(3) w by (cases w') auto
    moreover have "n div base < base ^ w'" using 1(3) w 1(2)
      by (simp add: less_mult_imp_div_less mult.commute)
    ultimately have "length (digits_of base (n div base)) \<le> w'"
      using 1(1)[of w'] False 1(2) by simp
    then show ?thesis using False 1(2) w by (simp add: digits_of.simps[of base n])
  qed
qed

lemma digits_of_nonempty: "digits_of base n \<noteq> []"
  by (subst digits_of.simps) simp

lemma fmt_dec_length: "n < 10 ^ w \<Longrightarrow> 0 < w \<Longrightarrow> length (fmt_dec w n) = w"
  using digits_of_length[of 10 n w] by (simp add: fmt_dec_def zero_pad_def)

lemma le2: "length tb = 7 \<Longrightarrow> from_bytes_little (py_slice tb 0 2) = unat (tb ! 0) + 256 * unat (tb ! 1)"
  by (cases tb; cases "tl tb") (auto simp: py_slice_def)

lemma le2_bound: "length tb = 7 \<Longrightarrow> from_bytes_little (py_slice tb 0 2) < 65536"
proof -
  assume l: "length tb = 7"
  have "unat (tb ! 0) < 256" "unat (tb ! 1) < 256"
    using unsigned_less [of "tb ! 0", where 'a = nat] unsigned_less [of "tb ! 1", where 'a = nat] by simp_all
  then show ?thesis using le2[OF l] by simp
qed

text \<open>
  Claim C7.  For every 7-byte input the packed-timestamp decoder reads the milliseconds
  as a 2-byte little-endian integer, the minute from the low 6 bits of byte 2, the hour
  from the low 5 bits of byte 3, the day from the low 5 bits of byte 4, the month from
  the low 4 bits of byte 5 and the year as 2000 plus the low 7 bits of byte 6, and
  returns the 23 characters \<open>YYYY-MM-DD HH:MM:SS.mmm\<close>; the bytes packing
  2024-03-15 14:30:00.500 decode to that text.  The low \<open>k\<close> bits of a byte are its
  value modulo \<open>2 ^ k\<close>.
\<close>

theorem parse_cp56time2a_layout:
  "length tb = 7 \<Longrightarrow>
     (let ms = unat (tb ! 0) + 256 * unat (tb ! 1) in
      parse_cp56time2a tb =
        fmt_dec 4 (2000 + unat (tb ! 6) mod 128) @ ''-'' @
        fmt_dec 2 (unat (tb ! 5) mod 16) @ ''-'' @
        fmt_dec 2 (unat (tb ! 4) mod 32) @ '' '' @
        fmt_dec 2 (unat (tb ! 3) mod 32) @ '':'' @
        fmt_dec 2 (unat (tb ! 2) mod 64) @ '':'' @
        fmt_dec 2 (ms div 1000) @ ''.'' @ fmt_dec 3 (ms mod 1000))
     \<and> length (parse_cp56time2a tb) = 23
     \<and> parse_cp56time2a [0xF4, 0x01, 30, 14, 15, 3, 24] = ''2024-03-15 14:30:00.500''"
proof (intro conjI)
  assume l: "length tb = 7"
  show layout: "let ms = unat (tb ! 0) + 256 * unat (tb ! 1) in
      parse_cp56time2a tb =
        fmt_dec 4 (2000 + unat (tb ! 6) mod 128) @ ''-'' @
        fmt_dec 2 (unat (tb ! 5) mod 16) @ ''-'' @
        fmt_dec 2 (unat (tb ! 4) mod 32) @ '' '' @
        fmt_dec 2 (unat (tb ! 3) mod 32) @ '':'' @
        fmt_dec 2 (unat (tb ! 2) mod 64) @ '':'' @
        fmt_dec 2 (ms div 1000) @ ''.'' @ fmt_dec 3 (ms mod 1000)"
    using l by (simp add: parse_cp56time2a_def Let_def low_bits le2)
  have ms: "unat (tb ! 0) + 256 * unat (tb ! 1) < 65536"
    using le2_bound[OF l] le2[OF l] by simp
  have "length (fmt_dec 4 (2000 + unat (tb ! 6) mod 128)) = 4"
  proof (rule fmt_dec_length)
    have "unat (tb ! 6) mod 128 < 128" by simp
    then show "2000 + unat (tb ! 6) mod 128 < 10 ^ 4" by simp
  qed simp
  moreover have "length (fmt_dec 2 (unat (tb ! 5) mod 16)) = 2"
  proof (rule fmt_dec_length)
    have "unat (tb ! 5) mod 16 < 16" by simp
    then show "unat (tb ! 5) mod 16 < 10 ^ 2" by simp
  qed simp
  moreover have "length (fmt_dec 2 (unat (tb ! 4) mod 32)) = 2"
  proof (rule fmt_dec_length)
    have "unat (tb ! 4) mod 32 < 32" by simp
    then show "unat (tb ! 4) mod 32 < 10 ^ 2" by simp
  qed simp
  moreover have "length (fmt_dec 2 (unat (tb ! 3) mod 32)) = 2"
  proof (rule fmt_dec_length)
    have "unat (tb ! 3) mod 32 < 32" by simp
    then show "unat (tb ! 3) mod 32 < 10 ^ 2" by simp
  qed simp
  moreover have "length (fmt_dec 2 (unat (tb ! 2) mod 64)) = 2"
  proof (rule fmt_dec_length)
    have "unat (tb ! 2) mod 64 < 64" by simp
    then show "unat (tb ! 2) mod 64 < 10 ^ 2" by simp
  qed simp
  moreover have "length (fmt_dec 2 ((unat (tb ! 0) + 256 * unat (tb ! 1)) div 1000)) = 2"
    using ms by (intro fmt_dec_length) simp_all
  moreover have "length (fmt_dec 3 ((unat (tb ! 0) + 256 * unat (tb ! 1)) mod 1000)) = 3"
    by (rule fmt_dec_length) simp_all
  ultimately show "length (parse_cp56time2a tb) = 23"
    using layout by (simp add: Let_def)
next
  show "parse_cp56time2a [0xF4, 0x01, 30, 14, 15, 3, 24] = ''2024-03-15 14:30:00.500''"
    by code_simp
qed

theorem parse_cp56time2a_layout_witness:
  "length [0xF4, 0x01, 30, 14, 15, 3, 24 :: byte] = 7 \<and>
   length (parse_cp56time2a [0xF4, 0x01, 30, 14, 15, 3, 24]) = 23 \<and>
   parse_cp56time2a [0xF4, 0x01, 30, 14, 15, 3, 24] = ''2024-03-15 14:30:00.500''"
proof -
  have h: "length [0xF4, 0x01, 30, 14, 15, 3, 24 :: byte] = 7" by simp
  from parse_cp56time2a_layout [OF h] show ?thesis using h by blast
qed

section \<open>The minimum body length of the decoders\<close>

text \<open>
  A body shorter than the declared minimum gives, for every decoder class, exactly one
  appended error and the empty dict (\<open>parser_parse_too_short\<close>).  With a body of at
  least the declared minimum no decoder raises, except \<open>LoginParser\<close> on 28 or 29 bytes
  and \<open>TransactionRecordParser\<close> on 132 to 149 bytes
  (\<open>parser_parse_no_exception\<close>, \<open>LoginParser_raises\<close>,
  \<open>TransactionRecordParser_raises\<close>): their declared minimum is smaller than the
  last index they read.
\<close>

lemmas decoder_defs = LoginParser_parse_def LoginResponseParser_parse_def HeartbeatParser_parse_def HeartbeatResponseParser_parse_def ReadRealtimeParser_parse_def RealtimeDataParser_parse_def ChargingHandshakeParser_parse_def ParameterConfigParser_parse_def ChargingEndParser_parse_def ErrorMessageParser_parse_def BMSStopParser_parse_def ChargerStopParser_parse_def BMSDemandOutputParser_parse_def BMSInfoParser_parse_def ChargingStartRequestParser_parse_def ChargingStartConfirmParser_parse_def RemoteStartReplyParser_parse_def RemoteStartCommandParser_parse_def RemoteStopReplyParser_parse_def RemoteStopCommandParser_parse_def TransactionRecordParser_parse_def TransactionConfirmParser_parse_def BalanceUpdateRequestParser_parse_def BalanceUpdateResponseParser_parse_def OfflineCardSyncParser_parse_def OfflineCardSyncResponseParser_parse_def OfflineCardDeleteParser_parse_def OfflineCardDeleteResponseParser_parse_def OfflineCardQueryParser_parse_def OfflineCardQueryResponseParser_parse_def WorkParameterSetResponseParser_parse_def WorkParameterSetParser_parse_def TimeSyncResponseParser_parse_def TimeSyncParser_parse_def BillingModelResponseParser_parse_def BillingModelSetParser_parse_def ParkingLockStatusParser_parse_def ParkingLockControlParser_parse_def ParkingLockResponseParser_parse_def RemoteRebootResponseParser_parse_def RemoteRebootParser_parse_def RemoteUpdateResponseParser_parse_def RemoteUpdateParser_parse_def ParallelChargingRequestParser_parse_def ParallelChargingConfirmParser_parse_def ParallelChargingReplyParser_parse_def ParallelChargingCommandParser_parse_def QRCodePrefixSetParser_parse_def QRCodePrefixSetResponseParser_parse_def DefaultParser_parse_def pile_and_flag_def

lemma validated_short:
  "length body < expected_min_length cls \<Longrightarrow>
   validated cls c body rest =
     (Inr [], add_error (BodyTooShort cls (expected_min_length cls) (length body)) c)"
  by (simp add: validated_def validate_length_def)

lemma validated_long:
  "expected_min_length cls \<le> length body \<Longrightarrow> validated cls c body rest = rest c"
  by (simp add: validated_def validate_length_def)

lemma index_in_range: "i < length body \<Longrightarrow> index body i c k = k (unat (body ! i))"
  by (simp add: index_def)

lemma index_out_of_range: "length body \<le> i \<Longrightarrow> index body i c k = (Inl IndexError, c)"
  by (simp add: index_def)

lemma parser_parse_too_short:
  "length body < expected_min_length cls \<Longrightarrow>
   parser_parse cls c body =
     (Inr [], add_error (BodyTooShort cls (expected_min_length cls) (length body)) c)"
  by (cases cls) (simp_all add: decoder_defs validated_short)

lemma LoginParser_raises:
  "28 \<le> length body \<Longrightarrow> length body < 30 \<Longrightarrow>
   fst (LoginParser_parse c body) = Inl IndexError"
  by (simp add: LoginParser_parse_def validated_long index_in_range index_out_of_range
        split: prod.splits)

lemma TransactionRecordParser_raises:
  "132 \<le> length body \<Longrightarrow> length body < 150 \<Longrightarrow>
   fst (TransactionRecordParser_parse c body) = Inl IndexError"
  by (cases "length body < 142")
     (simp_all add: TransactionRecordParser_parse_def validated_long index_in_range
        index_out_of_range split: prod.splits)

lemma delete_response_cards_total: "\<exists>cards. delete_response_cards body offset = Inr cards"
proof (induction "length body - offset" arbitrary: offset rule: less_induct)
  case less
  show ?case
  proof (cases "offset + 10 \<le> length body")
    case True
    then have "length body - (offset + 10) < length body - offset" by simp
    then obtain cards where "delete_response_cards body (offset + 10) = Inr cards"
      using less by blast
    moreover have "offset + 8 < length body \<and> offset + 9 < length body" using True by simp
    ultimately show ?thesis
      using True by (subst delete_response_cards.simps) (simp add: Let_def)
  next
    case False
    then show ?thesis by (subst delete_response_cards.simps) simp
  qed
qed

lemma query_response_cards_total: "\<exists>cards. query_response_cards body offset = Inr cards"
proof (induction "length body - offset" arbitrary: offset rule: less_induct)
  case less
  show ?case
  proof (cases "offset + 9 \<le> length body")
    case True
    then have "length body - (offset + 9) < length body - offset" by simp
    then obtain cards where "query_response_cards body (offset + 9) = Inr cards"
      using less by blast
    moreover have "offset + 8 < length body" using True by simp
    ultimately show ?thesis
      using True by (subst query_response_cards.simps) (simp add: Let_def)
  next
    case False
    then show ?thesis by (subst query_response_cards.simps) simp
  qed
qed

lemma parser_parse_no_exception:
  assumes "expected_min_length cls \<le> length body"
    and "cls = LoginParser \<Longrightarrow> 30 \<le> length body"
    and "cls = TransactionRecordParser \<Longrightarrow> 150 \<le> length body"
  shows "\<exists>parsed. fst (parser_parse cls c body) = Inr parsed"
  using assms delete_response_cards_total [of body 7] query_response_cards_total [of body 7]
  by (cases cls)
     (auto simp: decoder_defs validated_long index_in_range Let_def split: prod.splits)

text \<open>
  Claim C3.  Every body decoder, given a body shorter than its declared minimum length,
  records exactly one "body too short" error and returns an empty record; and no decoder
  reads past the end of the body, in particular not when the body has at least the
  declared minimum length.  The second half fails for the login decoder: it declares a
  minimum of 28 bytes and reads \<open>body[29]\<close>, so a 28-byte body raises \<open>IndexError\<close>,
  which the envelope parser turns into the error "body parsing failed" and
  \<open>body_data = None\<close>.  The frame below is a login frame (type 0x01, length byte
  0x20) with a body of 28 zero bytes.
\<close>

theorem LoginParser_minimum_body_raises:
  "expected_min_length LoginParser = 28 \<and>
   LoginParser_parse \<lparr>errors = [], warnings = []\<rparr> (replicate 28 0) =
     (Inl IndexError, \<lparr>errors = [], warnings = []\<rparr>) \<and>
   body_data (fields_of (fst (parse zero_crc
       (''682000000001'' @ concat (replicate 28 ''00'') @ ''0000'')))) = Some BodyNone \<and>
   errors (snd (parse zero_crc
       (''682000000001'' @ concat (replicate 28 ''00'') @ ''0000''))) = [BodyParseFailed IndexError]"
  by code_simp

section \<open>Offline-card batches with fewer records than declared\<close>

text \<open>
  Claim C5 as stated: when the declared record count of an offline-card sync, delete or
  query body implies more bytes than the body has, the decoder clamps the number of
  parsed records and records a warning, not an error.  On the sync body with pile code
  11223344556677 and a declared count of 2 but no record bytes, the decoder appends to
  the errors and leaves the warnings empty.
\<close>

theorem offline_card_warning_counterexample:
  "OfflineCardSyncParser_parse \<lparr>errors = [], warnings = []\<rparr> [0x11, 0x22, 0x33, 0x44, 0x55, 0x66, 0x77, 0x02] =
     (Inr [(''pile_code'', PStr ''11223344556677''), (''card_count'', PInt 2), (''cards'', PList [])],
      \<lparr>errors = [OfflineCardShort 40 8], warnings = []\<rparr>)"
  by code_simp

text \<open>
  Claim C5 as amended.  For each of the three decoders and every body of at least 8
  bytes whose declared count implies more bytes than the body has, the decoder returns
  the records that are fully present, \<open>(len(body) - 8) // record_size\<close> of them and fewer
  than declared, and appends one "offline card data too short" message to the errors;
  the warnings are unchanged.
\<close>

theorem offline_card_shortfall_is_error:
  assumes "8 \<le> length body"
  shows "(length body < 8 + unat (body ! 7) * 16 \<longrightarrow>
         (\<exists>cards. OfflineCardSyncParser_parse c body =
            (Inr [(''pile_code'', PStr (bcd_to_str (py_slice body 0 7))),
                  (''card_count'', PInt (int (unat (body ! 7)))),
                  (''cards'', PList cards)],
             c\<lparr>errors := errors c @ [OfflineCardShort (8 + unat (body ! 7) * 16) (length body)]\<rparr>) \<and>
            length cards = (length body - 8) div 16 \<and> length cards < unat (body ! 7))) \<and>
    (length body < 8 + unat (body ! 7) * 8 \<longrightarrow>
         (\<exists>cards. OfflineCardDeleteParser_parse c body =
            (Inr [(''pile_code'', PStr (bcd_to_str (py_slice body 0 7))),
                  (''card_count'', PInt (int (unat (body ! 7)))),
                  (''card_numbers'', PList cards)],
             c\<lparr>errors := errors c @ [OfflineCardShort (8 + unat (body ! 7) * 8) (length body)]\<rparr>) \<and>
            length cards = (length body - 8) div 8 \<and> length cards < unat (body ! 7))) \<and>
    (length body < 8 + unat (body ! 7) * 8 \<longrightarrow>
         (\<exists>cards. OfflineCardQueryParser_parse c body =
            (Inr [(''pile_code'', PStr (bcd_to_str (py_slice body 0 7))),
                  (''card_count'', PInt (int (unat (body ! 7)))),
                  (''card_numbers'', PList cards)],
             c\<lparr>errors := errors c @ [OfflineCardShort (8 + unat (body ! 7) * 8) (length body)]\<rparr>) \<and>
            length cards = (length body - 8) div 8 \<and> length cards < unat (body ! 7)))"
proof (intro conjI impI)
  assume short: "length body < 8 + unat (body ! 7) * 16"
  then have "(length body - 8) div 16 < unat (body ! 7)"
    using assms by (simp add: less_mult_imp_div_less)
  then show "\<exists>cards. OfflineCardSyncParser_parse c body =
            (Inr [(''pile_code'', PStr (bcd_to_str (py_slice body 0 7))),
                  (''card_count'', PInt (int (unat (body ! 7)))),
                  (''cards'', PList cards)],
             c\<lparr>errors := errors c @ [OfflineCardShort (8 + unat (body ! 7) * 16) (length body)]\<rparr>) \<and>
            length cards = (length body - 8) div 16 \<and> length cards < unat (body ! 7)"
    using assms short
    by (simp add: OfflineCardSyncParser_parse_def validated_long index_in_range Let_def
          add_error_def min_def card_numbers_def)
next
  assume short: "length body < 8 + unat (body ! 7) * 8"
  then have "(length body - 8) div 8 < unat (body ! 7)"
    using assms by (simp add: less_mult_imp_div_less)
  then show "\<exists>cards. OfflineCardDeleteParser_parse c body =
            (Inr [(''pile_code'', PStr (bcd_to_str (py_slice body 0 7))),
                  (''card_count'', PInt (int (unat (body ! 7)))),
                  (''card_numbers'', PList cards)],
             c\<lparr>errors := errors c @ [OfflineCardShort (8 + unat (body ! 7) * 8) (length body)]\<rparr>) \<and>
            length cards = (length body - 8) div 8 \<and> length cards < unat (body ! 7)"
    using assms short
    by (simp add: OfflineCardDeleteParser_parse_def validated_long index_in_range Let_def
          add_error_def min_def card_numbers_def)
next
  assume short: "length body < 8 + unat (body ! 7) * 8"
  then have "(length body - 8) div 8 < unat (body ! 7)"
    using assms by (simp add: less_mult_imp_div_less)
  then show "\<exists>cards. OfflineCardQueryParser_parse c body =
            (Inr [(''pile_code'', PStr (bcd_to_str (py_slice body 0 7))),
                  (''card_count'', PInt (int (unat (body ! 7)))),
                  (''card_numbers'', PList cards)],
             c\<lparr>errors := errors c @ [OfflineCardShort (8 + unat (body ! 7) * 8) (length body)]\<rparr>) \<and>
            length cards = (length body - 8) div 8 \<and> length cards < unat (body ! 7)"
    using assms short
    by (simp add: OfflineCardQueryParser_parse_def validated_long index_in_range Let_def
          add_error_def min_def card_numbers_def)
qed

theorem offline_card_shortfall_is_error_witness:
  "8 \<le> length [0x11, 0x22, 0x33, 0x44, 0x55, 0x66, 0x77, 0x02 :: byte] \<and>
   length [0x11, 0x22, 0x33, 0x44, 0x55, 0x66, 0x77, 0x02 :: byte] <
     8 + unat ([0x11, 0x22, 0x33, 0x44, 0x55, 0x66, 0x77, 0x02 :: byte] ! 7) * 8 \<and>
   errors (snd (OfflineCardSyncParser_parse \<lparr>errors = [], warnings = []\<rparr>
                  [0x11, 0x22, 0x33, 0x44, 0x55, 0x66, 0x77, 0x02])) = [OfflineCardShort 40 8] \<and>
   warnings (snd (OfflineCardSyncParser_parse \<lparr>errors = [], warnings = []\<rparr>
                  [0x11, 0x22, 0x33, 0x44, 0x55, 0x66, 0x77, 0x02])) = [] \<and>
   errors (snd (OfflineCardDeleteParser_parse \<lparr>errors = [], warnings = []\<rparr>
                  [0x11, 0x22, 0x33, 0x44, 0x55, 0x66, 0x77, 0x02])) = [OfflineCardShort 24 8] \<and>
   errors (snd (OfflineCardQueryParser_parse \<lparr>errors = [], warnings = []\<rparr>
                  [0x11, 0x22, 0x33, 0x44, 0x55, 0x66, 0x77, 0x02])) = [OfflineCardShort 24 8]"
  using offline_card_shortfall_is_error
          [of "[0x11, 0x22, 0x33, 0x44, 0x55, 0x66, 0x77, 0x02]" "\<lparr>errors = [], warnings = []\<rparr>"]
  by auto

section \<open>Scaled integers at their boundary values\<close>



section \<open>The envelope parser in closed form\<close>

text \<open>
  On a frame of at least 6 bytes \<open>_parse_structure\<close> never raises; its result and the
  two lists it leaves are given by \<open>header_result\<close>, \<open>envelope_errors\<close> and
  \<open>envelope_warnings\<close>, followed by what the body decoder appends (\<open>decode_shape\<close>).
\<close>

lemma parse_structure_halt:
  assumes "6 \<le> length data" "unat (data ! 1) < 4"
  shows "parse_structure crc c0 data =
           (Inr (header_result data),
            \<lparr>errors = errors c0 @ envelope_errors data,
             warnings = warnings c0 @ envelope_warnings crc data\<rparr>)"
proof -
  have "data \<noteq> []" using assms by auto
  then show ?thesis
    using assms
    by (simp add: parse_structure_def Let_def header_result_def envelope_errors_def
          envelope_warnings_def add_error_def add_warning_def)
qed

lemma check_crc_eq:
  "check_crc crc data be r c =
     (r\<lparr>crc16_received :=
          (if be + 2 \<le> length data
           then Some (''0x'' @ fmt_hex 4 (from_bytes_big (py_slice data be (be + 2))))
           else crc16_received r),
        crc16_calculated :=
          (if be + 2 \<le> length data
           then Some (''0x'' @ fmt_hex 4 (crc (py_slice data 2 be)))
           else crc16_calculated r),
        crc16_valid :=
          Some (be + 2 \<le> length data \<and>
                crc (py_slice data 2 be) = from_bytes_big (py_slice data be (be + 2)))\<rparr>,
      \<lparr>errors = errors c @ (if be + 2 \<le> length data then [] else [CrcUnreadable]),
       warnings = warnings c @
         (if be + 2 \<le> length data \<and>
             crc (py_slice data 2 be) \<noteq> from_bytes_big (py_slice data be (be + 2))
          then [CrcMismatch (from_bytes_big (py_slice data be (be + 2))) (crc (py_slice data 2 be))]
          else [])\<rparr>)"
  by (simp add: check_crc_def Let_def add_error_def add_warning_def)


lemma parse_structure_full:
  assumes "6 \<le> length data" "4 \<le> unat (data ! 1)"
  shows "parse_structure crc c0 data =
           (case check_crc crc data (body_end_of data)
                   (header_result data
                      \<lparr>body_length := Some (length (body_of data)),
                       body_hex := Some (hex_upper (body_of data))\<rparr>)
                   \<lparr>errors = errors c0 @
                      (if unat (data ! 0) \<noteq> 0x68 then [StartFlagError (unat (data ! 0))] else []) @
                      (if length data \<noteq> 1 + 1 + unat (data ! 1) + 2
                       then [LengthMismatch (1 + 1 + unat (data ! 1) + 2) (length data)] else []) @
                      (if length data < body_end_of data
                       then [BodyIncomplete (body_end_of data) (length data)] else []),
                     warnings = warnings c0 @
                      (if unat (data ! 5) \<notin> fst ` set FRAME_TYPES
                       then [UnknownFrameType (unat (data ! 5))] else [])\<rparr> of
              (r1, c1) \<Rightarrow>
                (case decode_body (unat (data ! 5)) (body_of data) r1 c1 of
                   (r2, c2) \<Rightarrow> (Inr r2, c2)))"
proof -
  define n where "n = unat (data ! 1)"
  have ne: "\<not> length data < 1" "\<not> length data < 2" "length data \<ge> 4" "length data \<ge> 5"
    "length data \<ge> 6"
    using assms by auto
  have ge: "4 \<le> n" using assms by (simp add: n_def)
  have n4: "nat (int n - 4) = n - 4" "\<not> int n - 4 < 0" using ge by linarith+
  obtain e w where c0: "c0 = \<lparr>errors = e, warnings = w\<rparr>" by (cases c0) simp
  show ?thesis
    unfolding parse_structure_def Let_def body_end_of_def body_of_def header_result_def
      n_def [symmetric] c0
    by (simp only: ne n4 if_False if_True not_True_eq_False not_False_eq_True read_body_def
          add_error_def add_warning_def)
       (simp add: add_error_def add_warning_def)
qed

lemma decode_body_result:
  "fst (decode_body ft body r c) =
     r\<lparr>body_data :=
         (if body = [] then body_data r
          else Some (case fst (parser_parse (get_parser ft) \<lparr>errors = [], warnings = []\<rparr> body) of
                       Inl e \<Rightarrow> BodyNone | Inr parsed \<Rightarrow> BodyDict parsed))\<rparr>"
  using parser_parse_same [of "get_parser ft" c body "\<lparr>errors = [], warnings = []\<rparr>"]
  by (cases "parser_parse (get_parser ft) c body")
     (auto simp: decode_body_def split: sum.splits)

lemma decode_body_ctx:
  "\<exists>es ws. errors (snd (decode_body ft body r c)) = errors c @ es \<and>
           warnings (snd (decode_body ft body r c)) = warnings c @ ws \<and>
           (\<forall>d \<in> set es. \<not> envelope_diag d \<or> (\<exists>e. d = BodyParseFailed e)) \<and>
           (\<forall>d \<in> set ws. \<not> envelope_diag d) \<and>
           (body = [] \<or> get_parser ft = DefaultParser \<longrightarrow> es = [] \<and> ws = [])"
proof (cases "body = []")
  case True
  then show ?thesis by (simp add: decode_body_def)
next
  case False
  obtain out c' where p: "parser_parse (get_parser ft) c body = (out, c')"
    by (cases "parser_parse (get_parser ft) c body")
  from parser_parse_appends [of c "get_parser ft" body] p
  obtain es ws where a: "errors c' = errors c @ es" "warnings c' = warnings c @ ws"
    "\<forall>d \<in> set es \<union> set ws. \<not> envelope_diag d"
    by (auto simp: decoder_appends_def)
  have dflt: "get_parser ft = DefaultParser \<longrightarrow> out = Inr [(''raw'', PStr (hex_upper body)), (''note'', PStr not_implemented_note)] \<and> es = [] \<and> ws = []"
    using p a by (auto simp: DefaultParser_parse_def)
  show ?thesis
  proof (cases out)
    case (Inl e)
    then have "errors (snd (decode_body ft body r c)) = errors c @ (es @ [BodyParseFailed e])"
      "warnings (snd (decode_body ft body r c)) = warnings c @ ws"
      using False p a by (simp_all add: decode_body_def add_error_def)
    moreover have "\<forall>d \<in> set (es @ [BodyParseFailed e]). \<not> envelope_diag d \<or> (\<exists>e. d = BodyParseFailed e)"
      using a by auto
    moreover have "\<forall>d \<in> set ws. \<not> envelope_diag d" using a by auto
    moreover have "get_parser ft \<noteq> DefaultParser" using dflt Inl by auto
    ultimately show ?thesis using False by blast
  next
    case (Inr parsed)
    then have "errors (snd (decode_body ft body r c)) = errors c @ es"
      "warnings (snd (decode_body ft body r c)) = warnings c @ ws"
      using False p a by (simp_all add: decode_body_def)
    moreover have "\<forall>d \<in> set es. \<not> envelope_diag d \<or> (\<exists>e. d = BodyParseFailed e)"
      using a by auto
    moreover have "\<forall>d \<in> set ws. \<not> envelope_diag d" using a by auto
    ultimately show ?thesis using False dflt by blast
  qed
qed

text \<open>The whole of a structural decode, for a frame of at least 6 bytes.\<close>

lemma decode_shape:
  assumes "6 \<le> length data"
  shows "\<exists>r es ws.
           decode crc data =
             (Inr r, \<lparr>errors = envelope_errors data @ es,
                       warnings = envelope_warnings crc data @ ws\<rparr>) \<and>
           (\<forall>d \<in> set es. \<not> envelope_diag d \<or> (\<exists>e. d = BodyParseFailed e)) \<and>
           (\<forall>d \<in> set ws. \<not> envelope_diag d) \<and>
           (unat (data ! 1) < 4 \<or> body_of data = [] \<or>
              get_parser (unat (data ! 5)) = DefaultParser \<longrightarrow> es = [] \<and> ws = []) \<and>
           (unat (data ! 1) < 4 \<longrightarrow> r = header_result data) \<and>
           (4 \<le> unat (data ! 1) \<longrightarrow>
              r = header_result data
                    \<lparr>body_length := Some (length (body_of data)),
                     body_hex := Some (hex_upper (body_of data)),
                     crc16_received :=
                       (if body_end_of data + 2 \<le> length data
                        then Some (''0x'' @ fmt_hex 4 (crc_received_of data)) else None),
                     crc16_calculated :=
                       (if body_end_of data + 2 \<le> length data
                        then Some (''0x'' @ fmt_hex 4 (crc_calculated_of crc data)) else None),
                     crc16_valid :=
                       Some (body_end_of data + 2 \<le> length data \<and>
                             crc_calculated_of crc data = crc_received_of data),
                     body_data :=
                       (if body_of data = [] then None
                        else Some (case fst (parser_parse (get_parser (unat (data ! 5)))
                                               \<lparr>errors = [], warnings = []\<rparr> (body_of data)) of
                                     Inl e \<Rightarrow> BodyNone | Inr parsed \<Rightarrow> BodyDict parsed))\<rparr>)"
proof (cases "unat (data ! 1) < 4")
  case True
  then show ?thesis
    using parse_structure_halt [OF assms True, of crc "\<lparr>errors = [], warnings = []\<rparr>"]
    by (simp add: decode_def)
next
  case False
  then have ge: "4 \<le> unat (data ! 1)" by simp
  let ?be = "body_end_of data"
  let ?c0 = "\<lparr>errors = [], warnings = []\<rparr> :: ctx"
  obtain r1 c1 where cc: "check_crc crc data ?be
       (header_result data\<lparr>body_length := Some (length (body_of data)),
                              body_hex := Some (hex_upper (body_of data))\<rparr>)
       \<lparr>errors = errors ?c0 @
          (if unat (data ! 0) \<noteq> 0x68 then [StartFlagError (unat (data ! 0))] else []) @
          (if length data \<noteq> 1 + 1 + unat (data ! 1) + 2
           then [LengthMismatch (1 + 1 + unat (data ! 1) + 2) (length data)] else []) @
          (if length data < ?be then [BodyIncomplete ?be (length data)] else []),
         warnings = warnings ?c0 @
          (if unat (data ! 5) \<notin> fst ` set FRAME_TYPES
           then [UnknownFrameType (unat (data ! 5))] else [])\<rparr> = (r1, c1)"
    by (rule prod.exhaust)
  have c1: "c1 = \<lparr>errors = envelope_errors data, warnings = envelope_warnings crc data\<rparr>"
    using cc [symmetric] ge
    by (simp add: check_crc_eq envelope_errors_def envelope_warnings_def
          crc_calculated_of_def crc_received_of_def)
  have c1e: "errors c1 = envelope_errors data" and c1w: "warnings c1 = envelope_warnings crc data"
    by (simp_all add: c1)
  have r1: "r1 = header_result data
                    \<lparr>body_length := Some (length (body_of data)),
                     body_hex := Some (hex_upper (body_of data)),
                     crc16_received :=
                       (if ?be + 2 \<le> length data
                        then Some (''0x'' @ fmt_hex 4 (crc_received_of data)) else None),
                     crc16_calculated :=
                       (if ?be + 2 \<le> length data
                        then Some (''0x'' @ fmt_hex 4 (crc_calculated_of crc data)) else None),
                     crc16_valid :=
                       Some (?be + 2 \<le> length data \<and>
                             crc_calculated_of crc data = crc_received_of data)\<rparr>"
    using cc [symmetric]
    by (simp add: check_crc_eq crc_calculated_of_def crc_received_of_def header_result_def
          empty_result_def)
  have bd0: "body_data r1 = None"
    by (simp add: r1 header_result_def empty_result_def)
  obtain r2 c2 where db: "decode_body (unat (data ! 5)) (body_of data) r1 c1 = (r2, c2)"
    by (rule prod.exhaust)
  have dec: "decode crc data = (Inr r2, c2)"
    using parse_structure_full [OF assms ge, of crc ?c0] cc db by (simp add: decode_def)
  from decode_body_ctx [of "unat (data ! 5)" "body_of data" r1 c1] db
  obtain es ws where ew: "errors c2 = errors c1 @ es" "warnings c2 = warnings c1 @ ws"
    "\<forall>d \<in> set es. \<not> envelope_diag d \<or> (\<exists>e. d = BodyParseFailed e)"
    "\<forall>d \<in> set ws. \<not> envelope_diag d"
    "body_of data = [] \<or> get_parser (unat (data ! 5)) = DefaultParser \<longrightarrow> es = [] \<and> ws = []"
    by auto
  have c2: "c2 = \<lparr>errors = envelope_errors data @ es, warnings = envelope_warnings crc data @ ws\<rparr>"
    using ew c1e c1w by simp
  have r2: "r2 = r1\<lparr>body_data :=
         (if body_of data = [] then None
          else Some (case fst (parser_parse (get_parser (unat (data ! 5))) ?c0 (body_of data)) of
                       Inl e \<Rightarrow> BodyNone | Inr parsed \<Rightarrow> BodyDict parsed))\<rparr>"
    using decode_body_result [of "unat (data ! 5)" "body_of data" r1 c1] db bd0 by simp
  show ?thesis
    using dec c2 r2 r1 ew ge by auto
qed

section \<open>Names, dispatch and the entry point\<close>

text \<open>
  Facts shared by the properties below: how length-mismatch errors are counted, that
  every code with a decoder also has a name, what \<open>get_parser\<close> and the name lookup
  give for a code without an entry, and \<open>parse\<close> in terms of one structural decode.
\<close>

lemma length_mismatches_append:
  "length_mismatches (xs @ ys) = length_mismatches xs + length_mismatches ys"
  by (simp add: length_mismatches_def)

lemma length_mismatches_decoder:
  assumes "\<forall>d \<in> set es. \<not> envelope_diag d \<or> (\<exists>e. d = BodyParseFailed e)"
  shows "length_mismatches es = 0"
proof -
  have "filter (\<lambda>d. case d of LengthMismatch e a \<Rightarrow> True | _ \<Rightarrow> False) es = []"
    using assms by (auto simp: filter_empty_conv split: diag.splits)
  then show ?thesis by (simp add: length_mismatches_def)
qed

lemma length_mismatches_envelope:
  "length_mismatches (envelope_errors data) =
     (if length data \<noteq> 1 + 1 + unat (data ! 1) + 2 then 1 else 0)"
  by (simp add: length_mismatches_def envelope_errors_def)

lemma envelope_errors_diag: "\<forall>d \<in> set (envelope_errors data). envelope_diag d"
  by (auto simp: envelope_errors_def split: if_splits)

lemma envelope_warnings_diag: "\<forall>d \<in> set (envelope_warnings crc data). envelope_diag d"
  by (auto simp: envelope_warnings_def split: if_splits)

lemma named_codes: "fst ` set FRAME_TYPES - fst ` set parsers = {0x05, 0x06, 0x09, 0x0A, 0xF0, 0xF1}"
  by code_simp

lemma parsers_named: "fst ` set parsers \<subseteq> fst ` set FRAME_TYPES"
  by code_simp

lemma get_parser_unnamed:
  assumes "n \<notin> fst ` set parsers"
  shows "get_parser n = DefaultParser"
proof -
  have "map_of parsers n = None" using assms by (simp add: map_of_eq_None_iff)
  then show ?thesis by (simp add: get_parser_def dict_get_def)
qed

lemma name_unnamed:
  assumes "n \<notin> fst ` set FRAME_TYPES"
  shows "dict_get FRAME_TYPES n unknown_frame_type_name = unknown_frame_type_name"
proof -
  have "map_of FRAME_TYPES n = None" using assms by (simp add: map_of_eq_None_iff)
  then show ?thesis by (simp add: dict_get_def)
qed

lemma body_of_empty_iff:
  assumes "6 \<le> length data" "4 \<le> unat (data ! 1)"
  shows "body_of data = [] \<longleftrightarrow> unat (data ! 1) = 4 \<or> length data = 6"
  using assms by (auto simp: body_of_def body_slice_def body_end_of_def py_slice_def)

lemma parse_via_decode:
  assumes "length (clean_input hex_str) mod 2 = 0" "fromhex (clean_input hex_str) = Some data"
    "8 \<le> length data" "decode crc data = (Inr r, c)"
  shows "parse crc hex_str =
           (\<lparr>fields_of = r,
             code = (if errors c \<noteq> [] then 500 else 200),
             msg = (if errors c \<noteq> [] then MsgParseFailed (take 3 (errors c)) else MsgParseOk),
             errors_key = (if errors c \<noteq> [] then Some (errors c) else None),
             warnings_key = (if warnings c \<noteq> [] then Some (warnings c) else None),
             data_is_none = False\<rparr>, c)"
  using assms by (simp add: parse_def decode_def Let_def)

lemma parse_rejects:
  assumes "\<not> reaches_structure hex_str"
  shows "\<exists>m. parse crc hex_str = (error_response m, \<lparr>errors = [], warnings = []\<rparr>)"
  using assms by (auto simp: parse_def reaches_structure_def Let_def split: option.splits)

lemma decode_result:
  assumes "6 \<le> length data"
  shows "fst (decode crc data) =
           Inr (if unat (data ! 1) < 4 then header_result data
                else header_result data
                    \<lparr>body_length := Some (length (body_of data)),
                     body_hex := Some (hex_upper (body_of data)),
                     crc16_received :=
                       (if body_end_of data + 2 \<le> length data
                        then Some (''0x'' @ fmt_hex 4 (crc_received_of data)) else None),
                     crc16_calculated :=
                       (if body_end_of data + 2 \<le> length data
                        then Some (''0x'' @ fmt_hex 4 (crc_calculated_of crc data)) else None),
                     crc16_valid :=
                       Some (body_end_of data + 2 \<le> length data \<and>
                             crc_calculated_of crc data = crc_received_of data),
                     body_data :=
                       (if body_of data = [] then None
                        else Some (case fst (parser_parse (get_parser (unat (data ! 5)))
                                               \<lparr>errors = [], warnings = []\<rparr> (body_of data)) of
                                     Inl e \<Rightarrow> BodyNone | Inr parsed \<Rightarrow> BodyDict parsed))\<rparr>)"
  using decode_shape [OF assms, of crc] by (cases "unat (data ! 1) < 4") auto

lemma decode_errors:
  assumes "6 \<le> length data"
  shows "\<exists>es. errors (snd (decode crc data)) = envelope_errors data @ es \<and>
              (\<forall>d \<in> set es. \<not> envelope_diag d \<or> (\<exists>e. d = BodyParseFailed e)) \<and>
              (unat (data ! 1) < 4 \<or> body_of data = [] \<or>
                 get_parser (unat (data ! 5)) = DefaultParser \<longrightarrow> es = [])"
  using decode_shape [OF assms, of crc] by fastforce

lemma decode_warnings:
  assumes "6 \<le> length data"
  shows "\<exists>ws. warnings (snd (decode crc data)) = envelope_warnings crc data @ ws \<and>
              (\<forall>d \<in> set ws. \<not> envelope_diag d) \<and>
              (unat (data ! 1) < 4 \<or> body_of data = [] \<or>
                 get_parser (unat (data ! 5)) = DefaultParser \<longrightarrow> ws = [])"
  using decode_shape [OF assms, of crc] by fastforce

lemma header_fields:
  "start_flag (header_result data) = Some (''0x'' @ fmt_hex 2 (unat (data ! 0)))"
  "data_length (header_result data) = Some (unat (data ! 1))"
  "sequence_number (header_result data) = Some (from_bytes_little (py_slice data 2 4))"
  "encrypt_flag (header_result data) = Some (''0x'' @ fmt_hex 2 (unat (data ! 4)))"
  "is_encrypted (header_result data) = Some (unat (data ! 4) = 0x01)"
  "frame_type (header_result data) = Some (''0x'' @ fmt_hex 2 (unat (data ! 5)))"
  "frame_type_name (header_result data) =
     Some (dict_get FRAME_TYPES (unat (data ! 5)) unknown_frame_type_name)"
  "body_length (header_result data) = None"
  "body_hex (header_result data) = None"
  "crc16_received (header_result data) = None"
  "crc16_calculated (header_result data) = None"
  "crc16_valid (header_result data) = None"
  "body_data (header_result data) = None"
  by (simp_all add: header_result_def empty_result_def)

lemma named_without_decoder:
  "dict_get FRAME_TYPES 0x05 unknown_frame_type_name \<noteq> unknown_frame_type_name"
  "dict_get FRAME_TYPES 0x06 unknown_frame_type_name \<noteq> unknown_frame_type_name"
  "dict_get FRAME_TYPES 0x09 unknown_frame_type_name \<noteq> unknown_frame_type_name"
  "dict_get FRAME_TYPES 0x0A unknown_frame_type_name \<noteq> unknown_frame_type_name"
  "dict_get FRAME_TYPES 0xF0 unknown_frame_type_name \<noteq> unknown_frame_type_name"
  "dict_get FRAME_TYPES 0xF1 unknown_frame_type_name \<noteq> unknown_frame_type_name"
  by code_simp+

lemma decode_default:
  assumes "6 \<le> length data" and "get_parser (unat (data ! 5)) = DefaultParser"
  shows "\<exists>r. decode crc data =
               (Inr r, \<lparr>errors = envelope_errors data, warnings = envelope_warnings crc data\<rparr>) \<and>
             frame_type_name r =
               Some (dict_get FRAME_TYPES (unat (data ! 5)) unknown_frame_type_name) \<and>
             (4 \<le> unat (data ! 1) \<and> body_of data \<noteq> [] \<longrightarrow>
                body_data r =
                  Some (BodyDict [(''raw'', PStr (hex_upper (body_of data))),
                                  (''note'', PStr not_implemented_note)])) \<and>
             (unat (data ! 1) < 4 \<or> body_of data = [] \<longrightarrow> body_data r = None)"
proof -
  obtain r c where d: "decode crc data = (Inr r, c)"
    using decode_result [OF assms(1), of crc] by (cases "decode crc data") auto
  have r: "r = (if unat (data ! 1) < 4 then header_result data
                else header_result data
                    \<lparr>body_length := Some (length (body_of data)),
                     body_hex := Some (hex_upper (body_of data)),
                     crc16_received :=
                       (if body_end_of data + 2 \<le> length data
                        then Some (''0x'' @ fmt_hex 4 (crc_received_of data)) else None),
                     crc16_calculated :=
                       (if body_end_of data + 2 \<le> length data
                        then Some (''0x'' @ fmt_hex 4 (crc_calculated_of crc data)) else None),
                     crc16_valid :=
                       Some (body_end_of data + 2 \<le> length data \<and>
                             crc_calculated_of crc data = crc_received_of data),
                     body_data :=
                       (if body_of data = [] then None
                        else Some (case fst (parser_parse (get_parser (unat (data ! 5)))
                                               \<lparr>errors = [], warnings = []\<rparr> (body_of data)) of
                                     Inl e \<Rightarrow> BodyNone | Inr parsed \<Rightarrow> BodyDict parsed))\<rparr>)"
    using decode_result [OF assms(1), of crc] d by simp
  have e: "errors c = envelope_errors data"
    using decode_errors [OF assms(1), of crc] d assms(2) by auto
  have w: "warnings c = envelope_warnings crc data"
    using decode_warnings [OF assms(1), of crc] d assms(2) by auto
  have c: "c = \<lparr>errors = envelope_errors data, warnings = envelope_warnings crc data\<rparr>"
    using e w by (cases c) simp
  have n: "frame_type_name r =
             Some (dict_get FRAME_TYPES (unat (data ! 5)) unknown_frame_type_name)"
    by (simp add: r header_fields)
  have b1: "4 \<le> unat (data ! 1) \<and> body_of data \<noteq> [] \<longrightarrow>
                body_data r =
                  Some (BodyDict [(''raw'', PStr (hex_upper (body_of data))),
                                  (''note'', PStr not_implemented_note)])"
    by (simp add: r assms(2) DefaultParser_parse_def)
  have b2: "unat (data ! 1) < 4 \<or> body_of data = [] \<longrightarrow> body_data r = None"
    by (auto simp: r header_fields)
  show ?thesis using d c n b1 b2 by blast
qed

section \<open>Frames with an empty body\<close>

text \<open>
  Claim C10.  For every frame whose body slice is empty, because the declared length
  leaves a body of 0 bytes or because the frame ends at the header, no body decoder is
  invoked and the result has no \<open>body_data\<close> key, also when the frame type has a
  decoder with a positive minimum length: no "body too short" error is recorded, and
  the only messages are those of the envelope.  The same holds when the declared length
  is below 4 and the parser stops before the body.  The first conjunct says when the
  body slice is empty; the last is step 8 itself on an empty body.
\<close>

theorem empty_body_skips_decoder:
  assumes "6 \<le> length data"
  shows "(4 \<le> unat (data ! 1) \<longrightarrow>
            (body_of data = [] \<longleftrightarrow> unat (data ! 1) = 4 \<or> length data = 6)) \<and>
         (unat (data ! 1) < 4 \<or> body_of data = [] \<longrightarrow>
            (\<exists>r. decode crc data =
                    (Inr r, \<lparr>errors = envelope_errors data,
                              warnings = envelope_warnings crc data\<rparr>) \<and>
                 body_data r = None) \<and>
            (\<forall>cls n a. BodyTooShort cls n a \<notin> set (errors (snd (decode crc data)))) \<and>
            (\<forall>d \<in> set (errors (snd (decode crc data))). envelope_diag d)) \<and>
         decode_body ft [] r0 c0 = (r0, c0)"
proof (intro conjI impI)
  assume "4 \<le> unat (data ! 1)"
  then show "body_of data = [] \<longleftrightarrow> unat (data ! 1) = 4 \<or> length data = 6"
    using assms by (rule body_of_empty_iff [rotated])
next
  assume e: "unat (data ! 1) < 4 \<or> body_of data = []"
  from decode_shape [OF assms, of crc] obtain r es ws where
    d: "decode crc data =
          (Inr r, \<lparr>errors = envelope_errors data @ es, warnings = envelope_warnings crc data @ ws\<rparr>)"
    and z: "unat (data ! 1) < 4 \<or> body_of data = [] \<or>
              get_parser (unat (data ! 5)) = DefaultParser \<longrightarrow> es = [] \<and> ws = []"
    and h: "unat (data ! 1) < 4 \<longrightarrow> r = header_result data"
    and f: "4 \<le> unat (data ! 1) \<longrightarrow>
              r = header_result data
                    \<lparr>body_length := Some (length (body_of data)),
                     body_hex := Some (hex_upper (body_of data)),
                     crc16_received :=
                       (if body_end_of data + 2 \<le> length data
                        then Some (''0x'' @ fmt_hex 4 (crc_received_of data)) else None),
                     crc16_calculated :=
                       (if body_end_of data + 2 \<le> length data
                        then Some (''0x'' @ fmt_hex 4 (crc_calculated_of crc data)) else None),
                     crc16_valid :=
                       Some (body_end_of data + 2 \<le> length data \<and>
                             crc_calculated_of crc data = crc_received_of data),
                     body_data :=
                       (if body_of data = [] then None
                        else Some (case fst (parser_parse (get_parser (unat (data ! 5)))
                                               \<lparr>errors = [], warnings = []\<rparr> (body_of data)) of
                                     Inl e \<Rightarrow> BodyNone | Inr parsed \<Rightarrow> BodyDict parsed))\<rparr>"
    by blast
  have ez: "es = []" "ws = []" using z e by auto
  have bd: "body_data r = None"
  proof (cases "unat (data ! 1) < 4")
    case True
    then show ?thesis using h by (simp add: header_result_def empty_result_def)
  next
    case False
    then have "body_of data = []" using e by simp
    then show ?thesis using f False by simp
  qed
  show "\<exists>r. decode crc data =
              (Inr r, \<lparr>errors = envelope_errors data, warnings = envelope_warnings crc data\<rparr>) \<and>
            body_data r = None"
    using d ez bd by simp
  have er: "errors (snd (decode crc data)) = envelope_errors data" using d ez by simp
  show "\<forall>d \<in> set (errors (snd (decode crc data))). envelope_diag d"
    unfolding er by (rule envelope_errors_diag)
  then show "\<forall>cls n a. BodyTooShort cls n a \<notin> set (errors (snd (decode crc data)))"
    by fastforce
next
  show "decode_body ft [] r0 c0 = (r0, c0)" by (simp add: decode_body_def)
qed

theorem empty_body_skips_decoder_witness:
  "6 \<le> length [0x68, 0x04, 0x00, 0x00, 0x00, 0x01, 0x00, 0x00 :: byte] \<and>
   body_of [0x68, 0x04, 0x00, 0x00, 0x00, 0x01, 0x00, 0x00] = [] \<and>
   get_parser (unat ([0x68, 0x04, 0x00, 0x00, 0x00, 0x01, 0x00, 0x00 :: byte] ! 5)) = LoginParser \<and>
   expected_min_length LoginParser = 28 \<and>
   (\<exists>r. decode zero_crc [0x68, 0x04, 0x00, 0x00, 0x00, 0x01, 0x00, 0x00] =
           (Inr r, \<lparr>errors = [], warnings = []\<rparr>) \<and> body_data r = None)"
proof -
  let ?f = "[0x68, 0x04, 0x00, 0x00, 0x00, 0x01, 0x00, 0x00 :: byte]"
  have 1: "6 \<le> length ?f" by simp
  have 2: "body_of ?f = []" by code_simp
  have 3: "envelope_errors ?f = []" by code_simp
  have 4: "envelope_warnings zero_crc ?f = []" by code_simp
  have 5: "get_parser (unat (?f ! 5)) = LoginParser" by code_simp
  have 6: "expected_min_length LoginParser = 28" by simp
  from empty_body_skips_decoder [OF 1, of zero_crc] 2
  have "\<exists>r. decode zero_crc ?f =
              (Inr r, \<lparr>errors = envelope_errors ?f, warnings = envelope_warnings zero_crc ?f\<rparr>) \<and>
            body_data r = None"
    by blast
  then show ?thesis using 1 2 3 4 5 6 by simp
qed

section \<open>A frame whose length differs from the declared length\<close>

text \<open>
  Claim C6.  For every frame of at least 8 bytes whose total length is not
  1 (start) + 1 (length byte) + declared length + 2 (checksum), decoding records exactly
  one length-mismatch error, returns a result instead of raising, and goes on with the
  remaining steps: the sequence number, the encryption flag and the frame type are
  always read; with a declared length of at least 4 the body is sliced, the checksum
  step sets its flag and a non-empty body is handed to the decoder of the frame type;
  a declared length below 4 ends the parse with a data-length error after the frame
  type.  \<open>parse\<close> then answers with code 500 and the recorded errors.
\<close>

theorem length_mismatch_recorded_once:
  assumes "8 \<le> length data" and "length data \<noteq> 1 + 1 + unat (data ! 1) + 2"
  shows "\<exists>r c. decode crc data = (Inr r, c) \<and>
           length_mismatches (errors c) = 1 \<and>
           LengthMismatch (1 + 1 + unat (data ! 1) + 2) (length data) \<in> set (errors c) \<and>
           start_flag r = Some (''0x'' @ fmt_hex 2 (unat (data ! 0))) \<and>
           data_length r = Some (unat (data ! 1)) \<and>
           sequence_number r = Some (from_bytes_little (py_slice data 2 4)) \<and>
           encrypt_flag r = Some (''0x'' @ fmt_hex 2 (unat (data ! 4))) \<and>
           is_encrypted r = Some (unat (data ! 4) = 0x01) \<and>
           frame_type r = Some (''0x'' @ fmt_hex 2 (unat (data ! 5))) \<and>
           frame_type_name r =
             Some (dict_get FRAME_TYPES (unat (data ! 5)) unknown_frame_type_name) \<and>
           (unat (data ! 1) < 4 \<longrightarrow>
              DataLengthFieldError (unat (data ! 1)) \<in> set (errors c) \<and>
              body_length r = None \<and> crc16_valid r = None \<and> body_data r = None) \<and>
           (4 \<le> unat (data ! 1) \<longrightarrow>
              body_length r = Some (length (body_of data)) \<and>
              body_hex r = Some (hex_upper (body_of data)) \<and>
              crc16_valid r =
                Some (body_end_of data + 2 \<le> length data \<and>
                      crc (py_slice data 2 (body_end_of data)) =
                      from_bytes_big (py_slice data (body_end_of data) (body_end_of data + 2))) \<and>
              body_data r =
                (if body_of data = [] then None
                 else Some (case fst (parser_parse (get_parser (unat (data ! 5)))
                                        \<lparr>errors = [], warnings = []\<rparr> (body_of data)) of
                              Inl e \<Rightarrow> BodyNone | Inr parsed \<Rightarrow> BodyDict parsed))) \<and>
           (length (clean_input hex_str) mod 2 = 0 \<and> fromhex (clean_input hex_str) = Some data \<longrightarrow>
              parse crc hex_str =
                (\<lparr>fields_of = r, code = 500, msg = MsgParseFailed (take 3 (errors c)),
                  errors_key = Some (errors c),
                  warnings_key = (if warnings c \<noteq> [] then Some (warnings c) else None),
                  data_is_none = False\<rparr>, c))"
proof -
  have six: "6 \<le> length data" using assms(1) by simp
  obtain r c where d: "decode crc data = (Inr r, c)"
    using decode_result [OF six, of crc] by (cases "decode crc data") auto
  have r: "r = (if unat (data ! 1) < 4 then header_result data
                else header_result data
                    \<lparr>body_length := Some (length (body_of data)),
                     body_hex := Some (hex_upper (body_of data)),
                     crc16_received :=
                       (if body_end_of data + 2 \<le> length data
                        then Some (''0x'' @ fmt_hex 4 (crc_received_of data)) else None),
                     crc16_calculated :=
                       (if body_end_of data + 2 \<le> length data
                        then Some (''0x'' @ fmt_hex 4 (crc_calculated_of crc data)) else None),
                     crc16_valid :=
                       Some (body_end_of data + 2 \<le> length data \<and>
                             crc_calculated_of crc data = crc_received_of data),
                     body_data :=
                       (if body_of data = [] then None
                        else Some (case fst (parser_parse (get_parser (unat (data ! 5)))
                                               \<lparr>errors = [], warnings = []\<rparr> (body_of data)) of
                                     Inl e \<Rightarrow> BodyNone | Inr parsed \<Rightarrow> BodyDict parsed))\<rparr>)"
    using decode_result [OF six, of crc] d by simp
  obtain es where e: "errors c = envelope_errors data @ es"
    and es: "\<forall>d \<in> set es. \<not> envelope_diag d \<or> (\<exists>e. d = BodyParseFailed e)"
    using decode_errors [OF six, of crc] d by auto
  have n1: "length_mismatches (errors c) = 1"
    using assms(2) length_mismatches_decoder [OF es]
    by (simp add: e length_mismatches_append length_mismatches_envelope)
  have m: "LengthMismatch (1 + 1 + unat (data ! 1) + 2) (length data) \<in> set (errors c)"
    using assms(2) by (simp add: e envelope_errors_def)
  have ne: "errors c \<noteq> []" using m by auto
  have hdr: "start_flag r = Some (''0x'' @ fmt_hex 2 (unat (data ! 0)))"
    "data_length r = Some (unat (data ! 1))"
    "sequence_number r = Some (from_bytes_little (py_slice data 2 4))"
    "encrypt_flag r = Some (''0x'' @ fmt_hex 2 (unat (data ! 4)))"
    "is_encrypted r = Some (unat (data ! 4) = 0x01)"
    "frame_type r = Some (''0x'' @ fmt_hex 2 (unat (data ! 5)))"
    "frame_type_name r = Some (dict_get FRAME_TYPES (unat (data ! 5)) unknown_frame_type_name)"
    by (simp_all add: r header_fields)
  have short: "unat (data ! 1) < 4 \<longrightarrow>
              DataLengthFieldError (unat (data ! 1)) \<in> set (errors c) \<and>
              body_length r = None \<and> crc16_valid r = None \<and> body_data r = None"
    by (simp add: r e header_fields envelope_errors_def)
  have long: "4 \<le> unat (data ! 1) \<longrightarrow>
              body_length r = Some (length (body_of data)) \<and>
              body_hex r = Some (hex_upper (body_of data)) \<and>
              crc16_valid r =
                Some (body_end_of data + 2 \<le> length data \<and>
                      crc (py_slice data 2 (body_end_of data)) =
                      from_bytes_big (py_slice data (body_end_of data) (body_end_of data + 2))) \<and>
              body_data r =
                (if body_of data = [] then None
                 else Some (case fst (parser_parse (get_parser (unat (data ! 5)))
                                        \<lparr>errors = [], warnings = []\<rparr> (body_of data)) of
                              Inl e \<Rightarrow> BodyNone | Inr parsed \<Rightarrow> BodyDict parsed))"
    by (simp add: r crc_calculated_of_def crc_received_of_def)
  have p: "length (clean_input hex_str) mod 2 = 0 \<and> fromhex (clean_input hex_str) = Some data \<longrightarrow>
              parse crc hex_str =
                (\<lparr>fields_of = r, code = 500, msg = MsgParseFailed (take 3 (errors c)),
                  errors_key = Some (errors c),
                  warnings_key = (if warnings c \<noteq> [] then Some (warnings c) else None),
                  data_is_none = False\<rparr>, c)"
  proof
    assume h: "length (clean_input hex_str) mod 2 = 0 \<and> fromhex (clean_input hex_str) = Some data"
    from parse_via_decode [OF conjunct1 [OF h] conjunct2 [OF h] assms(1) d] ne
    show "parse crc hex_str =
                (\<lparr>fields_of = r, code = 500, msg = MsgParseFailed (take 3 (errors c)),
                  errors_key = Some (errors c),
                  warnings_key = (if warnings c \<noteq> [] then Some (warnings c) else None),
                  data_is_none = False\<rparr>, c)"
      by simp
  qed
  show ?thesis
    using d n1 m hdr short long p by blast
qed

theorem length_mismatch_recorded_once_witness:
  "8 \<le> length [0x68, 0x05, 0x00, 0x00, 0x00, 0x03, 0x00, 0x00 :: byte] \<and>
   length [0x68, 0x05, 0x00, 0x00, 0x00, 0x03, 0x00, 0x00 :: byte] \<noteq>
     1 + 1 + unat ([0x68, 0x05, 0x00, 0x00, 0x00, 0x03, 0x00, 0x00 :: byte] ! 1) + 2 \<and>
   length (clean_input ''68 05 0000 00 03 00 00'') mod 2 = 0 \<and>
   fromhex (clean_input ''68 05 0000 00 03 00 00'') =
     Some [0x68, 0x05, 0x00, 0x00, 0x00, 0x03, 0x00, 0x00] \<and>
   (\<exists>r c. decode zero_crc [0x68, 0x05, 0x00, 0x00, 0x00, 0x03, 0x00, 0x00] = (Inr r, c) \<and>
      length_mismatches (errors c) = 1 \<and>
      LengthMismatch 9 8 \<in> set (errors c) \<and>
      frame_type r = Some ''0x03'' \<and>
      body_hex r = Some ''00'' \<and>
      code (fst (parse zero_crc ''68 05 0000 00 03 00 00'')) = 500)"
proof -
  let ?f = "[0x68, 0x05, 0x00, 0x00, 0x00, 0x03, 0x00, 0x00 :: byte]"
  let ?h = "''68 05 0000 00 03 00 00''"
  have 1: "8 \<le> length ?f" by simp
  have 2: "length ?f \<noteq> 1 + 1 + unat (?f ! 1) + 2" by simp
  have 3: "length (clean_input ?h) mod 2 = 0" by code_simp
  have 4: "fromhex (clean_input ?h) = Some ?f" by code_simp
  have 5: "1 + 1 + unat (?f ! 1) + 2 = 9" "length ?f = 8" by simp_all
  have 6: "''0x'' @ fmt_hex 2 (unat (?f ! 5)) = ''0x03''" by code_simp
  have 7: "hex_upper (body_of ?f) = ''00''" by code_simp
  have 8: "4 \<le> unat (?f ! 1)" by simp
  from length_mismatch_recorded_once [OF 1 2, of zero_crc ?h]
  obtain r c where a: "decode zero_crc ?f = (Inr r, c)"
    "length_mismatches (errors c) = 1"
    "LengthMismatch (1 + 1 + unat (?f ! 1) + 2) (length ?f) \<in> set (errors c)"
    "frame_type r = Some (''0x'' @ fmt_hex 2 (unat (?f ! 5)))"
    "4 \<le> unat (?f ! 1) \<longrightarrow> body_hex r = Some (hex_upper (body_of ?f))"
    "length (clean_input ?h) mod 2 = 0 \<and> fromhex (clean_input ?h) = Some ?f \<longrightarrow>
       parse zero_crc ?h =
         (\<lparr>fields_of = r, code = 500, msg = MsgParseFailed (take 3 (errors c)),
           errors_key = Some (errors c),
           warnings_key = (if warnings c \<noteq> [] then Some (warnings c) else None),
           data_is_none = False\<rparr>, c)"
    by blast
  have p: "code (fst (parse zero_crc ?h)) = 500" using a(6) 3 4 by simp
  have m: "LengthMismatch 9 8 \<in> set (errors c)" using a(3) unfolding 5 .
  have ft: "frame_type r = Some ''0x03''" using a(4) unfolding 6 .
  have bh: "body_hex r = Some ''00''" using a(5) 8 unfolding 7 by simp
  show ?thesis using 1 2 3 4 a(1) a(2) m ft bh p by blast
qed

section \<open>The checksum step\<close>



section \<open>Frame types without a name\<close>

text \<open>
  Claim C4 as stated: for every frame whose frame-type code is not in the registry,
  decoding records a warning, the \<open>frame_type_name\<close> field equals "unknown", and the
  body is decoded by the default decoder.  On the frame \<open>68 04 0000 00 99 0000\<close>, with
  type 0x99 and an empty body, the name is the text of \<open>unknown_frame_type_name\<close>, which
  is not the string "unknown", and the result has no \<open>body_data\<close> at all.
\<close>

theorem unknown_frame_type_counterexample:
  "decode zero_crc [0x68, 0x04, 0x00, 0x00, 0x00, 0x99, 0x00, 0x00] =
     (Inr \<lparr>start_flag = Some ''0x68'', data_length = Some 4, sequence_number = Some 0,
           encrypt_flag = Some ''0x00'', is_encrypted = Some False,
           frame_type = Some ''0x99'', frame_type_name = Some unknown_frame_type_name,
           body_length = Some 0, body_hex = Some '''',
           crc16_received = Some ''0x0000'', crc16_calculated = Some ''0x0000'',
           crc16_valid = Some True, body_data = None\<rparr>,
      \<lparr>errors = [], warnings = [UnknownFrameType 0x99]\<rparr>) \<and>
   unknown_frame_type_name \<noteq> ''unknown''"
  by code_simp

text \<open>
  Claim C4 as amended.  For every frame of at least 6 bytes whose frame-type code has no
  entry in \<open>FRAME_TYPES\<close>, decoding records one unknown-frame-type warning and no error
  of its own (the errors are those of the other envelope steps), the \<open>frame_type_name\<close>
  field is the text of \<open>unknown_frame_type_name\<close>, the decoder looked up is the default
  one, and a non-empty body is decoded to the raw body bytes in uppercase hex plus the
  not-yet-implemented note; with an empty body, or a declared length below 4, there is
  no \<open>body_data\<close>.
\<close>

theorem unknown_frame_type_default_decoder:
  assumes "6 \<le> length data" and "unat (data ! 5) \<notin> fst ` set FRAME_TYPES"
  shows "\<exists>r c. decode crc data = (Inr r, c) \<and>
           UnknownFrameType (unat (data ! 5)) \<in> set (warnings c) \<and>
           (\<forall>t. UnknownFrameType t \<notin> set (errors c)) \<and>
           errors c = envelope_errors data \<and>
           frame_type_name r = Some unknown_frame_type_name \<and>
           get_parser (unat (data ! 5)) = DefaultParser \<and>
           (4 \<le> unat (data ! 1) \<and> body_of data \<noteq> [] \<longrightarrow>
              body_data r =
                Some (BodyDict [(''raw'', PStr (hex_upper (body_of data))),
                                (''note'', PStr not_implemented_note)])) \<and>
           (unat (data ! 1) < 4 \<or> body_of data = [] \<longrightarrow> body_data r = None)"
proof -
  have "unat (data ! 5) \<notin> fst ` set parsers" using assms(2) parsers_named by blast
  then have g: "get_parser (unat (data ! 5)) = DefaultParser" by (rule get_parser_unnamed)
  from decode_default [OF assms(1) g, of crc] obtain r where
    d: "decode crc data =
          (Inr r, \<lparr>errors = envelope_errors data, warnings = envelope_warnings crc data\<rparr>)"
    and n: "frame_type_name r =
              Some (dict_get FRAME_TYPES (unat (data ! 5)) unknown_frame_type_name)"
    and b1: "4 \<le> unat (data ! 1) \<and> body_of data \<noteq> [] \<longrightarrow>
                body_data r =
                  Some (BodyDict [(''raw'', PStr (hex_upper (body_of data))),
                                  (''note'', PStr not_implemented_note)])"
    and b2: "unat (data ! 1) < 4 \<or> body_of data = [] \<longrightarrow> body_data r = None"
    by blast
  let ?c = "\<lparr>errors = envelope_errors data, warnings = envelope_warnings crc data\<rparr>"
  have w: "UnknownFrameType (unat (data ! 5)) \<in> set (warnings ?c)"
    using assms(2) by (simp add: envelope_warnings_def)
  have e: "\<forall>t. UnknownFrameType t \<notin> set (errors ?c)"
    by (simp add: envelope_errors_def)
  have e': "errors ?c = envelope_errors data" by simp
  have n': "frame_type_name r = Some unknown_frame_type_name"
    using n name_unnamed [OF assms(2)] by simp
  show ?thesis using d w e e' n' g b1 b2 by blast
qed

theorem unknown_frame_type_default_decoder_witness:
  "6 \<le> length [0x68, 0x05, 0x00, 0x00, 0x00, 0x99, 0xAB, 0x00, 0x00 :: byte] \<and>
   unat ([0x68, 0x05, 0x00, 0x00, 0x00, 0x99, 0xAB, 0x00, 0x00 :: byte] ! 5) \<notin>
     fst ` set FRAME_TYPES \<and>
   4 \<le> unat ([0x68, 0x05, 0x00, 0x00, 0x00, 0x99, 0xAB, 0x00, 0x00 :: byte] ! 1) \<and>
   body_of [0x68, 0x05, 0x00, 0x00, 0x00, 0x99, 0xAB, 0x00, 0x00] \<noteq> [] \<and>
   (\<exists>r c. decode zero_crc [0x68, 0x05, 0x00, 0x00, 0x00, 0x99, 0xAB, 0x00, 0x00] = (Inr r, c) \<and>
      UnknownFrameType 0x99 \<in> set (warnings c) \<and>
      errors c = [] \<and>
      frame_type_name r = Some unknown_frame_type_name \<and>
      body_data r = Some (BodyDict [(''raw'', PStr ''AB''), (''note'', PStr not_implemented_note)]))"
proof -
  let ?f = "[0x68, 0x05, 0x00, 0x00, 0x00, 0x99, 0xAB, 0x00, 0x00 :: byte]"
  have 1: "6 \<le> length ?f" by simp
  have 2: "unat (?f ! 5) \<notin> fst ` set FRAME_TYPES" by code_simp
  have 3: "4 \<le> unat (?f ! 1)" by simp
  have 4: "body_of ?f \<noteq> []" by code_simp
  have 5: "envelope_errors ?f = []" by code_simp
  have 6: "hex_upper (body_of ?f) = ''AB''" by code_simp
  have 7: "unat (?f ! 5) = 0x99" by simp
  from unknown_frame_type_default_decoder [OF 1 2, of zero_crc]
  obtain r c where a: "decode zero_crc ?f = (Inr r, c)"
    "UnknownFrameType (unat (?f ! 5)) \<in> set (warnings c)"
    "errors c = envelope_errors ?f"
    "frame_type_name r = Some unknown_frame_type_name"
    "4 \<le> unat (?f ! 1) \<and> body_of ?f \<noteq> [] \<longrightarrow>
              body_data r =
                Some (BodyDict [(''raw'', PStr (hex_upper (body_of ?f))),
                                (''note'', PStr not_implemented_note)])"
    by blast
  have w: "UnknownFrameType 0x99 \<in> set (warnings c)" using a(2) unfolding 7 .
  have e: "errors c = []" using a(3) unfolding 5 .
  have b: "body_data r = Some (BodyDict [(''raw'', PStr ''AB''), (''note'', PStr not_implemented_note)])"
    using a(5) 3 4 unfolding 6 by blast
  have A: "\<exists>r c. decode zero_crc ?f = (Inr r, c) \<and>
      UnknownFrameType 0x99 \<in> set (warnings c) \<and>
      errors c = [] \<and>
      frame_type_name r = Some unknown_frame_type_name \<and>
      body_data r = Some (BodyDict [(''raw'', PStr ''AB''), (''note'', PStr not_implemented_note)])"
    using a(1) w e a(4) b by blast
  show ?thesis using 1 2 3 4 A by (intro conjI)
qed

section \<open>Frame types with a name and no decoder\<close>

text \<open>
  Claim C9 as stated: for every frame whose frame-type code is one of 0x05, 0x06, 0x09,
  0x0A, 0xF0 and 0xF1, decoding emits no unknown-frame-type warning, yet the body is
  decoded by the default raw-hex decoder.  On the frame \<open>68 04 0000 00 05 0000\<close>, with
  type 0x05 and an empty body, no decoder runs and the result has no \<open>body_data\<close>.
\<close>

theorem named_code_counterexample:
  "decode zero_crc [0x68, 0x04, 0x00, 0x00, 0x00, 0x05, 0x00, 0x00] =
     (Inr \<lparr>start_flag = Some ''0x68'', data_length = Some 4, sequence_number = Some 0,
           encrypt_flag = Some ''0x00'', is_encrypted = Some False,
           frame_type = Some ''0x05'',
           frame_type_name = Some (dict_get FRAME_TYPES 0x05 unknown_frame_type_name),
           body_length = Some 0, body_hex = Some '''',
           crc16_received = Some ''0x0000'', crc16_calculated = Some ''0x0000'',
           crc16_valid = Some True, body_data = None\<rparr>,
      \<lparr>errors = [], warnings = []\<rparr>)"
  by code_simp

text \<open>
  Claim C9 as amended.  The codes with a name strictly contain the codes with a decoder
  of their own, and the difference is exactly 0x05, 0x06, 0x09, 0x0A, 0xF0 and 0xF1.
  For every frame of at least 6 bytes with one of these codes, decoding records no
  unknown-frame-type message, the name is the one of the table, the decoder looked up
  is the default one, and a non-empty body is decoded to the raw body bytes in
  uppercase hex plus the not-yet-implemented note; with an empty body, or a declared
  length below 4, there is no \<open>body_data\<close>.
\<close>

theorem named_codes_use_default_decoder:
  assumes "6 \<le> length data" and "unat (data ! 5) \<in> {0x05, 0x06, 0x09, 0x0A, 0xF0, 0xF1}"
  shows "fst ` set parsers \<subset> fst ` set FRAME_TYPES \<and>
         fst ` set FRAME_TYPES - fst ` set parsers = {0x05, 0x06, 0x09, 0x0A, 0xF0, 0xF1} \<and>
         (\<exists>r c. decode crc data = (Inr r, c) \<and>
            (\<forall>t. UnknownFrameType t \<notin> set (warnings c)) \<and>
            (\<forall>t. UnknownFrameType t \<notin> set (errors c)) \<and>
            errors c = envelope_errors data \<and>
            frame_type_name r =
              Some (dict_get FRAME_TYPES (unat (data ! 5)) unknown_frame_type_name) \<and>
            frame_type_name r \<noteq> Some unknown_frame_type_name \<and>
            get_parser (unat (data ! 5)) = DefaultParser \<and>
            (4 \<le> unat (data ! 1) \<and> body_of data \<noteq> [] \<longrightarrow>
               body_data r =
                 Some (BodyDict [(''raw'', PStr (hex_upper (body_of data))),
                                 (''note'', PStr not_implemented_note)])) \<and>
            (unat (data ! 1) < 4 \<or> body_of data = [] \<longrightarrow> body_data r = None))"
proof -
  have m: "unat (data ! 5) \<in> fst ` set FRAME_TYPES - fst ` set parsers"
    using assms(2) unfolding named_codes .
  have named: "unat (data ! 5) \<in> fst ` set FRAME_TYPES"
    and nodec: "unat (data ! 5) \<notin> fst ` set parsers"
    using m by blast+
  have strict: "fst ` set parsers \<subset> fst ` set FRAME_TYPES"
    using parsers_named named nodec by blast
  have g: "get_parser (unat (data ! 5)) = DefaultParser" using nodec by (rule get_parser_unnamed)
  from decode_default [OF assms(1) g, of crc] obtain r where
    d: "decode crc data =
          (Inr r, \<lparr>errors = envelope_errors data, warnings = envelope_warnings crc data\<rparr>)"
    and n: "frame_type_name r =
              Some (dict_get FRAME_TYPES (unat (data ! 5)) unknown_frame_type_name)"
    and b1: "4 \<le> unat (data ! 1) \<and> body_of data \<noteq> [] \<longrightarrow>
                body_data r =
                  Some (BodyDict [(''raw'', PStr (hex_upper (body_of data))),
                                  (''note'', PStr not_implemented_note)])"
    and b2: "unat (data ! 1) < 4 \<or> body_of data = [] \<longrightarrow> body_data r = None"
    by blast
  let ?c = "\<lparr>errors = envelope_errors data, warnings = envelope_warnings crc data\<rparr>"
  have w: "\<forall>t. UnknownFrameType t \<notin> set (warnings ?c)"
    using named by (simp add: envelope_warnings_def)
  have e: "\<forall>t. UnknownFrameType t \<notin> set (errors ?c)"
    by (simp add: envelope_errors_def)
  have e': "errors ?c = envelope_errors data" by simp
  have "dict_get FRAME_TYPES (unat (data ! 5)) unknown_frame_type_name \<noteq> unknown_frame_type_name"
    using assms(2) named_without_decoder by auto
  then have n': "frame_type_name r \<noteq> Some unknown_frame_type_name" using n by simp
  have ex: "\<exists>r c. decode crc data = (Inr r, c) \<and>
            (\<forall>t. UnknownFrameType t \<notin> set (warnings c)) \<and>
            (\<forall>t. UnknownFrameType t \<notin> set (errors c)) \<and>
            errors c = envelope_errors data \<and>
            frame_type_name r =
              Some (dict_get FRAME_TYPES (unat (data ! 5)) unknown_frame_type_name) \<and>
            frame_type_name r \<noteq> Some unknown_frame_type_name \<and>
            get_parser (unat (data ! 5)) = DefaultParser \<and>
            (4 \<le> unat (data ! 1) \<and> body_of data \<noteq> [] \<longrightarrow>
               body_data r =
                 Some (BodyDict [(''raw'', PStr (hex_upper (body_of data))),
                                 (''note'', PStr not_implemented_note)])) \<and>
            (unat (data ! 1) < 4 \<or> body_of data = [] \<longrightarrow> body_data r = None)"
    using d w e e' n n' g b1 b2 by blast
  show ?thesis using strict named_codes ex by (intro conjI)
qed

theorem named_codes_use_default_decoder_witness:
  "6 \<le> length [0x68, 0x05, 0x00, 0x00, 0x00, 0xF0, 0xAB, 0x00, 0x00 :: byte] \<and>
   unat ([0x68, 0x05, 0x00, 0x00, 0x00, 0xF0, 0xAB, 0x00, 0x00 :: byte] ! 5) \<in>
     {0x05, 0x06, 0x09, 0x0A, 0xF0, 0xF1} \<and>
   4 \<le> unat ([0x68, 0x05, 0x00, 0x00, 0x00, 0xF0, 0xAB, 0x00, 0x00 :: byte] ! 1) \<and>
   body_of [0x68, 0x05, 0x00, 0x00, 0x00, 0xF0, 0xAB, 0x00, 0x00] \<noteq> [] \<and>
   (\<exists>r c. decode zero_crc [0x68, 0x05, 0x00, 0x00, 0x00, 0xF0, 0xAB, 0x00, 0x00] = (Inr r, c) \<and>
      (\<forall>t. UnknownFrameType t \<notin> set (warnings c)) \<and>
      errors c = [] \<and>
      body_data r = Some (BodyDict [(''raw'', PStr ''AB''), (''note'', PStr not_implemented_note)]))"
proof -
  let ?f = "[0x68, 0x05, 0x00, 0x00, 0x00, 0xF0, 0xAB, 0x00, 0x00 :: byte]"
  have 1: "6 \<le> length ?f" by simp
  have 2: "unat (?f ! 5) \<in> {0x05, 0x06, 0x09, 0x0A, 0xF0, 0xF1}" by simp
  have 3: "4 \<le> unat (?f ! 1)" by simp
  have 4: "body_of ?f \<noteq> []" by code_simp
  have 5: "envelope_errors ?f = []" by code_simp
  have 6: "hex_upper (body_of ?f) = ''AB''" by code_simp
  from named_codes_use_default_decoder [OF 1 2, of zero_crc]
  obtain r c where a: "decode zero_crc ?f = (Inr r, c)"
    "\<forall>t. UnknownFrameType t \<notin> set (warnings c)"
    "errors c = envelope_errors ?f"
    "4 \<le> unat (?f ! 1) \<and> body_of ?f \<noteq> [] \<longrightarrow>
              body_data r =
                Some (BodyDict [(''raw'', PStr (hex_upper (body_of ?f))),
                                (''note'', PStr not_implemented_note)])"
    by blast
  have e: "errors c = []" using a(3) unfolding 5 .
  have b: "body_data r = Some (BodyDict [(''raw'', PStr ''AB''), (''note'', PStr not_implemented_note)])"
    using a(4) 3 4 unfolding 6 by blast
  have A: "\<exists>r c. decode zero_crc ?f = (Inr r, c) \<and>
      (\<forall>t. UnknownFrameType t \<notin> set (warnings c)) \<and>
      errors c = [] \<and>
      body_data r = Some (BodyDict [(''raw'', PStr ''AB''), (''note'', PStr not_implemented_note)])"
    using a(1) a(2) e b by blast
  show ?thesis using 1 2 3 4 A by (intro conjI)
qed

section \<open>The status code\<close>

text \<open>
  Claim C1 as stated: for every input hex string, the status code is 500 if and only if
  at least one error was recorded during that decode, and 200 otherwise.  The empty
  input is rejected before \<open>_parse_structure\<close> runs: \<open>_error_response\<close> answers with
  code 500 and a message, while the list of recorded errors is empty and the response
  has no \<open>errors\<close> key.
\<close>

theorem early_rejection_counterexample:
  "parse zero_crc '''' =
     (\<lparr>fields_of = empty_result, code = 500, msg = MsgFrameTooShort 0, errors_key = None,
       warnings_key = None, data_is_none = True\<rparr>,
      \<lparr>errors = [], warnings = []\<rparr>)"
  by code_simp

text \<open>
  Claim C1 as amended.  For every input that reaches \<open>_parse_structure\<close>, that is an
  even number of hex digits giving at least 8 bytes, the status code is 500 if at least
  one error was recorded and 200 otherwise, whatever the warnings are, and the response
  carries the \<open>errors\<close> and \<open>warnings\<close> keys exactly when the lists are not empty.  Every
  other input is answered with code 500 although no error and no warning was recorded.
  Inputs are the strings over the 256 characters of \<open>char\<close>.
\<close>

theorem status_code_follows_errors:
  "(reaches_structure hex_str \<longrightarrow>
      code (fst (parse crc hex_str)) =
        (if errors (snd (parse crc hex_str)) = [] then 200 else 500) \<and>
      errors_key (fst (parse crc hex_str)) =
        (if errors (snd (parse crc hex_str)) = [] then None
         else Some (errors (snd (parse crc hex_str)))) \<and>
      warnings_key (fst (parse crc hex_str)) =
        (if warnings (snd (parse crc hex_str)) = [] then None
         else Some (warnings (snd (parse crc hex_str)))) \<and>
      \<not> data_is_none (fst (parse crc hex_str))) \<and>
   (\<not> reaches_structure hex_str \<longrightarrow>
      code (fst (parse crc hex_str)) = 500 \<and>
      errors (snd (parse crc hex_str)) = [] \<and>
      warnings (snd (parse crc hex_str)) = [] \<and>
      errors_key (fst (parse crc hex_str)) = None \<and>
      data_is_none (fst (parse crc hex_str)))"
proof (intro conjI impI)
  assume "\<not> reaches_structure hex_str"
  then obtain m where "parse crc hex_str = (error_response m, \<lparr>errors = [], warnings = []\<rparr>)"
    using parse_rejects by blast
  then show "code (fst (parse crc hex_str)) = 500"
    "errors (snd (parse crc hex_str)) = []"
    "warnings (snd (parse crc hex_str)) = []"
    "errors_key (fst (parse crc hex_str)) = None"
    "data_is_none (fst (parse crc hex_str))"
    by (simp_all add: error_response_def)
next
  assume a: "reaches_structure hex_str"
  then obtain data where h: "length (clean_input hex_str) mod 2 = 0"
      "fromhex (clean_input hex_str) = Some data" "8 \<le> length data"
    by (auto simp: reaches_structure_def split: option.splits)
  have six: "6 \<le> length data" using h(3) by simp
  obtain r c where d: "decode crc data = (Inr r, c)"
    using decode_result [OF six, of crc] by (cases "decode crc data") auto
  note p = parse_via_decode [OF h d]
  show "code (fst (parse crc hex_str)) =
        (if errors (snd (parse crc hex_str)) = [] then 200 else 500)"
    by (simp add: p)
  show "errors_key (fst (parse crc hex_str)) =
        (if errors (snd (parse crc hex_str)) = [] then None
         else Some (errors (snd (parse crc hex_str))))"
    by (simp add: p)
  show "warnings_key (fst (parse crc hex_str)) =
        (if warnings (snd (parse crc hex_str)) = [] then None
         else Some (warnings (snd (parse crc hex_str))))"
    by (simp add: p)
  show "\<not> data_is_none (fst (parse crc hex_str))"
    by (simp add: p)
qed

theorem status_code_follows_errors_witness:
  "reaches_structure ''68 04 0000 00 99 0000'' \<and>
   warnings (snd (parse zero_crc ''68 04 0000 00 99 0000'')) = [UnknownFrameType 0x99] \<and>
   errors (snd (parse zero_crc ''68 04 0000 00 99 0000'')) = [] \<and>
   code (fst (parse zero_crc ''68 04 0000 00 99 0000'')) = 200 \<and>
   reaches_structure ''68 05 0000 00 03 0000'' \<and>
   errors (snd (parse zero_crc ''68 05 0000 00 03 0000'')) \<noteq> [] \<and>
   code (fst (parse zero_crc ''68 05 0000 00 03 0000'')) = 500 \<and>
   \<not> reaches_structure ''6804'' \<and>
   code (fst (parse zero_crc ''6804'')) = 500 \<and>
   errors (snd (parse zero_crc ''6804'')) = []"
proof -
  let ?a = "''68 04 0000 00 99 0000''"
  let ?b = "''68 05 0000 00 03 0000''"
  have a1: "reaches_structure ?a" by code_simp
  have a2: "warnings (snd (parse zero_crc ?a)) = [UnknownFrameType 0x99]" by code_simp
  have a3: "errors (snd (parse zero_crc ?a)) = []" by code_simp
  have b1: "reaches_structure ?b" by code_simp
  have b2: "errors (snd (parse zero_crc ?b)) \<noteq> []" by code_simp
  have c1: "\<not> reaches_structure ''6804''" by code_simp
  have a4: "code (fst (parse zero_crc ?a)) = 200"
    using status_code_follows_errors [of ?a zero_crc] a1 a3 by simp
  have b3: "code (fst (parse zero_crc ?b)) = 500"
    using status_code_follows_errors [of ?b zero_crc] b1 b2 by simp
  have c2: "code (fst (parse zero_crc ''6804'')) = 500 \<and> errors (snd (parse zero_crc ''6804'')) = []"
    using status_code_follows_errors [of "''6804''" zero_crc] c1 by simp
  show ?thesis using a1 a2 a3 a4 b1 b2 b3 c1 c2 by (intro conjI) simp_all
qed

end
